theory Spec2Isabelle
  imports Main "HOL-Library.Word"
begin

unbundle bit_operations_syntax

text \<open>
  The ARIA block cipher of RFC 5794 as aria.c implements it: blocks of two 64-bit words,
  four substitution tables, two substitution layers, the diffusion layer, the key schedule
  and the crypt engine, with the encrypting and decrypting entry points for keys of 128, 192
  and 256 bits. The definitions follow the C functions one by one and keep their names; the
  theorems after them are about these definitions.
\<close>

section \<open>Block arithmetic (aria.c: aria_u128_t, rol, ror, xor)\<close>

text \<open>
  \<^verbatim>\<open>typedef struct aria_u128_s { uint64_t left; uint64_t right; } aria_u128_t;\<close>
  A block is two unsigned 64-bit words; \<open>left\<close> is the more significant half.
\<close>

record aria_u128_t =
  left :: "64 word"
  right :: "64 word"

text \<open>
  \<^verbatim>\<open>rol (aria_u128_t x, uint8_t cnt) /* 0 < cnt < 64 */\<close>:
  \<open>y.left = (x.left << cnt) | (x.right >> (64 - cnt))\<close> and symmetrically for
  \<open>y.right\<close>. The count is a \<open>uint8_t\<close>, promoted to \<open>int\<close> in \<open>64 - cnt\<close>; the
  callers pass 19, 31 and 61 only.
\<close>

definition rol :: "aria_u128_t \<Rightarrow> nat \<Rightarrow> aria_u128_t" where
  "rol x cnt =
     \<lparr> left  = push_bit cnt (left x)  OR drop_bit (64 - cnt) (right x),
       right = push_bit cnt (right x) OR drop_bit (64 - cnt) (left x) \<rparr>"

definition ror :: "aria_u128_t \<Rightarrow> nat \<Rightarrow> aria_u128_t" where
  "ror x cnt =
     \<lparr> left  = drop_bit cnt (left x)  OR push_bit (64 - cnt) (right x),
       right = drop_bit cnt (right x) OR push_bit (64 - cnt) (left x) \<rparr>"

text \<open>The source's \<open>xor\<close> on blocks (renamed: \<open>xor\<close> is the bit operation of HOL).\<close>

definition xor128 :: "aria_u128_t \<Rightarrow> aria_u128_t \<Rightarrow> aria_u128_t" where
  "xor128 x y = \<lparr> left = left x XOR left y, right = right x XOR right y \<rparr>"

section \<open>Substitution tables (aria.c: SB1, SB2, SB3, SB4)\<close>

definition SB1 :: "8 word list" where
  "SB1 = [
     0x63, 0x7c, 0x77, 0x7b, 0xf2, 0x6b, 0x6f, 0xc5, 0x30, 0x01, 0x67, 0x2b, 0xfe, 0xd7, 0xab, 0x76,
     0xca, 0x82, 0xc9, 0x7d, 0xfa, 0x59, 0x47, 0xf0, 0xad, 0xd4, 0xa2, 0xaf, 0x9c, 0xa4, 0x72, 0xc0,
     0xb7, 0xfd, 0x93, 0x26, 0x36, 0x3f, 0xf7, 0xcc, 0x34, 0xa5, 0xe5, 0xf1, 0x71, 0xd8, 0x31, 0x15,
     0x04, 0xc7, 0x23, 0xc3, 0x18, 0x96, 0x05, 0x9a, 0x07, 0x12, 0x80, 0xe2, 0xeb, 0x27, 0xb2, 0x75,
     0x09, 0x83, 0x2c, 0x1a, 0x1b, 0x6e, 0x5a, 0xa0, 0x52, 0x3b, 0xd6, 0xb3, 0x29, 0xe3, 0x2f, 0x84,
     0x53, 0xd1, 0x00, 0xed, 0x20, 0xfc, 0xb1, 0x5b, 0x6a, 0xcb, 0xbe, 0x39, 0x4a, 0x4c, 0x58, 0xcf,
     0xd0, 0xef, 0xaa, 0xfb, 0x43, 0x4d, 0x33, 0x85, 0x45, 0xf9, 0x02, 0x7f, 0x50, 0x3c, 0x9f, 0xa8,
     0x51, 0xa3, 0x40, 0x8f, 0x92, 0x9d, 0x38, 0xf5, 0xbc, 0xb6, 0xda, 0x21, 0x10, 0xff, 0xf3, 0xd2,
     0xcd, 0x0c, 0x13, 0xec, 0x5f, 0x97, 0x44, 0x17, 0xc4, 0xa7, 0x7e, 0x3d, 0x64, 0x5d, 0x19, 0x73,
     0x60, 0x81, 0x4f, 0xdc, 0x22, 0x2a, 0x90, 0x88, 0x46, 0xee, 0xb8, 0x14, 0xde, 0x5e, 0x0b, 0xdb,
     0xe0, 0x32, 0x3a, 0x0a, 0x49, 0x06, 0x24, 0x5c, 0xc2, 0xd3, 0xac, 0x62, 0x91, 0x95, 0xe4, 0x79,
     0xe7, 0xc8, 0x37, 0x6d, 0x8d, 0xd5, 0x4e, 0xa9, 0x6c, 0x56, 0xf4, 0xea, 0x65, 0x7a, 0xae, 0x08,
     0xba, 0x78, 0x25, 0x2e, 0x1c, 0xa6, 0xb4, 0xc6, 0xe8, 0xdd, 0x74, 0x1f, 0x4b, 0xbd, 0x8b, 0x8a,
     0x70, 0x3e, 0xb5, 0x66, 0x48, 0x03, 0xf6, 0x0e, 0x61, 0x35, 0x57, 0xb9, 0x86, 0xc1, 0x1d, 0x9e,
     0xe1, 0xf8, 0x98, 0x11, 0x69, 0xd9, 0x8e, 0x94, 0x9b, 0x1e, 0x87, 0xe9, 0xce, 0x55, 0x28, 0xdf,
     0x8c, 0xa1, 0x89, 0x0d, 0xbf, 0xe6, 0x42, 0x68, 0x41, 0x99, 0x2d, 0x0f, 0xb0, 0x54, 0xbb, 0x16]"

definition SB2 :: "8 word list" where
  "SB2 = [
     0xe2, 0x4e, 0x54, 0xfc, 0x94, 0xc2, 0x4a, 0xcc, 0x62, 0x0d, 0x6a, 0x46, 0x3c, 0x4d, 0x8b, 0xd1,
     0x5e, 0xfa, 0x64, 0xcb, 0xb4, 0x97, 0xbe, 0x2b, 0xbc, 0x77, 0x2e, 0x03, 0xd3, 0x19, 0x59, 0xc1,
     0x1d, 0x06, 0x41, 0x6b, 0x55, 0xf0, 0x99, 0x69, 0xea, 0x9c, 0x18, 0xae, 0x63, 0xdf, 0xe7, 0xbb,
     0x00, 0x73, 0x66, 0xfb, 0x96, 0x4c, 0x85, 0xe4, 0x3a, 0x09, 0x45, 0xaa, 0x0f, 0xee, 0x10, 0xeb,
     0x2d, 0x7f, 0xf4, 0x29, 0xac, 0xcf, 0xad, 0x91, 0x8d, 0x78, 0xc8, 0x95, 0xf9, 0x2f, 0xce, 0xcd,
     0x08, 0x7a, 0x88, 0x38, 0x5c, 0x83, 0x2a, 0x28, 0x47, 0xdb, 0xb8, 0xc7, 0x93, 0xa4, 0x12, 0x53,
     0xff, 0x87, 0x0e, 0x31, 0x36, 0x21, 0x58, 0x48, 0x01, 0x8e, 0x37, 0x74, 0x32, 0xca, 0xe9, 0xb1,
     0xb7, 0xab, 0x0c, 0xd7, 0xc4, 0x56, 0x42, 0x26, 0x07, 0x98, 0x60, 0xd9, 0xb6, 0xb9, 0x11, 0x40,
     0xec, 0x20, 0x8c, 0xbd, 0xa0, 0xc9, 0x84, 0x04, 0x49, 0x23, 0xf1, 0x4f, 0x50, 0x1f, 0x13, 0xdc,
     0xd8, 0xc0, 0x9e, 0x57, 0xe3, 0xc3, 0x7b, 0x65, 0x3b, 0x02, 0x8f, 0x3e, 0xe8, 0x25, 0x92, 0xe5,
     0x15, 0xdd, 0xfd, 0x17, 0xa9, 0xbf, 0xd4, 0x9a, 0x7e, 0xc5, 0x39, 0x67, 0xfe, 0x76, 0x9d, 0x43,
     0xa7, 0xe1, 0xd0, 0xf5, 0x68, 0xf2, 0x1b, 0x34, 0x70, 0x05, 0xa3, 0x8a, 0xd5, 0x79, 0x86, 0xa8,
     0x30, 0xc6, 0x51, 0x4b, 0x1e, 0xa6, 0x27, 0xf6, 0x35, 0xd2, 0x6e, 0x24, 0x16, 0x82, 0x5f, 0xda,
     0xe6, 0x75, 0xa2, 0xef, 0x2c, 0xb2, 0x1c, 0x9f, 0x5d, 0x6f, 0x80, 0x0a, 0x72, 0x44, 0x9b, 0x6c,
     0x90, 0x0b, 0x5b, 0x33, 0x7d, 0x5a, 0x52, 0xf3, 0x61, 0xa1, 0xf7, 0xb0, 0xd6, 0x3f, 0x7c, 0x6d,
     0xed, 0x14, 0xe0, 0xa5, 0x3d, 0x22, 0xb3, 0xf8, 0x89, 0xde, 0x71, 0x1a, 0xaf, 0xba, 0xb5, 0x81]"

definition SB3 :: "8 word list" where
  "SB3 = [
     0x52, 0x09, 0x6a, 0xd5, 0x30, 0x36, 0xa5, 0x38, 0xbf, 0x40, 0xa3, 0x9e, 0x81, 0xf3, 0xd7, 0xfb,
     0x7c, 0xe3, 0x39, 0x82, 0x9b, 0x2f, 0xff, 0x87, 0x34, 0x8e, 0x43, 0x44, 0xc4, 0xde, 0xe9, 0xcb,
     0x54, 0x7b, 0x94, 0x32, 0xa6, 0xc2, 0x23, 0x3d, 0xee, 0x4c, 0x95, 0x0b, 0x42, 0xfa, 0xc3, 0x4e,
     0x08, 0x2e, 0xa1, 0x66, 0x28, 0xd9, 0x24, 0xb2, 0x76, 0x5b, 0xa2, 0x49, 0x6d, 0x8b, 0xd1, 0x25,
     0x72, 0xf8, 0xf6, 0x64, 0x86, 0x68, 0x98, 0x16, 0xd4, 0xa4, 0x5c, 0xcc, 0x5d, 0x65, 0xb6, 0x92,
     0x6c, 0x70, 0x48, 0x50, 0xfd, 0xed, 0xb9, 0xda, 0x5e, 0x15, 0x46, 0x57, 0xa7, 0x8d, 0x9d, 0x84,
     0x90, 0xd8, 0xab, 0x00, 0x8c, 0xbc, 0xd3, 0x0a, 0xf7, 0xe4, 0x58, 0x05, 0xb8, 0xb3, 0x45, 0x06,
     0xd0, 0x2c, 0x1e, 0x8f, 0xca, 0x3f, 0x0f, 0x02, 0xc1, 0xaf, 0xbd, 0x03, 0x01, 0x13, 0x8a, 0x6b,
     0x3a, 0x91, 0x11, 0x41, 0x4f, 0x67, 0xdc, 0xea, 0x97, 0xf2, 0xcf, 0xce, 0xf0, 0xb4, 0xe6, 0x73,
     0x96, 0xac, 0x74, 0x22, 0xe7, 0xad, 0x35, 0x85, 0xe2, 0xf9, 0x37, 0xe8, 0x1c, 0x75, 0xdf, 0x6e,
     0x47, 0xf1, 0x1a, 0x71, 0x1d, 0x29, 0xc5, 0x89, 0x6f, 0xb7, 0x62, 0x0e, 0xaa, 0x18, 0xbe, 0x1b,
     0xfc, 0x56, 0x3e, 0x4b, 0xc6, 0xd2, 0x79, 0x20, 0x9a, 0xdb, 0xc0, 0xfe, 0x78, 0xcd, 0x5a, 0xf4,
     0x1f, 0xdd, 0xa8, 0x33, 0x88, 0x07, 0xc7, 0x31, 0xb1, 0x12, 0x10, 0x59, 0x27, 0x80, 0xec, 0x5f,
     0x60, 0x51, 0x7f, 0xa9, 0x19, 0xb5, 0x4a, 0x0d, 0x2d, 0xe5, 0x7a, 0x9f, 0x93, 0xc9, 0x9c, 0xef,
     0xa0, 0xe0, 0x3b, 0x4d, 0xae, 0x2a, 0xf5, 0xb0, 0xc8, 0xeb, 0xbb, 0x3c, 0x83, 0x53, 0x99, 0x61,
     0x17, 0x2b, 0x04, 0x7e, 0xba, 0x77, 0xd6, 0x26, 0xe1, 0x69, 0x14, 0x63, 0x55, 0x21, 0x0c, 0x7d]"

definition SB4 :: "8 word list" where
  "SB4 = [
     0x30, 0x68, 0x99, 0x1b, 0x87, 0xb9, 0x21, 0x78, 0x50, 0x39, 0xdb, 0xe1, 0x72, 0x09, 0x62, 0x3c,
     0x3e, 0x7e, 0x5e, 0x8e, 0xf1, 0xa0, 0xcc, 0xa3, 0x2a, 0x1d, 0xfb, 0xb6, 0xd6, 0x20, 0xc4, 0x8d,
     0x81, 0x65, 0xf5, 0x89, 0xcb, 0x9d, 0x77, 0xc6, 0x57, 0x43, 0x56, 0x17, 0xd4, 0x40, 0x1a, 0x4d,
     0xc0, 0x63, 0x6c, 0xe3, 0xb7, 0xc8, 0x64, 0x6a, 0x53, 0xaa, 0x38, 0x98, 0x0c, 0xf4, 0x9b, 0xed,
     0x7f, 0x22, 0x76, 0xaf, 0xdd, 0x3a, 0x0b, 0x58, 0x67, 0x88, 0x06, 0xc3, 0x35, 0x0d, 0x01, 0x8b,
     0x8c, 0xc2, 0xe6, 0x5f, 0x02, 0x24, 0x75, 0x93, 0x66, 0x1e, 0xe5, 0xe2, 0x54, 0xd8, 0x10, 0xce,
     0x7a, 0xe8, 0x08, 0x2c, 0x12, 0x97, 0x32, 0xab, 0xb4, 0x27, 0x0a, 0x23, 0xdf, 0xef, 0xca, 0xd9,
     0xb8, 0xfa, 0xdc, 0x31, 0x6b, 0xd1, 0xad, 0x19, 0x49, 0xbd, 0x51, 0x96, 0xee, 0xe4, 0xa8, 0x41,
     0xda, 0xff, 0xcd, 0x55, 0x86, 0x36, 0xbe, 0x61, 0x52, 0xf8, 0xbb, 0x0e, 0x82, 0x48, 0x69, 0x9a,
     0xe0, 0x47, 0x9e, 0x5c, 0x04, 0x4b, 0x34, 0x15, 0x79, 0x26, 0xa7, 0xde, 0x29, 0xae, 0x92, 0xd7,
     0x84, 0xe9, 0xd2, 0xba, 0x5d, 0xf3, 0xc5, 0xb0, 0xbf, 0xa4, 0x3b, 0x71, 0x44, 0x46, 0x2b, 0xfc,
     0xeb, 0x6f, 0xd5, 0xf6, 0x14, 0xfe, 0x7c, 0x70, 0x5a, 0x7d, 0xfd, 0x2f, 0x18, 0x83, 0x16, 0xa5,
     0x91, 0x1f, 0x05, 0x95, 0x74, 0xa9, 0xc1, 0x5b, 0x4a, 0x85, 0x6d, 0x13, 0x07, 0x4f, 0x4e, 0x45,
     0xb2, 0x0f, 0xc9, 0x1c, 0xa6, 0xbc, 0xec, 0x73, 0x90, 0x7b, 0xcf, 0x59, 0x8f, 0xa1, 0xf9, 0x2d,
     0xf2, 0xb1, 0x00, 0x94, 0x37, 0x9f, 0xd0, 0x2e, 0x9c, 0x6e, 0x28, 0x3f, 0x80, 0xf0, 0x3d, 0xd3,
     0x25, 0x8a, 0xb5, 0xe7, 0x42, 0xb3, 0xc7, 0xea, 0xf7, 0x4c, 0x11, 0x33, 0x03, 0xa2, 0xac, 0x60]"

section \<open>Byte extraction (aria.c: the macros x0 .. x15)\<close>

text \<open>
  \<^verbatim>\<open>#define x0  ((x.left  >> 56)       )\<close>, \<^verbatim>\<open>#define x1  ((x.left  >> 48) & 0xff)\<close>, ...
  Each macro is a \<open>uint64_t\<close> expression; \<open>x0\<close> and \<open>x8\<close> carry no mask.
\<close>

definition x0 :: "aria_u128_t \<Rightarrow> 64 word" where "x0 x = drop_bit 56 (left x)"
definition x1 :: "aria_u128_t \<Rightarrow> 64 word" where "x1 x = drop_bit 48 (left x) AND 0xff"
definition x2 :: "aria_u128_t \<Rightarrow> 64 word" where "x2 x = drop_bit 40 (left x) AND 0xff"
definition x3 :: "aria_u128_t \<Rightarrow> 64 word" where "x3 x = drop_bit 32 (left x) AND 0xff"
definition x4 :: "aria_u128_t \<Rightarrow> 64 word" where "x4 x = drop_bit 24 (left x) AND 0xff"
definition x5 :: "aria_u128_t \<Rightarrow> 64 word" where "x5 x = drop_bit 16 (left x) AND 0xff"
definition x6 :: "aria_u128_t \<Rightarrow> 64 word" where "x6 x = drop_bit 8 (left x) AND 0xff"
definition x7 :: "aria_u128_t \<Rightarrow> 64 word" where "x7 x = left x AND 0xff"
definition x8 :: "aria_u128_t \<Rightarrow> 64 word" where "x8 x = drop_bit 56 (right x)"
definition x9 :: "aria_u128_t \<Rightarrow> 64 word" where "x9 x = drop_bit 48 (right x) AND 0xff"
definition x10 :: "aria_u128_t \<Rightarrow> 64 word" where "x10 x = drop_bit 40 (right x) AND 0xff"
definition x11 :: "aria_u128_t \<Rightarrow> 64 word" where "x11 x = drop_bit 32 (right x) AND 0xff"
definition x12 :: "aria_u128_t \<Rightarrow> 64 word" where "x12 x = drop_bit 24 (right x) AND 0xff"
definition x13 :: "aria_u128_t \<Rightarrow> 64 word" where "x13 x = drop_bit 16 (right x) AND 0xff"
definition x14 :: "aria_u128_t \<Rightarrow> 64 word" where "x14 x = drop_bit 8 (right x) AND 0xff"
definition x15 :: "aria_u128_t \<Rightarrow> 64 word" where "x15 x = right x AND 0xff"

section \<open>Substitution layers (aria.c: aria_SL1, aria_SL2)\<close>

text \<open>
  \<^verbatim>\<open>((uint64_t )SB1[x0] << 56)\<close>: the table entry, a \<open>uint8_t\<close>, is widened to 64 bits
  and shifted into place. \<open>sb T i\<close> is the widened lookup \<open>(uint64_t)T[i]\<close>; every index the
  macros produce is below 256, the length of each table.
\<close>

definition sb :: "8 word list \<Rightarrow> 64 word \<Rightarrow> 64 word" where
  "sb T i = ucast (T ! unat i)"

definition aria_SL1 :: "aria_u128_t \<Rightarrow> aria_u128_t" where
  "aria_SL1 x =
     \<lparr> left =
           push_bit 56 (sb SB1 (x0 x))
        OR push_bit 48 (sb SB2 (x1 x))
        OR push_bit 40 (sb SB3 (x2 x))
        OR push_bit 32 (sb SB4 (x3 x))
        OR push_bit 24 (sb SB1 (x4 x))
        OR push_bit 16 (sb SB2 (x5 x))
        OR push_bit 8 (sb SB3 (x6 x))
        OR sb SB4 (x7 x),
       right =
           push_bit 56 (sb SB1 (x8 x))
        OR push_bit 48 (sb SB2 (x9 x))
        OR push_bit 40 (sb SB3 (x10 x))
        OR push_bit 32 (sb SB4 (x11 x))
        OR push_bit 24 (sb SB1 (x12 x))
        OR push_bit 16 (sb SB2 (x13 x))
        OR push_bit 8 (sb SB3 (x14 x))
        OR sb SB4 (x15 x) \<rparr>"

definition aria_SL2 :: "aria_u128_t \<Rightarrow> aria_u128_t" where
  "aria_SL2 x =
     \<lparr> left =
           push_bit 56 (sb SB3 (x0 x))
        OR push_bit 48 (sb SB4 (x1 x))
        OR push_bit 40 (sb SB1 (x2 x))
        OR push_bit 32 (sb SB2 (x3 x))
        OR push_bit 24 (sb SB3 (x4 x))
        OR push_bit 16 (sb SB4 (x5 x))
        OR push_bit 8 (sb SB1 (x6 x))
        OR sb SB2 (x7 x),
       right =
           push_bit 56 (sb SB3 (x8 x))
        OR push_bit 48 (sb SB4 (x9 x))
        OR push_bit 40 (sb SB1 (x10 x))
        OR push_bit 32 (sb SB2 (x11 x))
        OR push_bit 24 (sb SB3 (x12 x))
        OR push_bit 16 (sb SB4 (x13 x))
        OR push_bit 8 (sb SB1 (x14 x))
        OR sb SB2 (x15 x) \<rparr>"

section \<open>Round-key formulas (aria.c: compute_ek)\<close>

text \<open>
  \<open>compute_ek\<close> writes the entries 1 to 17 of the array it is handed and leaves entry 0
  as it was. The array is the caller's \<open>aria_u128_t ek[18]\<close>.
\<close>

definition compute_ek ::
  "aria_u128_t \<Rightarrow> aria_u128_t \<Rightarrow> aria_u128_t \<Rightarrow> aria_u128_t \<Rightarrow> aria_u128_t list \<Rightarrow> aria_u128_t list"
where
  "compute_ek W0 W1 W2 W3 ek =
     ek[ 1 := xor128 W0 (ror W1 19),
         2 := xor128 W1 (ror W2 19),
         3 := xor128 W2 (ror W3 19),
         4 := xor128 (ror W0 19) W3,
         5 := xor128 W0 (ror W1 31),
         6 := xor128 W1 (ror W2 31),
         7 := xor128 W2 (ror W3 31),
         8 := xor128 (ror W0 31) W3,
         9 := xor128 W0 (rol W1 61),
         10 := xor128 W1 (rol W2 61),
         11 := xor128 W2 (rol W3 61),
         12 := xor128 (rol W0 61) W3,
         13 := xor128 W0 (rol W1 31),
         14 := xor128 W1 (rol W2 31),
         15 := xor128 W2 (rol W3 31),
         16 := xor128 (rol W0 31) W3,
         17 := xor128 W0 (rol W1 19) ]"

section \<open>Diffusion layer (aria.c: aria_A)\<close>

text \<open>
  The compiled branch (\<open>#else\<close>): four shared subexpressions, each stored in a
  \<open>uint8_t\<close>, then sixteen output bytes. In \<open>(uint64_t)(t3 ^ x6 ^ x8 ^ x13) << 56\<close> the
  byte \<open>t3\<close> is widened before the XOR with the 64-bit macros. XOR is associative: the
  chains are written without the parentheses of C's reading from the left.
\<close>

definition aria_A :: "aria_u128_t \<Rightarrow> aria_u128_t" where
  "aria_A x =
     (let t0 = (ucast (x0 x XOR x7 x XOR x10 x XOR x13 x) :: 8 word);
          t1 = (ucast (x1 x XOR x6 x XOR x11 x XOR x12 x) :: 8 word);
          t2 = (ucast (x2 x XOR x5 x XOR x8 x XOR x15 x) :: 8 word);
          t3 = (ucast (x3 x XOR x4 x XOR x9 x XOR x14 x) :: 8 word)
      in \<lparr> left =
              push_bit 56 (ucast t3 XOR x6 x XOR x8 x XOR x13 x)
           OR push_bit 48 (ucast t2 XOR x7 x XOR x9 x XOR x12 x)
           OR push_bit 40 (ucast t1 XOR x4 x XOR x10 x XOR x15 x)
           OR push_bit 32 (ucast t0 XOR x5 x XOR x11 x XOR x14 x)
           OR push_bit 24 (x0 x XOR ucast t2 XOR x11 x XOR x14 x)
           OR push_bit 16 (x1 x XOR ucast t3 XOR x10 x XOR x15 x)
           OR push_bit 8 (ucast t0 XOR x2 x XOR x9 x XOR x12 x)
           OR (ucast t1 XOR x3 x XOR x8 x XOR x13 x),
            right =
              push_bit 56 (ucast t0 XOR x1 x XOR x4 x XOR x15 x)
           OR push_bit 48 (x0 x XOR ucast t1 XOR x5 x XOR x14 x)
           OR push_bit 40 (ucast t2 XOR x3 x XOR x6 x XOR x13 x)
           OR push_bit 32 (x2 x XOR ucast t3 XOR x7 x XOR x12 x)
           OR push_bit 24 (ucast t1 XOR x2 x XOR x7 x XOR x9 x)
           OR push_bit 16 (ucast t0 XOR x3 x XOR x6 x XOR x8 x)
           OR push_bit 8 (x0 x XOR ucast t3 XOR x5 x XOR x11 x)
           OR (x1 x XOR ucast t2 XOR x4 x XOR x10 x) \<rparr>)"

text \<open>
  The other branch of the same function (\<open>#if 0\<close>): the equations of RFC 5794 written
  out, each output byte the XOR of seven input bytes, all in 64-bit arithmetic.
\<close>

definition aria_A_direct :: "aria_u128_t \<Rightarrow> aria_u128_t" where
  "aria_A_direct x =
     \<lparr> left =
           push_bit 56 (x3 x XOR x4 x XOR x6 x XOR x8 x XOR x9 x XOR x13 x XOR x14 x)
        OR push_bit 48 (x2 x XOR x5 x XOR x7 x XOR x8 x XOR x9 x XOR x12 x XOR x15 x)
        OR push_bit 40 (x1 x XOR x4 x XOR x6 x XOR x10 x XOR x11 x XOR x12 x XOR x15 x)
        OR push_bit 32 (x0 x XOR x5 x XOR x7 x XOR x10 x XOR x11 x XOR x13 x XOR x14 x)
        OR push_bit 24 (x0 x XOR x2 x XOR x5 x XOR x8 x XOR x11 x XOR x14 x XOR x15 x)
        OR push_bit 16 (x1 x XOR x3 x XOR x4 x XOR x9 x XOR x10 x XOR x14 x XOR x15 x)
        OR push_bit 8 (x0 x XOR x2 x XOR x7 x XOR x9 x XOR x10 x XOR x12 x XOR x13 x)
        OR (x1 x XOR x3 x XOR x6 x XOR x8 x XOR x11 x XOR x12 x XOR x13 x),
       right =
           push_bit 56 (x0 x XOR x1 x XOR x4 x XOR x7 x XOR x10 x XOR x13 x XOR x15 x)
        OR push_bit 48 (x0 x XOR x1 x XOR x5 x XOR x6 x XOR x11 x XOR x12 x XOR x14 x)
        OR push_bit 40 (x2 x XOR x3 x XOR x5 x XOR x6 x XOR x8 x XOR x13 x XOR x15 x)
        OR push_bit 32 (x2 x XOR x3 x XOR x4 x XOR x7 x XOR x9 x XOR x12 x XOR x14 x)
        OR push_bit 24 (x1 x XOR x2 x XOR x6 x XOR x7 x XOR x9 x XOR x11 x XOR x12 x)
        OR push_bit 16 (x0 x XOR x3 x XOR x6 x XOR x7 x XOR x8 x XOR x10 x XOR x13 x)
        OR push_bit 8 (x0 x XOR x3 x XOR x4 x XOR x5 x XOR x9 x XOR x11 x XOR x14 x)
        OR (x1 x XOR x2 x XOR x4 x XOR x5 x XOR x8 x XOR x10 x XOR x15 x) \<rparr>"

section \<open>Round functions (aria.c: aria_FO, aria_FE)\<close>

definition aria_FO :: "aria_u128_t \<Rightarrow> aria_u128_t \<Rightarrow> aria_u128_t" where
  "aria_FO d rk = aria_A (aria_SL1 (xor128 d rk))"

definition aria_FE :: "aria_u128_t \<Rightarrow> aria_u128_t \<Rightarrow> aria_u128_t" where
  "aria_FE d rk = aria_A (aria_SL2 (xor128 d rk))"

section \<open>Crypt engine (aria.c: aria_crypt)\<close>

text \<open>
  \<^verbatim>\<open>for (int i = 2; i < rounds; ) { P = aria_FE(P, ek[i++]); P = aria_FO(P, ek[i++]); }\<close>
  The loop as a recursive function of the counter and the running block. \<open>rounds\<close> is a
  \<open>uint8_t\<close>, promoted to \<open>int\<close> where it is compared and added to; the callers pass 12,
  14 and 16 and an array of eighteen entries, so that every index read is below 18.
\<close>

function crypt_loop :: "nat \<Rightarrow> aria_u128_t list \<Rightarrow> nat \<Rightarrow> aria_u128_t \<Rightarrow> aria_u128_t" where
  "crypt_loop rounds ek i P =
     (if i < rounds
      then crypt_loop rounds ek (i + 2) (aria_FO (aria_FE P (ek ! i)) (ek ! (i + 1)))
      else P)"
  by pat_completeness auto
termination
  by (relation "measure (\<lambda>(rounds, ek, i, P). rounds - i)") auto

declare crypt_loop.simps [simp del]

definition aria_crypt :: "nat \<Rightarrow> aria_u128_t list \<Rightarrow> aria_u128_t \<Rightarrow> aria_u128_t" where
  "aria_crypt rounds ek Plaintext =
     (let P = crypt_loop rounds ek 2 (aria_FO Plaintext (ek ! 1))
      in xor128 (aria_SL2 (xor128 P (ek ! rounds))) (ek ! (rounds + 1)))"

section \<open>Key schedule and encryption (aria.c: C1, C2, C3, aria_encrypt_128/192/256)\<close>

definition C1 :: aria_u128_t where
  "C1 = \<lparr> left = 0x517cc1b727220a94, right = 0xfe13abe8fa9a6ee0 \<rparr>"

definition C2 :: aria_u128_t where
  "C2 = \<lparr> left = 0x6db14acc9e21c820, right = 0xff28b1d5ef5de2b0 \<rparr>"

definition C3 :: aria_u128_t where
  "C3 = \<lparr> left = 0xdb92371d2126e970, right = 0x0324977504e8c90e \<rparr>"

text \<open>
  \<^verbatim>\<open>aria_u128_t ek[18];\<close> is a local array that C leaves uninitialised. \<open>compute_ek\<close>
  writes its entries 1 to 17, and entry 0 is written before it is ever read, so the
  initial contents never reach a result (lemma \<open>uninitialised_irrelevant\<close> below); the
  model starts from zeros.
\<close>

definition ek_local :: "aria_u128_t list" where
  "ek_local = replicate 18 \<lparr> left = 0, right = 0 \<rparr>"

definition aria_encrypt_128 :: "aria_u128_t \<Rightarrow> aria_u128_t \<Rightarrow> aria_u128_t" where
  "aria_encrypt_128 Key Plaintext =
     (let W0 = Key;
          W1 = aria_FO W0 C1;
          W2 = xor128 (aria_FE W1 C2) W0;
          W3 = xor128 (aria_FO W2 C3) W1;
          ek = compute_ek W0 W1 W2 W3 ek_local
      in aria_crypt 12 ek Plaintext)"

definition aria_encrypt_192 :: "aria_u128_t \<Rightarrow> aria_u128_t \<Rightarrow> aria_u128_t \<Rightarrow> aria_u128_t" where
  "aria_encrypt_192 KeyLeft KeyRight Plaintext =
     (let W0 = KeyLeft;
          W1 = xor128 (aria_FO W0 C2) KeyRight;
          W2 = xor128 (aria_FE W1 C3) W0;
          W3 = xor128 (aria_FO W2 C1) W1;
          ek = compute_ek W0 W1 W2 W3 ek_local
      in aria_crypt 14 ek Plaintext)"

definition aria_encrypt_256 :: "aria_u128_t \<Rightarrow> aria_u128_t \<Rightarrow> aria_u128_t \<Rightarrow> aria_u128_t" where
  "aria_encrypt_256 KeyLeft KeyRight Plaintext =
     (let W0 = KeyLeft;
          W1 = xor128 (aria_FO W0 C3) KeyRight;
          W2 = xor128 (aria_FE W1 C1) W0;
          W3 = xor128 (aria_FO W2 C2) W1;
          ek = compute_ek W0 W1 W2 W3 ek_local
      in aria_crypt 16 ek Plaintext)"

section \<open>Decryption (aria.c: aria_decrypt_128/192/256)\<close>

text \<open>
  \<^verbatim>\<open>for (int i = 2, j = 12; i < j; i++, j--)
  { ek[0] = ek[j]; ek[j] = aria_A(ek[i]); ek[i] = aria_A(ek[0]); }\<close>
  The loop body is the same in the three functions; only the start value of \<open>j\<close>
  differs. The array is updated in place, with entry 0 as the scratch slot of the swap.
\<close>

function dk_loop :: "nat \<Rightarrow> nat \<Rightarrow> aria_u128_t list \<Rightarrow> aria_u128_t list" where
  "dk_loop i j ek =
     (if i < j
      then (let ek1 = ek[0 := ek ! j];
                ek2 = ek1[j := aria_A (ek1 ! i)];
                ek3 = ek2[i := aria_A (ek2 ! 0)]
            in dk_loop (i + 1) (j - 1) ek3)
      else ek)"
  by pat_completeness auto
termination
  by (relation "measure (\<lambda>(i, j, ek). j - i)") auto

declare dk_loop.simps [simp del]

definition aria_decrypt_128 :: "aria_u128_t \<Rightarrow> aria_u128_t \<Rightarrow> aria_u128_t" where
  "aria_decrypt_128 Key Ciphertext =
     (let W0 = Key;
          W1 = aria_FO W0 C1;
          W2 = xor128 (aria_FE W1 C2) W0;
          W3 = xor128 (aria_FO W2 C3) W1;
          ek = compute_ek W0 W1 W2 W3 ek_local;
          ek = ek[0 := ek ! 13];
          ek = ek[13 := ek ! 1];
          ek = ek[1 := ek ! 0];
          ek = dk_loop 2 12 ek;
          ek = ek[7 := aria_A (ek ! 7)]
      in aria_crypt 12 ek Ciphertext)"

definition aria_decrypt_192 :: "aria_u128_t \<Rightarrow> aria_u128_t \<Rightarrow> aria_u128_t \<Rightarrow> aria_u128_t" where
  "aria_decrypt_192 KeyLeft KeyRight Ciphertext =
     (let W0 = KeyLeft;
          W1 = xor128 (aria_FO W0 C2) KeyRight;
          W2 = xor128 (aria_FE W1 C3) W0;
          W3 = xor128 (aria_FO W2 C1) W1;
          ek = compute_ek W0 W1 W2 W3 ek_local;
          ek = ek[0 := ek ! 15];
          ek = ek[15 := ek ! 1];
          ek = ek[1 := ek ! 0];
          ek = dk_loop 2 14 ek;
          ek = ek[8 := aria_A (ek ! 8)]
      in aria_crypt 14 ek Ciphertext)"

definition aria_decrypt_256 :: "aria_u128_t \<Rightarrow> aria_u128_t \<Rightarrow> aria_u128_t \<Rightarrow> aria_u128_t" where
  "aria_decrypt_256 KeyLeft KeyRight Ciphertext =
     (let W0 = KeyLeft;
          W1 = xor128 (aria_FO W0 C3) KeyRight;
          W2 = xor128 (aria_FE W1 C1) W0;
          W3 = xor128 (aria_FO W2 C2) W1;
          ek = compute_ek W0 W1 W2 W3 ek_local;
          ek = ek[0 := ek ! 17];
          ek = ek[17 := ek ! 1];
          ek = ek[1 := ek ! 0];
          ek = dk_loop 2 16 ek;
          ek = ek[9 := aria_A (ek ! 9)]
      in aria_crypt 16 ek Ciphertext)"

section \<open>The round-key arrays inside the entry points\<close>

text \<open>
  The first five statements of \<open>aria_encrypt_128\<close> and of \<open>aria_decrypt_128\<close> are the same:
  they leave the encryption round keys in the local array \<open>ek\<close>. \<open>ek_128\<close> is the contents
  of that array after \<open>compute_ek\<close>; likewise for the other key sizes.
\<close>

definition ek_128 :: "aria_u128_t \<Rightarrow> aria_u128_t list" where
  "ek_128 Key =
     (let W0 = Key;
          W1 = aria_FO W0 C1;
          W2 = xor128 (aria_FE W1 C2) W0;
          W3 = xor128 (aria_FO W2 C3) W1
      in compute_ek W0 W1 W2 W3 ek_local)"

definition ek_192 :: "aria_u128_t \<Rightarrow> aria_u128_t \<Rightarrow> aria_u128_t list" where
  "ek_192 KeyLeft KeyRight =
     (let W0 = KeyLeft;
          W1 = xor128 (aria_FO W0 C2) KeyRight;
          W2 = xor128 (aria_FE W1 C3) W0;
          W3 = xor128 (aria_FO W2 C1) W1
      in compute_ek W0 W1 W2 W3 ek_local)"

definition ek_256 :: "aria_u128_t \<Rightarrow> aria_u128_t \<Rightarrow> aria_u128_t list" where
  "ek_256 KeyLeft KeyRight =
     (let W0 = KeyLeft;
          W1 = xor128 (aria_FO W0 C3) KeyRight;
          W2 = xor128 (aria_FE W1 C1) W0;
          W3 = xor128 (aria_FO W2 C2) W1
      in compute_ek W0 W1 W2 W3 ek_local)"

text \<open>
  The statements of \<open>aria_decrypt_128\<close> between \<open>compute_ek\<close> and \<open>aria_crypt\<close>, as a
  transformer of the contents of the one array \<open>ek\<close>: the decryption keys are written over
  the encryption keys. \<open>dk_192\<close> and \<open>dk_256\<close> are the same statements of the other two
  functions, with their constants.
\<close>

definition dk_128 :: "aria_u128_t list \<Rightarrow> aria_u128_t list" where
  "dk_128 ek0 =
     (let ek = ek0[0 := ek0 ! 13];
          ek = ek[13 := ek ! 1];
          ek = ek[1 := ek ! 0];
          ek = dk_loop 2 12 ek;
          ek = ek[7 := aria_A (ek ! 7)]
      in ek)"

definition dk_192 :: "aria_u128_t list \<Rightarrow> aria_u128_t list" where
  "dk_192 ek0 =
     (let ek = ek0[0 := ek0 ! 15];
          ek = ek[15 := ek ! 1];
          ek = ek[1 := ek ! 0];
          ek = dk_loop 2 14 ek;
          ek = ek[8 := aria_A (ek ! 8)]
      in ek)"

definition dk_256 :: "aria_u128_t list \<Rightarrow> aria_u128_t list" where
  "dk_256 ek0 =
     (let ek = ek0[0 := ek0 ! 17];
          ek = ek[17 := ek ! 1];
          ek = ek[1 := ek ! 0];
          ek = dk_loop 2 16 ek;
          ek = ek[9 := aria_A (ek ! 9)]
      in ek)"

text \<open>
  \<open>ek\<close> is the only array of a decrypting function. Statements that built the decryption
  keys as a new array, independent of the encryption array, would leave \<open>ek\<close> as they
  found it: its round keys, the entries 1 to \<open>rounds + 1\<close>, would be the same before and
  after. \<open>encryption_keys_kept\<close> says so of the contents before and after.
\<close>

definition encryption_keys_kept :: "nat \<Rightarrow> aria_u128_t list \<Rightarrow> aria_u128_t list \<Rightarrow> bool" where
  "encryption_keys_kept rounds before after \<longleftrightarrow>
     take (rounds + 1) (tl after) = take (rounds + 1) (tl before)"

section \<open>Bytes of a block\<close>

text \<open>
  The byte of a 64-bit word that starts at bit \<open>k\<close>, and a word put together from eight
  bytes, most significant first. \<open>byte_at x i\<close> is the byte at position \<open>i\<close> of a block:
  position 0 is the most significant byte of \<open>left\<close>, position 15 the least significant byte
  of \<open>right\<close>; it is the value of the macro \<open>x\<^sub>i\<close>, as a byte.
\<close>

definition byte_of :: "nat \<Rightarrow> 64 word \<Rightarrow> 8 word" where
  "byte_of k w = ucast (drop_bit k w)"

definition pack8 ::
  "8 word \<Rightarrow> 8 word \<Rightarrow> 8 word \<Rightarrow> 8 word \<Rightarrow> 8 word \<Rightarrow> 8 word \<Rightarrow> 8 word \<Rightarrow> 8 word \<Rightarrow> 64 word"
where
  "pack8 b0 b1 b2 b3 b4 b5 b6 b7 =
     push_bit 56 (ucast b0) OR push_bit 48 (ucast b1) OR push_bit 40 (ucast b2)
     OR push_bit 32 (ucast b3) OR push_bit 24 (ucast b4) OR push_bit 16 (ucast b5)
     OR push_bit 8 (ucast b6) OR ucast b7"

definition blk ::
  "8 word \<Rightarrow> 8 word \<Rightarrow> 8 word \<Rightarrow> 8 word \<Rightarrow> 8 word \<Rightarrow> 8 word \<Rightarrow> 8 word \<Rightarrow> 8 word \<Rightarrow>
   8 word \<Rightarrow> 8 word \<Rightarrow> 8 word \<Rightarrow> 8 word \<Rightarrow> 8 word \<Rightarrow> 8 word \<Rightarrow> 8 word \<Rightarrow> 8 word \<Rightarrow> aria_u128_t"
where
  "blk b0 b1 b2 b3 b4 b5 b6 b7 b8 b9 b10 b11 b12 b13 b14 b15 =
     \<lparr> left = pack8 b0 b1 b2 b3 b4 b5 b6 b7, right = pack8 b8 b9 b10 b11 b12 b13 b14 b15 \<rparr>"

definition byte_at :: "aria_u128_t \<Rightarrow> nat \<Rightarrow> 8 word" where
  "byte_at x i =
     (if i < 8 then byte_of (56 - 8 * i) (left x) else byte_of (56 - 8 * (i - 8)) (right x))"

text \<open>
  A block as one 128-bit word, \<open>left\<close> in the upper half: the value that the rotations of
  the key schedule are meant to rotate.
\<close>

definition u128 :: "aria_u128_t \<Rightarrow> 128 word" where
  "u128 x = word_cat (left x) (right x)"

text \<open>
  The sixteen equations of the diffusion layer as RFC 5794 gives them (quoted in the comment
  above \<open>aria_A\<close>), on bytes: \<open>y0 = x3 ^ x4 ^ x6 ^ x8 ^ x9 ^ x13 ^ x14\<close>, and so on.
\<close>

definition diffuse ::
  "8 word \<Rightarrow> 8 word \<Rightarrow> 8 word \<Rightarrow> 8 word \<Rightarrow> 8 word \<Rightarrow> 8 word \<Rightarrow> 8 word \<Rightarrow> 8 word \<Rightarrow>
   8 word \<Rightarrow> 8 word \<Rightarrow> 8 word \<Rightarrow> 8 word \<Rightarrow> 8 word \<Rightarrow> 8 word \<Rightarrow> 8 word \<Rightarrow> 8 word \<Rightarrow> aria_u128_t"
where
  "diffuse b0 b1 b2 b3 b4 b5 b6 b7 b8 b9 b10 b11 b12 b13 b14 b15 =
     blk
       (b3 XOR b4 XOR b6 XOR b8 XOR b9 XOR b13 XOR b14)
       (b2 XOR b5 XOR b7 XOR b8 XOR b9 XOR b12 XOR b15)
       (b1 XOR b4 XOR b6 XOR b10 XOR b11 XOR b12 XOR b15)
       (b0 XOR b5 XOR b7 XOR b10 XOR b11 XOR b13 XOR b14)
       (b0 XOR b2 XOR b5 XOR b8 XOR b11 XOR b14 XOR b15)
       (b1 XOR b3 XOR b4 XOR b9 XOR b10 XOR b14 XOR b15)
       (b0 XOR b2 XOR b7 XOR b9 XOR b10 XOR b12 XOR b13)
       (b1 XOR b3 XOR b6 XOR b8 XOR b11 XOR b12 XOR b13)
       (b0 XOR b1 XOR b4 XOR b7 XOR b10 XOR b13 XOR b15)
       (b0 XOR b1 XOR b5 XOR b6 XOR b11 XOR b12 XOR b14)
       (b2 XOR b3 XOR b5 XOR b6 XOR b8 XOR b13 XOR b15)
       (b2 XOR b3 XOR b4 XOR b7 XOR b9 XOR b12 XOR b14)
       (b1 XOR b2 XOR b6 XOR b7 XOR b9 XOR b11 XOR b12)
       (b0 XOR b3 XOR b6 XOR b7 XOR b8 XOR b10 XOR b13)
       (b0 XOR b3 XOR b4 XOR b5 XOR b9 XOR b11 XOR b14)
       (b1 XOR b2 XOR b4 XOR b5 XOR b8 XOR b10 XOR b15)"

text \<open>The table that each substitution layer assigns to a byte position.\<close>

definition SL1_table :: "nat \<Rightarrow> 8 word list" where
  "SL1_table i = [SB1, SB2, SB3, SB4] ! (i mod 4)"

definition SL2_table :: "nat \<Rightarrow> 8 word list" where
  "SL2_table i = [SB3, SB4, SB1, SB2] ! (i mod 4)"

section \<open>The specification's wording of the engine and of the key schedule\<close>

text \<open>
  The crypt engine as the specification words it: round 1 is the odd round function on the
  input and key 1, the rounds after it alternate even and odd; \<open>round_chain ek k D\<close> is
  the block after round \<open>k\<close>. The last round is substitution type 2 between two key XORs.
\<close>

fun round_chain :: "aria_u128_t list \<Rightarrow> nat \<Rightarrow> aria_u128_t \<Rightarrow> aria_u128_t" where
  "round_chain ek 0 D = D"
| "round_chain ek (Suc k) D =
     (if even k then aria_FO (round_chain ek k D) (ek ! Suc k)
      else aria_FE (round_chain ek k D) (ek ! Suc k))"

definition crypt_spec :: "nat \<Rightarrow> aria_u128_t list \<Rightarrow> aria_u128_t \<Rightarrow> aria_u128_t" where
  "crypt_spec rounds ek D =
     xor128 (aria_SL2 (xor128 (round_chain ek (rounds - 1) D) (ek ! rounds))) (ek ! (rounds + 1))"

text \<open>
  The key schedule as the specification words it: the table of constants by key size, the
  three Feistel steps, the seventeen candidate keys, and the prefix that is used.
\<close>

definition zero128 :: aria_u128_t where
  "zero128 = \<lparr> left = 0, right = 0 \<rparr>"

definition CK :: "nat \<Rightarrow> aria_u128_t \<times> aria_u128_t \<times> aria_u128_t" where
  "CK key_size =
     (if key_size = 128 then (C1, C2, C3)
      else if key_size = 192 then (C2, C3, C1)
      else (C3, C1, C2))"

definition rounds_of :: "nat \<Rightarrow> nat" where
  "rounds_of key_size = (if key_size = 128 then 12 else if key_size = 192 then 14 else 16)"

definition feistel_W ::
  "aria_u128_t \<times> aria_u128_t \<times> aria_u128_t \<Rightarrow> aria_u128_t \<Rightarrow> aria_u128_t \<Rightarrow>
   aria_u128_t \<times> aria_u128_t \<times> aria_u128_t \<times> aria_u128_t"
where
  "feistel_W cks KL KR =
     (case cks of (CK1, CK2, CK3) \<Rightarrow>
        let W0 = KL;
            W1 = xor128 (aria_FO W0 CK1) KR;
            W2 = xor128 (aria_FE W1 CK2) W0;
            W3 = xor128 (aria_FO W2 CK3) W1
        in (W0, W1, W2, W3))"

definition candidate_keys ::
  "aria_u128_t \<times> aria_u128_t \<times> aria_u128_t \<times> aria_u128_t \<Rightarrow> aria_u128_t list"
where
  "candidate_keys ws =
     (case ws of (W0, W1, W2, W3) \<Rightarrow>
        [ xor128 W0 (ror W1 19), xor128 W1 (ror W2 19), xor128 W2 (ror W3 19),
          xor128 (ror W0 19) W3,
          xor128 W0 (ror W1 31), xor128 W1 (ror W2 31), xor128 W2 (ror W3 31),
          xor128 (ror W0 31) W3,
          xor128 W0 (rol W1 61), xor128 W1 (rol W2 61), xor128 W2 (rol W3 61),
          xor128 (rol W0 61) W3,
          xor128 W0 (rol W1 31), xor128 W1 (rol W2 31), xor128 W2 (rol W3 31),
          xor128 (rol W0 31) W3,
          xor128 W0 (rol W1 19) ])"

definition enc_round_keys :: "nat \<Rightarrow> aria_u128_t \<Rightarrow> aria_u128_t \<Rightarrow> aria_u128_t list" where
  "enc_round_keys key_size KL KR =
     take (rounds_of key_size + 1) (candidate_keys (feistel_W (CK key_size) KL KR))"

section \<open>The interface declared in aria.h\<close>

text \<open>
  \<^verbatim>\<open>typedef enum aria_cryto_mode_e { ENCRYPT, DECRYPT } aria_cryto_mode_t;\<close>
  \<^verbatim>\<open>typedef enum aria_error_code_e { NO_ERROR = 0, ARG_BAD, KEY_SIZE_BAD, CRYPTO_MODE_BAD }\<close>
  \<^verbatim>\<open>typedef struct aria_key_schedule_s { aria_u128_t ek[18]; aria_cryto_mode_t mode; uint32_t rounds; }\<close>
\<close>

datatype aria_cryto_mode_t = ENCRYPT | DECRYPT

datatype aria_error_code_t = NO_ERROR | ARG_BAD | KEY_SIZE_BAD | CRYPTO_MODE_BAD

record aria_key_schedule_t =
  ks_ek :: "aria_u128_t list"
  ks_mode :: aria_cryto_mode_t
  ks_rounds :: "32 word"

text \<open>
  Modelled from the spec: \<open>aria_init_key_schedule\<close> is declared in aria.h and its body is
  in none of the source files. The specification's \<open>build_schedule\<close>: the key size must be
  exactly 128, 192 or 256, any other value fails with the key-size error; the mode selects
  whether the encryption-ordered or the decryption-derived round keys are stored; the round
  count is 12, 14 or 16 by key size. The error is the result value, the schedule the other
  alternative.
\<close>

definition aria_init_key_schedule ::
  "aria_u128_t \<Rightarrow> aria_u128_t \<Rightarrow> aria_cryto_mode_t \<Rightarrow> 32 word \<Rightarrow>
   aria_error_code_t + aria_key_schedule_t"
where
  "aria_init_key_schedule KeyLeft KeyRight mode key_size_in_bits =
     (if key_size_in_bits = 128 then
        Inr \<lparr> ks_ek = (case mode of ENCRYPT \<Rightarrow> ek_128 KeyLeft
                                  | DECRYPT \<Rightarrow> dk_128 (ek_128 KeyLeft)),
              ks_mode = mode, ks_rounds = 12 \<rparr>
      else if key_size_in_bits = 192 then
        Inr \<lparr> ks_ek = (case mode of ENCRYPT \<Rightarrow> ek_192 KeyLeft KeyRight
                                  | DECRYPT \<Rightarrow> dk_192 (ek_192 KeyLeft KeyRight)),
              ks_mode = mode, ks_rounds = 14 \<rparr>
      else if key_size_in_bits = 256 then
        Inr \<lparr> ks_ek = (case mode of ENCRYPT \<Rightarrow> ek_256 KeyLeft KeyRight
                                  | DECRYPT \<Rightarrow> dk_256 (ek_256 KeyLeft KeyRight)),
              ks_mode = mode, ks_rounds = 16 \<rparr>
      else Inl KEY_SIZE_BAD)"

text \<open>
  Modelled from the spec: the two-argument \<open>aria_crypt\<close> that aria.h declares (the
  specification's \<open>transform\<close>) has no body in the source files either. It runs the crypt engine
  on the stored round keys and round count. Its only way to fail is a schedule whose array
  does not hold the \<open>rounds + 1\<close> keys the engine reads; the model reports that as \<open>ARG_BAD\<close>.
\<close>

definition aria_crypt_ks :: "aria_key_schedule_t \<Rightarrow> aria_u128_t \<Rightarrow> aria_error_code_t + aria_u128_t" where
  "aria_crypt_ks ks text =
     (if unat (ks_rounds ks) + 1 < length (ks_ek ks)
      then Inr (aria_crypt (unat (ks_rounds ks)) (ks_ek ks) text)
      else Inl ARG_BAD)"

section \<open>The byte view of words and blocks\<close>

lemmas x_defs = x0_def x1_def x2_def x3_def x4_def x5_def x6_def x7_def
  x8_def x9_def x10_def x11_def x12_def x13_def x14_def x15_def

lemma bit_byte_of: "bit (byte_of k w) m \<longleftrightarrow> m < 8 \<and> bit w (k + m)"
  by (auto simp add: byte_of_def bit_simps)

lemma bit8: "bit (b :: 8 word) n \<Longrightarrow> n < 8"
  by (auto dest: bit_imp_le_length)

lemma bit64: "bit (b :: 64 word) n \<Longrightarrow> n < 64"
  by (auto dest: bit_imp_le_length)

lemma byte_of_or: "byte_of k (a OR b) = byte_of k a OR byte_of k b"
  by (rule bit_word_eqI) (auto simp add: bit_byte_of bit_simps)

lemma byte_of_xor: "byte_of k (a XOR b) = byte_of k a XOR byte_of k b"
  by (rule bit_word_eqI) (auto simp add: bit_byte_of bit_simps)

lemma byte_of_lane_same: "k \<le> 56 \<Longrightarrow> byte_of k (push_bit k (ucast (b :: 8 word))) = b"
  by (rule bit_word_eqI) (auto simp add: bit_byte_of bit_simps)

lemma byte_of_lane_other:
  "j + 8 \<le> k \<or> k + 8 \<le> j \<Longrightarrow> byte_of k (push_bit j (ucast (b :: 8 word))) = 0"
  by (rule bit_word_eqI) (auto simp add: bit_byte_of bit_simps dest: bit8)

lemma byte_of_lane0_same: "byte_of 0 (ucast (b :: 8 word)) = b"
  by (rule bit_word_eqI) (auto simp add: bit_byte_of bit_simps)

lemma byte_of_lane0_other: "8 \<le> k \<Longrightarrow> byte_of k (ucast (b :: 8 word)) = 0"
  by (rule bit_word_eqI) (auto simp add: bit_byte_of bit_simps dest: bit8)

lemmas byte_of_lane =
  byte_of_or byte_of_lane_same byte_of_lane_other byte_of_lane0_same byte_of_lane0_other

lemma byte_pack:
  "byte_of 56 (pack8 b0 b1 b2 b3 b4 b5 b6 b7) = b0"
  "byte_of 48 (pack8 b0 b1 b2 b3 b4 b5 b6 b7) = b1"
  "byte_of 40 (pack8 b0 b1 b2 b3 b4 b5 b6 b7) = b2"
  "byte_of 32 (pack8 b0 b1 b2 b3 b4 b5 b6 b7) = b3"
  "byte_of 24 (pack8 b0 b1 b2 b3 b4 b5 b6 b7) = b4"
  "byte_of 16 (pack8 b0 b1 b2 b3 b4 b5 b6 b7) = b5"
  "byte_of 8 (pack8 b0 b1 b2 b3 b4 b5 b6 b7) = b6"
  "byte_of 0 (pack8 b0 b1 b2 b3 b4 b5 b6 b7) = b7"
  by (simp_all add: pack8_def byte_of_lane)

text \<open>Two 64-bit words with the same eight bytes are equal.\<close>

lemma word64_eq_bytes:
  assumes "byte_of 56 a = byte_of 56 b" "byte_of 48 a = byte_of 48 b"
    "byte_of 40 a = byte_of 40 b" "byte_of 32 a = byte_of 32 b"
    "byte_of 24 a = byte_of 24 b" "byte_of 16 a = byte_of 16 b"
    "byte_of 8 a = byte_of 8 b" "byte_of 0 a = byte_of 0 b"
  shows "a = b"
proof (rule bit_word_eqI)
  fix n assume "n < LENGTH(64)"
  then have n: "n < 64" by simp
  define q where "q = n div 8"
  define r where "r = n mod 8"
  have nqr: "n = 8 * q + r" and r: "r < 8" and q: "q < 8"
    using n by (simp_all add: q_def r_def)
  from q have "q \<in> {0, 1, 2, 3, 4, 5, 6, 7}" by auto
  then have "byte_of (8 * q) a = byte_of (8 * q) b"
    using assms by auto
  then have "bit (byte_of (8 * q) a) r = bit (byte_of (8 * q) b) r" by simp
  then show "bit a n = bit b n"
    using r by (simp add: bit_byte_of nqr)
qed

lemma pack_byte:
  "pack8 (byte_of 56 w) (byte_of 48 w) (byte_of 40 w) (byte_of 32 w)
         (byte_of 24 w) (byte_of 16 w) (byte_of 8 w) (byte_of 0 w) = w"
  by (rule word64_eq_bytes) (simp_all add: byte_pack)

lemma blk_bytes: "blk (byte_of 56 (left x)) (byte_of 48 (left x)) (byte_of 40 (left x)) (byte_of 32 (left x)) (byte_of 24 (left x)) (byte_of 16 (left x)) (byte_of 8 (left x)) (byte_of 0 (left x)) (byte_of 56 (right x)) (byte_of 48 (right x)) (byte_of 40 (right x)) (byte_of 32 (right x)) (byte_of 24 (right x)) (byte_of 16 (right x)) (byte_of 8 (right x)) (byte_of 0 (right x)) = x"
  by (simp add: blk_def pack_byte)

lemma byte_blk:
  "byte_of 56 (left (blk b0 b1 b2 b3 b4 b5 b6 b7 b8 b9 b10 b11 b12 b13 b14 b15)) = b0"
  "byte_of 48 (left (blk b0 b1 b2 b3 b4 b5 b6 b7 b8 b9 b10 b11 b12 b13 b14 b15)) = b1"
  "byte_of 40 (left (blk b0 b1 b2 b3 b4 b5 b6 b7 b8 b9 b10 b11 b12 b13 b14 b15)) = b2"
  "byte_of 32 (left (blk b0 b1 b2 b3 b4 b5 b6 b7 b8 b9 b10 b11 b12 b13 b14 b15)) = b3"
  "byte_of 24 (left (blk b0 b1 b2 b3 b4 b5 b6 b7 b8 b9 b10 b11 b12 b13 b14 b15)) = b4"
  "byte_of 16 (left (blk b0 b1 b2 b3 b4 b5 b6 b7 b8 b9 b10 b11 b12 b13 b14 b15)) = b5"
  "byte_of 8 (left (blk b0 b1 b2 b3 b4 b5 b6 b7 b8 b9 b10 b11 b12 b13 b14 b15)) = b6"
  "byte_of 0 (left (blk b0 b1 b2 b3 b4 b5 b6 b7 b8 b9 b10 b11 b12 b13 b14 b15)) = b7"
  "byte_of 56 (right (blk b0 b1 b2 b3 b4 b5 b6 b7 b8 b9 b10 b11 b12 b13 b14 b15)) = b8"
  "byte_of 48 (right (blk b0 b1 b2 b3 b4 b5 b6 b7 b8 b9 b10 b11 b12 b13 b14 b15)) = b9"
  "byte_of 40 (right (blk b0 b1 b2 b3 b4 b5 b6 b7 b8 b9 b10 b11 b12 b13 b14 b15)) = b10"
  "byte_of 32 (right (blk b0 b1 b2 b3 b4 b5 b6 b7 b8 b9 b10 b11 b12 b13 b14 b15)) = b11"
  "byte_of 24 (right (blk b0 b1 b2 b3 b4 b5 b6 b7 b8 b9 b10 b11 b12 b13 b14 b15)) = b12"
  "byte_of 16 (right (blk b0 b1 b2 b3 b4 b5 b6 b7 b8 b9 b10 b11 b12 b13 b14 b15)) = b13"
  "byte_of 8 (right (blk b0 b1 b2 b3 b4 b5 b6 b7 b8 b9 b10 b11 b12 b13 b14 b15)) = b14"
  "byte_of 0 (right (blk b0 b1 b2 b3 b4 b5 b6 b7 b8 b9 b10 b11 b12 b13 b14 b15)) = b15"
  by (simp_all add: blk_def byte_pack)

lemma ff_mask: "(0xff :: 64 word) = mask 8"
  by (simp add: mask_eq_exp_minus_1)

lemma and_ff: "drop_bit k (w :: 64 word) AND 0xff = ucast (byte_of k w)"
  unfolding ff_mask byte_of_def by (rule bit_word_eqI) (auto simp add: bit_simps)

lemma and_ff0: "(w :: 64 word) AND 0xff = ucast (byte_of 0 w)"
  using and_ff [of 0 w] by simp

lemma drop56: "drop_bit 56 (w :: 64 word) = ucast (byte_of 56 w)"
  unfolding byte_of_def by (rule bit_word_eqI) (auto simp add: bit_simps dest: bit64)

lemma byte_of_drop: "byte_of 0 (drop_bit k w) = byte_of k w"
  by (simp add: byte_of_def)

lemma ucast_xor8: "(ucast ((a :: 64 word) XOR b) :: 8 word) = ucast a XOR ucast b"
  by (rule bit_word_eqI) (auto simp add: bit_simps)

lemma ucast_xor64: "(ucast ((a :: 8 word) XOR b) :: 64 word) = ucast a XOR ucast b"
  by (rule bit_word_eqI) (auto simp add: bit_simps)

lemma ucast_ucast8: "(ucast (ucast (a :: 8 word) :: 64 word) :: 8 word) = a"
  by (rule bit_word_eqI) (auto simp add: bit_simps)

lemma unat_ucast8: "unat (ucast (a :: 8 word) :: 64 word) = unat a"
proof -
  have "unat a < 2 ^ 8" using unsigned_less [of a] by simp
  then show ?thesis by (simp add: unsigned_ucast_eq take_bit_nat_eq_self_iff)
qed

text \<open>Each macro \<open>x\<^sub>i\<close> is the byte at position \<open>i\<close>, widened to 64 bits.\<close>

lemma x_bytes:
  "x0 x = ucast (byte_of 56 (left x))"
  "x1 x = ucast (byte_of 48 (left x))"
  "x2 x = ucast (byte_of 40 (left x))"
  "x3 x = ucast (byte_of 32 (left x))"
  "x4 x = ucast (byte_of 24 (left x))"
  "x5 x = ucast (byte_of 16 (left x))"
  "x6 x = ucast (byte_of 8 (left x))"
  "x7 x = ucast (byte_of 0 (left x))"
  "x8 x = ucast (byte_of 56 (right x))"
  "x9 x = ucast (byte_of 48 (right x))"
  "x10 x = ucast (byte_of 40 (right x))"
  "x11 x = ucast (byte_of 32 (right x))"
  "x12 x = ucast (byte_of 24 (right x))"
  "x13 x = ucast (byte_of 16 (right x))"
  "x14 x = ucast (byte_of 8 (right x))"
  "x15 x = ucast (byte_of 0 (right x))"
  by (simp_all add: x_defs and_ff0 drop56 byte_of_drop)

lemma sb_ucast: "sb T (ucast (b :: 8 word)) = ucast (T ! unat b)"
  by (simp add: sb_def unat_ucast8)

section \<open>The layers on bytes\<close>

lemma aria_SL1_bytes: "aria_SL1 x = blk (SB1 ! unat (byte_of 56 (left x))) (SB2 ! unat (byte_of 48 (left x))) (SB3 ! unat (byte_of 40 (left x))) (SB4 ! unat (byte_of 32 (left x))) (SB1 ! unat (byte_of 24 (left x))) (SB2 ! unat (byte_of 16 (left x))) (SB3 ! unat (byte_of 8 (left x))) (SB4 ! unat (byte_of 0 (left x))) (SB1 ! unat (byte_of 56 (right x))) (SB2 ! unat (byte_of 48 (right x))) (SB3 ! unat (byte_of 40 (right x))) (SB4 ! unat (byte_of 32 (right x))) (SB1 ! unat (byte_of 24 (right x))) (SB2 ! unat (byte_of 16 (right x))) (SB3 ! unat (byte_of 8 (right x))) (SB4 ! unat (byte_of 0 (right x)))"
  by (simp add: aria_SL1_def x_bytes sb_ucast blk_def pack8_def)

lemma aria_SL2_bytes: "aria_SL2 x = blk (SB3 ! unat (byte_of 56 (left x))) (SB4 ! unat (byte_of 48 (left x))) (SB1 ! unat (byte_of 40 (left x))) (SB2 ! unat (byte_of 32 (left x))) (SB3 ! unat (byte_of 24 (left x))) (SB4 ! unat (byte_of 16 (left x))) (SB1 ! unat (byte_of 8 (left x))) (SB2 ! unat (byte_of 0 (left x))) (SB3 ! unat (byte_of 56 (right x))) (SB4 ! unat (byte_of 48 (right x))) (SB1 ! unat (byte_of 40 (right x))) (SB2 ! unat (byte_of 32 (right x))) (SB3 ! unat (byte_of 24 (right x))) (SB4 ! unat (byte_of 16 (right x))) (SB1 ! unat (byte_of 8 (right x))) (SB2 ! unat (byte_of 0 (right x)))"
  by (simp add: aria_SL2_def x_bytes sb_ucast blk_def pack8_def)

lemma aria_SL1_blk: "aria_SL1 (blk b0 b1 b2 b3 b4 b5 b6 b7 b8 b9 b10 b11 b12 b13 b14 b15) = blk (SB1 ! unat b0) (SB2 ! unat b1) (SB3 ! unat b2) (SB4 ! unat b3) (SB1 ! unat b4) (SB2 ! unat b5) (SB3 ! unat b6) (SB4 ! unat b7) (SB1 ! unat b8) (SB2 ! unat b9) (SB3 ! unat b10) (SB4 ! unat b11) (SB1 ! unat b12) (SB2 ! unat b13) (SB3 ! unat b14) (SB4 ! unat b15)"
  by (simp only: aria_SL1_bytes byte_blk)

lemma aria_SL2_blk: "aria_SL2 (blk b0 b1 b2 b3 b4 b5 b6 b7 b8 b9 b10 b11 b12 b13 b14 b15) = blk (SB3 ! unat b0) (SB4 ! unat b1) (SB1 ! unat b2) (SB2 ! unat b3) (SB3 ! unat b4) (SB4 ! unat b5) (SB1 ! unat b6) (SB2 ! unat b7) (SB3 ! unat b8) (SB4 ! unat b9) (SB1 ! unat b10) (SB2 ! unat b11) (SB3 ! unat b12) (SB4 ! unat b13) (SB1 ! unat b14) (SB2 ! unat b15)"
  by (simp only: aria_SL2_bytes byte_blk)

lemma aria_A_raw: "aria_A x = blk ((byte_of 32 (left x) XOR byte_of 24 (left x) XOR byte_of 48 (right x) XOR byte_of 8 (right x)) XOR byte_of 8 (left x) XOR byte_of 56 (right x) XOR byte_of 16 (right x)) ((byte_of 40 (left x) XOR byte_of 16 (left x) XOR byte_of 56 (right x) XOR byte_of 0 (right x)) XOR byte_of 0 (left x) XOR byte_of 48 (right x) XOR byte_of 24 (right x)) ((byte_of 48 (left x) XOR byte_of 8 (left x) XOR byte_of 32 (right x) XOR byte_of 24 (right x)) XOR byte_of 24 (left x) XOR byte_of 40 (right x) XOR byte_of 0 (right x)) ((byte_of 56 (left x) XOR byte_of 0 (left x) XOR byte_of 40 (right x) XOR byte_of 16 (right x)) XOR byte_of 16 (left x) XOR byte_of 32 (right x) XOR byte_of 8 (right x)) (byte_of 56 (left x) XOR (byte_of 40 (left x) XOR byte_of 16 (left x) XOR byte_of 56 (right x) XOR byte_of 0 (right x)) XOR byte_of 32 (right x) XOR byte_of 8 (right x)) (byte_of 48 (left x) XOR (byte_of 32 (left x) XOR byte_of 24 (left x) XOR byte_of 48 (right x) XOR byte_of 8 (right x)) XOR byte_of 40 (right x) XOR byte_of 0 (right x)) ((byte_of 56 (left x) XOR byte_of 0 (left x) XOR byte_of 40 (right x) XOR byte_of 16 (right x)) XOR byte_of 40 (left x) XOR byte_of 48 (right x) XOR byte_of 24 (right x)) ((byte_of 48 (left x) XOR byte_of 8 (left x) XOR byte_of 32 (right x) XOR byte_of 24 (right x)) XOR byte_of 32 (left x) XOR byte_of 56 (right x) XOR byte_of 16 (right x)) ((byte_of 56 (left x) XOR byte_of 0 (left x) XOR byte_of 40 (right x) XOR byte_of 16 (right x)) XOR byte_of 48 (left x) XOR byte_of 24 (left x) XOR byte_of 0 (right x)) (byte_of 56 (left x) XOR (byte_of 48 (left x) XOR byte_of 8 (left x) XOR byte_of 32 (right x) XOR byte_of 24 (right x)) XOR byte_of 16 (left x) XOR byte_of 8 (right x)) ((byte_of 40 (left x) XOR byte_of 16 (left x) XOR byte_of 56 (right x) XOR byte_of 0 (right x)) XOR byte_of 32 (left x) XOR byte_of 8 (left x) XOR byte_of 16 (right x)) (byte_of 40 (left x) XOR (byte_of 32 (left x) XOR byte_of 24 (left x) XOR byte_of 48 (right x) XOR byte_of 8 (right x)) XOR byte_of 0 (left x) XOR byte_of 24 (right x)) ((byte_of 48 (left x) XOR byte_of 8 (left x) XOR byte_of 32 (right x) XOR byte_of 24 (right x)) XOR byte_of 40 (left x) XOR byte_of 0 (left x) XOR byte_of 48 (right x)) ((byte_of 56 (left x) XOR byte_of 0 (left x) XOR byte_of 40 (right x) XOR byte_of 16 (right x)) XOR byte_of 32 (left x) XOR byte_of 8 (left x) XOR byte_of 56 (right x)) (byte_of 56 (left x) XOR (byte_of 32 (left x) XOR byte_of 24 (left x) XOR byte_of 48 (right x) XOR byte_of 8 (right x)) XOR byte_of 16 (left x) XOR byte_of 32 (right x)) (byte_of 48 (left x) XOR (byte_of 40 (left x) XOR byte_of 16 (left x) XOR byte_of 56 (right x) XOR byte_of 0 (right x)) XOR byte_of 24 (left x) XOR byte_of 40 (right x))"
  by (simp add: aria_A_def x_bytes blk_def pack8_def ucast_xor8 ucast_xor64 ucast_ucast8 xor.assoc)

lemma diffuse_opt: "blk ((b3 XOR b4 XOR b9 XOR b14) XOR b6 XOR b8 XOR b13) ((b2 XOR b5 XOR b8 XOR b15) XOR b7 XOR b9 XOR b12) ((b1 XOR b6 XOR b11 XOR b12) XOR b4 XOR b10 XOR b15) ((b0 XOR b7 XOR b10 XOR b13) XOR b5 XOR b11 XOR b14) (b0 XOR (b2 XOR b5 XOR b8 XOR b15) XOR b11 XOR b14) (b1 XOR (b3 XOR b4 XOR b9 XOR b14) XOR b10 XOR b15) ((b0 XOR b7 XOR b10 XOR b13) XOR b2 XOR b9 XOR b12) ((b1 XOR b6 XOR b11 XOR b12) XOR b3 XOR b8 XOR b13) ((b0 XOR b7 XOR b10 XOR b13) XOR b1 XOR b4 XOR b15) (b0 XOR (b1 XOR b6 XOR b11 XOR b12) XOR b5 XOR b14) ((b2 XOR b5 XOR b8 XOR b15) XOR b3 XOR b6 XOR b13) (b2 XOR (b3 XOR b4 XOR b9 XOR b14) XOR b7 XOR b12) ((b1 XOR b6 XOR b11 XOR b12) XOR b2 XOR b7 XOR b9) ((b0 XOR b7 XOR b10 XOR b13) XOR b3 XOR b6 XOR b8) (b0 XOR (b3 XOR b4 XOR b9 XOR b14) XOR b5 XOR b11) (b1 XOR (b2 XOR b5 XOR b8 XOR b15) XOR b4 XOR b10) = diffuse b0 b1 b2 b3 b4 b5 b6 b7 b8 b9 b10 b11 b12 b13 b14 b15"
  by (simp add: diffuse_def xor.assoc xor.commute xor.left_commute)

lemma aria_A_bytes: "aria_A x = diffuse (byte_of 56 (left x)) (byte_of 48 (left x)) (byte_of 40 (left x)) (byte_of 32 (left x)) (byte_of 24 (left x)) (byte_of 16 (left x)) (byte_of 8 (left x)) (byte_of 0 (left x)) (byte_of 56 (right x)) (byte_of 48 (right x)) (byte_of 40 (right x)) (byte_of 32 (right x)) (byte_of 24 (right x)) (byte_of 16 (right x)) (byte_of 8 (right x)) (byte_of 0 (right x))"
  by (simp only: aria_A_raw diffuse_opt)

lemma aria_A_direct_bytes: "aria_A_direct x = diffuse (byte_of 56 (left x)) (byte_of 48 (left x)) (byte_of 40 (left x)) (byte_of 32 (left x)) (byte_of 24 (left x)) (byte_of 16 (left x)) (byte_of 8 (left x)) (byte_of 0 (left x)) (byte_of 56 (right x)) (byte_of 48 (right x)) (byte_of 40 (right x)) (byte_of 32 (right x)) (byte_of 24 (right x)) (byte_of 16 (right x)) (byte_of 8 (right x)) (byte_of 0 (right x))"
  by (simp add: aria_A_direct_def diffuse_def x_bytes blk_def pack8_def ucast_xor64 xor.assoc)

lemma aria_A_blk: "aria_A (blk b0 b1 b2 b3 b4 b5 b6 b7 b8 b9 b10 b11 b12 b13 b14 b15) = diffuse b0 b1 b2 b3 b4 b5 b6 b7 b8 b9 b10 b11 b12 b13 b14 b15"
  by (simp only: aria_A_bytes byte_blk)

lemma diffuse_diffuse: "aria_A (diffuse b0 b1 b2 b3 b4 b5 b6 b7 b8 b9 b10 b11 b12 b13 b14 b15) = blk b0 b1 b2 b3 b4 b5 b6 b7 b8 b9 b10 b11 b12 b13 b14 b15"
  unfolding aria_A_bytes
  apply (simp only: diffuse_def byte_blk)
  apply (simp add: xor.assoc xor.commute xor.left_commute)
  done

lemma xor128_blk: "xor128 (blk b0 b1 b2 b3 b4 b5 b6 b7 b8 b9 b10 b11 b12 b13 b14 b15) (blk c0 c1 c2 c3 c4 c5 c6 c7 c8 c9 c10 c11 c12 c13 c14 c15) = blk (b0 XOR c0) (b1 XOR c1) (b2 XOR c2) (b3 XOR c3) (b4 XOR c4) (b5 XOR c5) (b6 XOR c6) (b7 XOR c7) (b8 XOR c8) (b9 XOR c9) (b10 XOR c10) (b11 XOR c11) (b12 XOR c12) (b13 XOR c13) (b14 XOR c14) (b15 XOR c15)"
  apply (simp add: xor128_def blk_def)
  apply (rule conjI; rule word64_eq_bytes; simp add: byte_of_xor byte_pack)
  done

lemma xor128_bytes: "xor128 x y = blk (byte_of 56 (left x) XOR byte_of 56 (left y)) (byte_of 48 (left x) XOR byte_of 48 (left y)) (byte_of 40 (left x) XOR byte_of 40 (left y)) (byte_of 32 (left x) XOR byte_of 32 (left y)) (byte_of 24 (left x) XOR byte_of 24 (left y)) (byte_of 16 (left x) XOR byte_of 16 (left y)) (byte_of 8 (left x) XOR byte_of 8 (left y)) (byte_of 0 (left x) XOR byte_of 0 (left y)) (byte_of 56 (right x) XOR byte_of 56 (right y)) (byte_of 48 (right x) XOR byte_of 48 (right y)) (byte_of 40 (right x) XOR byte_of 40 (right y)) (byte_of 32 (right x) XOR byte_of 32 (right y)) (byte_of 24 (right x) XOR byte_of 24 (right y)) (byte_of 16 (right x) XOR byte_of 16 (right y)) (byte_of 8 (right x) XOR byte_of 8 (right y)) (byte_of 0 (right x) XOR byte_of 0 (right y))"
proof -
  have "xor128 x y = xor128 (blk (byte_of 56 (left x)) (byte_of 48 (left x)) (byte_of 40 (left x)) (byte_of 32 (left x)) (byte_of 24 (left x)) (byte_of 16 (left x)) (byte_of 8 (left x)) (byte_of 0 (left x)) (byte_of 56 (right x)) (byte_of 48 (right x)) (byte_of 40 (right x)) (byte_of 32 (right x)) (byte_of 24 (right x)) (byte_of 16 (right x)) (byte_of 8 (right x)) (byte_of 0 (right x))) (blk (byte_of 56 (left y)) (byte_of 48 (left y)) (byte_of 40 (left y)) (byte_of 32 (left y)) (byte_of 24 (left y)) (byte_of 16 (left y)) (byte_of 8 (left y)) (byte_of 0 (left y)) (byte_of 56 (right y)) (byte_of 48 (right y)) (byte_of 40 (right y)) (byte_of 32 (right y)) (byte_of 24 (right y)) (byte_of 16 (right y)) (byte_of 8 (right y)) (byte_of 0 (right y)))"
    by (simp only: blk_bytes)
  then show ?thesis by (simp only: xor128_blk)
qed

lemma diffuse_xor:
  "diffuse (b0 XOR c0) (b1 XOR c1) (b2 XOR c2) (b3 XOR c3) (b4 XOR c4) (b5 XOR c5) (b6 XOR c6) (b7 XOR c7) (b8 XOR c8) (b9 XOR c9) (b10 XOR c10) (b11 XOR c11) (b12 XOR c12) (b13 XOR c13) (b14 XOR c14) (b15 XOR c15) = xor128 (diffuse b0 b1 b2 b3 b4 b5 b6 b7 b8 b9 b10 b11 b12 b13 b14 b15) (diffuse c0 c1 c2 c3 c4 c5 c6 c7 c8 c9 c10 c11 c12 c13 c14 c15)"
  unfolding diffuse_def xor128_blk
  by (simp add: xor.assoc xor.commute xor.left_commute)

section \<open>Algebra of the layers\<close>

lemma aria_A_invol: "aria_A (aria_A x) = x"
proof -
  have "aria_A (aria_A x) = blk (byte_of 56 (left x)) (byte_of 48 (left x)) (byte_of 40 (left x)) (byte_of 32 (left x)) (byte_of 24 (left x)) (byte_of 16 (left x)) (byte_of 8 (left x)) (byte_of 0 (left x)) (byte_of 56 (right x)) (byte_of 48 (right x)) (byte_of 40 (right x)) (byte_of 32 (right x)) (byte_of 24 (right x)) (byte_of 16 (right x)) (byte_of 8 (right x)) (byte_of 0 (right x))"
    by (subst (2) aria_A_bytes) (rule diffuse_diffuse)
  then show ?thesis by (simp only: blk_bytes)
qed

lemma aria_A_xor128: "aria_A (xor128 x y) = xor128 (aria_A x) (aria_A y)"
proof -
  have "aria_A (xor128 x y) = diffuse (byte_of 56 (left x) XOR byte_of 56 (left y)) (byte_of 48 (left x) XOR byte_of 48 (left y)) (byte_of 40 (left x) XOR byte_of 40 (left y)) (byte_of 32 (left x) XOR byte_of 32 (left y)) (byte_of 24 (left x) XOR byte_of 24 (left y)) (byte_of 16 (left x) XOR byte_of 16 (left y)) (byte_of 8 (left x) XOR byte_of 8 (left y)) (byte_of 0 (left x) XOR byte_of 0 (left y)) (byte_of 56 (right x) XOR byte_of 56 (right y)) (byte_of 48 (right x) XOR byte_of 48 (right y)) (byte_of 40 (right x) XOR byte_of 40 (right y)) (byte_of 32 (right x) XOR byte_of 32 (right y)) (byte_of 24 (right x) XOR byte_of 24 (right y)) (byte_of 16 (right x) XOR byte_of 16 (right y)) (byte_of 8 (right x) XOR byte_of 8 (right y)) (byte_of 0 (right x) XOR byte_of 0 (right y))"
    by (simp only: xor128_bytes aria_A_blk)
  also have "\<dots> = xor128 (aria_A x) (aria_A y)"
    by (simp only: diffuse_xor aria_A_bytes)
  finally show ?thesis .
qed

lemma xor128_cancel: "xor128 (xor128 x k) k = x"
  by (simp add: xor128_def xor.assoc)

lemma xor128_cancel_left: "xor128 k (xor128 k x) = x"
  by (simp add: xor128_def xor.assoc [symmetric])

lemma xor128_zero: "xor128 x zero128 = x"
  by (simp add: xor128_def zero128_def)

section \<open>The substitution tables are inverse pairs\<close>

text \<open>The entries of the four tables, one equation for each index.\<close>

lemma SB1_nth:
  "SB1 ! 0 = 0x63" "SB1 ! Suc 0 = 0x7c" "SB1 ! 2 = 0x77" "SB1 ! 3 = 0x7b"
  "SB1 ! 4 = 0xf2" "SB1 ! 5 = 0x6b" "SB1 ! 6 = 0x6f" "SB1 ! 7 = 0xc5"
  "SB1 ! 8 = 0x30" "SB1 ! 9 = 0x01" "SB1 ! 10 = 0x67" "SB1 ! 11 = 0x2b"
  "SB1 ! 12 = 0xfe" "SB1 ! 13 = 0xd7" "SB1 ! 14 = 0xab" "SB1 ! 15 = 0x76"
  "SB1 ! 16 = 0xca" "SB1 ! 17 = 0x82" "SB1 ! 18 = 0xc9" "SB1 ! 19 = 0x7d"
  "SB1 ! 20 = 0xfa" "SB1 ! 21 = 0x59" "SB1 ! 22 = 0x47" "SB1 ! 23 = 0xf0"
  "SB1 ! 24 = 0xad" "SB1 ! 25 = 0xd4" "SB1 ! 26 = 0xa2" "SB1 ! 27 = 0xaf"
  "SB1 ! 28 = 0x9c" "SB1 ! 29 = 0xa4" "SB1 ! 30 = 0x72" "SB1 ! 31 = 0xc0"
  "SB1 ! 32 = 0xb7" "SB1 ! 33 = 0xfd" "SB1 ! 34 = 0x93" "SB1 ! 35 = 0x26"
  "SB1 ! 36 = 0x36" "SB1 ! 37 = 0x3f" "SB1 ! 38 = 0xf7" "SB1 ! 39 = 0xcc"
  "SB1 ! 40 = 0x34" "SB1 ! 41 = 0xa5" "SB1 ! 42 = 0xe5" "SB1 ! 43 = 0xf1"
  "SB1 ! 44 = 0x71" "SB1 ! 45 = 0xd8" "SB1 ! 46 = 0x31" "SB1 ! 47 = 0x15"
  "SB1 ! 48 = 0x04" "SB1 ! 49 = 0xc7" "SB1 ! 50 = 0x23" "SB1 ! 51 = 0xc3"
  "SB1 ! 52 = 0x18" "SB1 ! 53 = 0x96" "SB1 ! 54 = 0x05" "SB1 ! 55 = 0x9a"
  "SB1 ! 56 = 0x07" "SB1 ! 57 = 0x12" "SB1 ! 58 = 0x80" "SB1 ! 59 = 0xe2"
  "SB1 ! 60 = 0xeb" "SB1 ! 61 = 0x27" "SB1 ! 62 = 0xb2" "SB1 ! 63 = 0x75"
  "SB1 ! 64 = 0x09" "SB1 ! 65 = 0x83" "SB1 ! 66 = 0x2c" "SB1 ! 67 = 0x1a"
  "SB1 ! 68 = 0x1b" "SB1 ! 69 = 0x6e" "SB1 ! 70 = 0x5a" "SB1 ! 71 = 0xa0"
  "SB1 ! 72 = 0x52" "SB1 ! 73 = 0x3b" "SB1 ! 74 = 0xd6" "SB1 ! 75 = 0xb3"
  "SB1 ! 76 = 0x29" "SB1 ! 77 = 0xe3" "SB1 ! 78 = 0x2f" "SB1 ! 79 = 0x84"
  "SB1 ! 80 = 0x53" "SB1 ! 81 = 0xd1" "SB1 ! 82 = 0x00" "SB1 ! 83 = 0xed"
  "SB1 ! 84 = 0x20" "SB1 ! 85 = 0xfc" "SB1 ! 86 = 0xb1" "SB1 ! 87 = 0x5b"
  "SB1 ! 88 = 0x6a" "SB1 ! 89 = 0xcb" "SB1 ! 90 = 0xbe" "SB1 ! 91 = 0x39"
  "SB1 ! 92 = 0x4a" "SB1 ! 93 = 0x4c" "SB1 ! 94 = 0x58" "SB1 ! 95 = 0xcf"
  "SB1 ! 96 = 0xd0" "SB1 ! 97 = 0xef" "SB1 ! 98 = 0xaa" "SB1 ! 99 = 0xfb"
  "SB1 ! 100 = 0x43" "SB1 ! 101 = 0x4d" "SB1 ! 102 = 0x33" "SB1 ! 103 = 0x85"
  "SB1 ! 104 = 0x45" "SB1 ! 105 = 0xf9" "SB1 ! 106 = 0x02" "SB1 ! 107 = 0x7f"
  "SB1 ! 108 = 0x50" "SB1 ! 109 = 0x3c" "SB1 ! 110 = 0x9f" "SB1 ! 111 = 0xa8"
  "SB1 ! 112 = 0x51" "SB1 ! 113 = 0xa3" "SB1 ! 114 = 0x40" "SB1 ! 115 = 0x8f"
  "SB1 ! 116 = 0x92" "SB1 ! 117 = 0x9d" "SB1 ! 118 = 0x38" "SB1 ! 119 = 0xf5"
  "SB1 ! 120 = 0xbc" "SB1 ! 121 = 0xb6" "SB1 ! 122 = 0xda" "SB1 ! 123 = 0x21"
  "SB1 ! 124 = 0x10" "SB1 ! 125 = 0xff" "SB1 ! 126 = 0xf3" "SB1 ! 127 = 0xd2"
  "SB1 ! 128 = 0xcd" "SB1 ! 129 = 0x0c" "SB1 ! 130 = 0x13" "SB1 ! 131 = 0xec"
  "SB1 ! 132 = 0x5f" "SB1 ! 133 = 0x97" "SB1 ! 134 = 0x44" "SB1 ! 135 = 0x17"
  "SB1 ! 136 = 0xc4" "SB1 ! 137 = 0xa7" "SB1 ! 138 = 0x7e" "SB1 ! 139 = 0x3d"
  "SB1 ! 140 = 0x64" "SB1 ! 141 = 0x5d" "SB1 ! 142 = 0x19" "SB1 ! 143 = 0x73"
  "SB1 ! 144 = 0x60" "SB1 ! 145 = 0x81" "SB1 ! 146 = 0x4f" "SB1 ! 147 = 0xdc"
  "SB1 ! 148 = 0x22" "SB1 ! 149 = 0x2a" "SB1 ! 150 = 0x90" "SB1 ! 151 = 0x88"
  "SB1 ! 152 = 0x46" "SB1 ! 153 = 0xee" "SB1 ! 154 = 0xb8" "SB1 ! 155 = 0x14"
  "SB1 ! 156 = 0xde" "SB1 ! 157 = 0x5e" "SB1 ! 158 = 0x0b" "SB1 ! 159 = 0xdb"
  "SB1 ! 160 = 0xe0" "SB1 ! 161 = 0x32" "SB1 ! 162 = 0x3a" "SB1 ! 163 = 0x0a"
  "SB1 ! 164 = 0x49" "SB1 ! 165 = 0x06" "SB1 ! 166 = 0x24" "SB1 ! 167 = 0x5c"
  "SB1 ! 168 = 0xc2" "SB1 ! 169 = 0xd3" "SB1 ! 170 = 0xac" "SB1 ! 171 = 0x62"
  "SB1 ! 172 = 0x91" "SB1 ! 173 = 0x95" "SB1 ! 174 = 0xe4" "SB1 ! 175 = 0x79"
  "SB1 ! 176 = 0xe7" "SB1 ! 177 = 0xc8" "SB1 ! 178 = 0x37" "SB1 ! 179 = 0x6d"
  "SB1 ! 180 = 0x8d" "SB1 ! 181 = 0xd5" "SB1 ! 182 = 0x4e" "SB1 ! 183 = 0xa9"
  "SB1 ! 184 = 0x6c" "SB1 ! 185 = 0x56" "SB1 ! 186 = 0xf4" "SB1 ! 187 = 0xea"
  "SB1 ! 188 = 0x65" "SB1 ! 189 = 0x7a" "SB1 ! 190 = 0xae" "SB1 ! 191 = 0x08"
  "SB1 ! 192 = 0xba" "SB1 ! 193 = 0x78" "SB1 ! 194 = 0x25" "SB1 ! 195 = 0x2e"
  "SB1 ! 196 = 0x1c" "SB1 ! 197 = 0xa6" "SB1 ! 198 = 0xb4" "SB1 ! 199 = 0xc6"
  "SB1 ! 200 = 0xe8" "SB1 ! 201 = 0xdd" "SB1 ! 202 = 0x74" "SB1 ! 203 = 0x1f"
  "SB1 ! 204 = 0x4b" "SB1 ! 205 = 0xbd" "SB1 ! 206 = 0x8b" "SB1 ! 207 = 0x8a"
  "SB1 ! 208 = 0x70" "SB1 ! 209 = 0x3e" "SB1 ! 210 = 0xb5" "SB1 ! 211 = 0x66"
  "SB1 ! 212 = 0x48" "SB1 ! 213 = 0x03" "SB1 ! 214 = 0xf6" "SB1 ! 215 = 0x0e"
  "SB1 ! 216 = 0x61" "SB1 ! 217 = 0x35" "SB1 ! 218 = 0x57" "SB1 ! 219 = 0xb9"
  "SB1 ! 220 = 0x86" "SB1 ! 221 = 0xc1" "SB1 ! 222 = 0x1d" "SB1 ! 223 = 0x9e"
  "SB1 ! 224 = 0xe1" "SB1 ! 225 = 0xf8" "SB1 ! 226 = 0x98" "SB1 ! 227 = 0x11"
  "SB1 ! 228 = 0x69" "SB1 ! 229 = 0xd9" "SB1 ! 230 = 0x8e" "SB1 ! 231 = 0x94"
  "SB1 ! 232 = 0x9b" "SB1 ! 233 = 0x1e" "SB1 ! 234 = 0x87" "SB1 ! 235 = 0xe9"
  "SB1 ! 236 = 0xce" "SB1 ! 237 = 0x55" "SB1 ! 238 = 0x28" "SB1 ! 239 = 0xdf"
  "SB1 ! 240 = 0x8c" "SB1 ! 241 = 0xa1" "SB1 ! 242 = 0x89" "SB1 ! 243 = 0x0d"
  "SB1 ! 244 = 0xbf" "SB1 ! 245 = 0xe6" "SB1 ! 246 = 0x42" "SB1 ! 247 = 0x68"
  "SB1 ! 248 = 0x41" "SB1 ! 249 = 0x99" "SB1 ! 250 = 0x2d" "SB1 ! 251 = 0x0f"
  "SB1 ! 252 = 0xb0" "SB1 ! 253 = 0x54" "SB1 ! 254 = 0xbb" "SB1 ! 255 = 0x16"
  by (simp_all add: SB1_def)

lemma SB2_nth:
  "SB2 ! 0 = 0xe2" "SB2 ! Suc 0 = 0x4e" "SB2 ! 2 = 0x54" "SB2 ! 3 = 0xfc"
  "SB2 ! 4 = 0x94" "SB2 ! 5 = 0xc2" "SB2 ! 6 = 0x4a" "SB2 ! 7 = 0xcc"
  "SB2 ! 8 = 0x62" "SB2 ! 9 = 0x0d" "SB2 ! 10 = 0x6a" "SB2 ! 11 = 0x46"
  "SB2 ! 12 = 0x3c" "SB2 ! 13 = 0x4d" "SB2 ! 14 = 0x8b" "SB2 ! 15 = 0xd1"
  "SB2 ! 16 = 0x5e" "SB2 ! 17 = 0xfa" "SB2 ! 18 = 0x64" "SB2 ! 19 = 0xcb"
  "SB2 ! 20 = 0xb4" "SB2 ! 21 = 0x97" "SB2 ! 22 = 0xbe" "SB2 ! 23 = 0x2b"
  "SB2 ! 24 = 0xbc" "SB2 ! 25 = 0x77" "SB2 ! 26 = 0x2e" "SB2 ! 27 = 0x03"
  "SB2 ! 28 = 0xd3" "SB2 ! 29 = 0x19" "SB2 ! 30 = 0x59" "SB2 ! 31 = 0xc1"
  "SB2 ! 32 = 0x1d" "SB2 ! 33 = 0x06" "SB2 ! 34 = 0x41" "SB2 ! 35 = 0x6b"
  "SB2 ! 36 = 0x55" "SB2 ! 37 = 0xf0" "SB2 ! 38 = 0x99" "SB2 ! 39 = 0x69"
  "SB2 ! 40 = 0xea" "SB2 ! 41 = 0x9c" "SB2 ! 42 = 0x18" "SB2 ! 43 = 0xae"
  "SB2 ! 44 = 0x63" "SB2 ! 45 = 0xdf" "SB2 ! 46 = 0xe7" "SB2 ! 47 = 0xbb"
  "SB2 ! 48 = 0x00" "SB2 ! 49 = 0x73" "SB2 ! 50 = 0x66" "SB2 ! 51 = 0xfb"
  "SB2 ! 52 = 0x96" "SB2 ! 53 = 0x4c" "SB2 ! 54 = 0x85" "SB2 ! 55 = 0xe4"
  "SB2 ! 56 = 0x3a" "SB2 ! 57 = 0x09" "SB2 ! 58 = 0x45" "SB2 ! 59 = 0xaa"
  "SB2 ! 60 = 0x0f" "SB2 ! 61 = 0xee" "SB2 ! 62 = 0x10" "SB2 ! 63 = 0xeb"
  "SB2 ! 64 = 0x2d" "SB2 ! 65 = 0x7f" "SB2 ! 66 = 0xf4" "SB2 ! 67 = 0x29"
  "SB2 ! 68 = 0xac" "SB2 ! 69 = 0xcf" "SB2 ! 70 = 0xad" "SB2 ! 71 = 0x91"
  "SB2 ! 72 = 0x8d" "SB2 ! 73 = 0x78" "SB2 ! 74 = 0xc8" "SB2 ! 75 = 0x95"
  "SB2 ! 76 = 0xf9" "SB2 ! 77 = 0x2f" "SB2 ! 78 = 0xce" "SB2 ! 79 = 0xcd"
  "SB2 ! 80 = 0x08" "SB2 ! 81 = 0x7a" "SB2 ! 82 = 0x88" "SB2 ! 83 = 0x38"
  "SB2 ! 84 = 0x5c" "SB2 ! 85 = 0x83" "SB2 ! 86 = 0x2a" "SB2 ! 87 = 0x28"
  "SB2 ! 88 = 0x47" "SB2 ! 89 = 0xdb" "SB2 ! 90 = 0xb8" "SB2 ! 91 = 0xc7"
  "SB2 ! 92 = 0x93" "SB2 ! 93 = 0xa4" "SB2 ! 94 = 0x12" "SB2 ! 95 = 0x53"
  "SB2 ! 96 = 0xff" "SB2 ! 97 = 0x87" "SB2 ! 98 = 0x0e" "SB2 ! 99 = 0x31"
  "SB2 ! 100 = 0x36" "SB2 ! 101 = 0x21" "SB2 ! 102 = 0x58" "SB2 ! 103 = 0x48"
  "SB2 ! 104 = 0x01" "SB2 ! 105 = 0x8e" "SB2 ! 106 = 0x37" "SB2 ! 107 = 0x74"
  "SB2 ! 108 = 0x32" "SB2 ! 109 = 0xca" "SB2 ! 110 = 0xe9" "SB2 ! 111 = 0xb1"
  "SB2 ! 112 = 0xb7" "SB2 ! 113 = 0xab" "SB2 ! 114 = 0x0c" "SB2 ! 115 = 0xd7"
  "SB2 ! 116 = 0xc4" "SB2 ! 117 = 0x56" "SB2 ! 118 = 0x42" "SB2 ! 119 = 0x26"
  "SB2 ! 120 = 0x07" "SB2 ! 121 = 0x98" "SB2 ! 122 = 0x60" "SB2 ! 123 = 0xd9"
  "SB2 ! 124 = 0xb6" "SB2 ! 125 = 0xb9" "SB2 ! 126 = 0x11" "SB2 ! 127 = 0x40"
  "SB2 ! 128 = 0xec" "SB2 ! 129 = 0x20" "SB2 ! 130 = 0x8c" "SB2 ! 131 = 0xbd"
  "SB2 ! 132 = 0xa0" "SB2 ! 133 = 0xc9" "SB2 ! 134 = 0x84" "SB2 ! 135 = 0x04"
  "SB2 ! 136 = 0x49" "SB2 ! 137 = 0x23" "SB2 ! 138 = 0xf1" "SB2 ! 139 = 0x4f"
  "SB2 ! 140 = 0x50" "SB2 ! 141 = 0x1f" "SB2 ! 142 = 0x13" "SB2 ! 143 = 0xdc"
  "SB2 ! 144 = 0xd8" "SB2 ! 145 = 0xc0" "SB2 ! 146 = 0x9e" "SB2 ! 147 = 0x57"
  "SB2 ! 148 = 0xe3" "SB2 ! 149 = 0xc3" "SB2 ! 150 = 0x7b" "SB2 ! 151 = 0x65"
  "SB2 ! 152 = 0x3b" "SB2 ! 153 = 0x02" "SB2 ! 154 = 0x8f" "SB2 ! 155 = 0x3e"
  "SB2 ! 156 = 0xe8" "SB2 ! 157 = 0x25" "SB2 ! 158 = 0x92" "SB2 ! 159 = 0xe5"
  "SB2 ! 160 = 0x15" "SB2 ! 161 = 0xdd" "SB2 ! 162 = 0xfd" "SB2 ! 163 = 0x17"
  "SB2 ! 164 = 0xa9" "SB2 ! 165 = 0xbf" "SB2 ! 166 = 0xd4" "SB2 ! 167 = 0x9a"
  "SB2 ! 168 = 0x7e" "SB2 ! 169 = 0xc5" "SB2 ! 170 = 0x39" "SB2 ! 171 = 0x67"
  "SB2 ! 172 = 0xfe" "SB2 ! 173 = 0x76" "SB2 ! 174 = 0x9d" "SB2 ! 175 = 0x43"
  "SB2 ! 176 = 0xa7" "SB2 ! 177 = 0xe1" "SB2 ! 178 = 0xd0" "SB2 ! 179 = 0xf5"
  "SB2 ! 180 = 0x68" "SB2 ! 181 = 0xf2" "SB2 ! 182 = 0x1b" "SB2 ! 183 = 0x34"
  "SB2 ! 184 = 0x70" "SB2 ! 185 = 0x05" "SB2 ! 186 = 0xa3" "SB2 ! 187 = 0x8a"
  "SB2 ! 188 = 0xd5" "SB2 ! 189 = 0x79" "SB2 ! 190 = 0x86" "SB2 ! 191 = 0xa8"
  "SB2 ! 192 = 0x30" "SB2 ! 193 = 0xc6" "SB2 ! 194 = 0x51" "SB2 ! 195 = 0x4b"
  "SB2 ! 196 = 0x1e" "SB2 ! 197 = 0xa6" "SB2 ! 198 = 0x27" "SB2 ! 199 = 0xf6"
  "SB2 ! 200 = 0x35" "SB2 ! 201 = 0xd2" "SB2 ! 202 = 0x6e" "SB2 ! 203 = 0x24"
  "SB2 ! 204 = 0x16" "SB2 ! 205 = 0x82" "SB2 ! 206 = 0x5f" "SB2 ! 207 = 0xda"
  "SB2 ! 208 = 0xe6" "SB2 ! 209 = 0x75" "SB2 ! 210 = 0xa2" "SB2 ! 211 = 0xef"
  "SB2 ! 212 = 0x2c" "SB2 ! 213 = 0xb2" "SB2 ! 214 = 0x1c" "SB2 ! 215 = 0x9f"
  "SB2 ! 216 = 0x5d" "SB2 ! 217 = 0x6f" "SB2 ! 218 = 0x80" "SB2 ! 219 = 0x0a"
  "SB2 ! 220 = 0x72" "SB2 ! 221 = 0x44" "SB2 ! 222 = 0x9b" "SB2 ! 223 = 0x6c"
  "SB2 ! 224 = 0x90" "SB2 ! 225 = 0x0b" "SB2 ! 226 = 0x5b" "SB2 ! 227 = 0x33"
  "SB2 ! 228 = 0x7d" "SB2 ! 229 = 0x5a" "SB2 ! 230 = 0x52" "SB2 ! 231 = 0xf3"
  "SB2 ! 232 = 0x61" "SB2 ! 233 = 0xa1" "SB2 ! 234 = 0xf7" "SB2 ! 235 = 0xb0"
  "SB2 ! 236 = 0xd6" "SB2 ! 237 = 0x3f" "SB2 ! 238 = 0x7c" "SB2 ! 239 = 0x6d"
  "SB2 ! 240 = 0xed" "SB2 ! 241 = 0x14" "SB2 ! 242 = 0xe0" "SB2 ! 243 = 0xa5"
  "SB2 ! 244 = 0x3d" "SB2 ! 245 = 0x22" "SB2 ! 246 = 0xb3" "SB2 ! 247 = 0xf8"
  "SB2 ! 248 = 0x89" "SB2 ! 249 = 0xde" "SB2 ! 250 = 0x71" "SB2 ! 251 = 0x1a"
  "SB2 ! 252 = 0xaf" "SB2 ! 253 = 0xba" "SB2 ! 254 = 0xb5" "SB2 ! 255 = 0x81"
  by (simp_all add: SB2_def)

lemma SB3_nth:
  "SB3 ! 0 = 0x52" "SB3 ! Suc 0 = 0x09" "SB3 ! 2 = 0x6a" "SB3 ! 3 = 0xd5"
  "SB3 ! 4 = 0x30" "SB3 ! 5 = 0x36" "SB3 ! 6 = 0xa5" "SB3 ! 7 = 0x38"
  "SB3 ! 8 = 0xbf" "SB3 ! 9 = 0x40" "SB3 ! 10 = 0xa3" "SB3 ! 11 = 0x9e"
  "SB3 ! 12 = 0x81" "SB3 ! 13 = 0xf3" "SB3 ! 14 = 0xd7" "SB3 ! 15 = 0xfb"
  "SB3 ! 16 = 0x7c" "SB3 ! 17 = 0xe3" "SB3 ! 18 = 0x39" "SB3 ! 19 = 0x82"
  "SB3 ! 20 = 0x9b" "SB3 ! 21 = 0x2f" "SB3 ! 22 = 0xff" "SB3 ! 23 = 0x87"
  "SB3 ! 24 = 0x34" "SB3 ! 25 = 0x8e" "SB3 ! 26 = 0x43" "SB3 ! 27 = 0x44"
  "SB3 ! 28 = 0xc4" "SB3 ! 29 = 0xde" "SB3 ! 30 = 0xe9" "SB3 ! 31 = 0xcb"
  "SB3 ! 32 = 0x54" "SB3 ! 33 = 0x7b" "SB3 ! 34 = 0x94" "SB3 ! 35 = 0x32"
  "SB3 ! 36 = 0xa6" "SB3 ! 37 = 0xc2" "SB3 ! 38 = 0x23" "SB3 ! 39 = 0x3d"
  "SB3 ! 40 = 0xee" "SB3 ! 41 = 0x4c" "SB3 ! 42 = 0x95" "SB3 ! 43 = 0x0b"
  "SB3 ! 44 = 0x42" "SB3 ! 45 = 0xfa" "SB3 ! 46 = 0xc3" "SB3 ! 47 = 0x4e"
  "SB3 ! 48 = 0x08" "SB3 ! 49 = 0x2e" "SB3 ! 50 = 0xa1" "SB3 ! 51 = 0x66"
  "SB3 ! 52 = 0x28" "SB3 ! 53 = 0xd9" "SB3 ! 54 = 0x24" "SB3 ! 55 = 0xb2"
  "SB3 ! 56 = 0x76" "SB3 ! 57 = 0x5b" "SB3 ! 58 = 0xa2" "SB3 ! 59 = 0x49"
  "SB3 ! 60 = 0x6d" "SB3 ! 61 = 0x8b" "SB3 ! 62 = 0xd1" "SB3 ! 63 = 0x25"
  "SB3 ! 64 = 0x72" "SB3 ! 65 = 0xf8" "SB3 ! 66 = 0xf6" "SB3 ! 67 = 0x64"
  "SB3 ! 68 = 0x86" "SB3 ! 69 = 0x68" "SB3 ! 70 = 0x98" "SB3 ! 71 = 0x16"
  "SB3 ! 72 = 0xd4" "SB3 ! 73 = 0xa4" "SB3 ! 74 = 0x5c" "SB3 ! 75 = 0xcc"
  "SB3 ! 76 = 0x5d" "SB3 ! 77 = 0x65" "SB3 ! 78 = 0xb6" "SB3 ! 79 = 0x92"
  "SB3 ! 80 = 0x6c" "SB3 ! 81 = 0x70" "SB3 ! 82 = 0x48" "SB3 ! 83 = 0x50"
  "SB3 ! 84 = 0xfd" "SB3 ! 85 = 0xed" "SB3 ! 86 = 0xb9" "SB3 ! 87 = 0xda"
  "SB3 ! 88 = 0x5e" "SB3 ! 89 = 0x15" "SB3 ! 90 = 0x46" "SB3 ! 91 = 0x57"
  "SB3 ! 92 = 0xa7" "SB3 ! 93 = 0x8d" "SB3 ! 94 = 0x9d" "SB3 ! 95 = 0x84"
  "SB3 ! 96 = 0x90" "SB3 ! 97 = 0xd8" "SB3 ! 98 = 0xab" "SB3 ! 99 = 0x00"
  "SB3 ! 100 = 0x8c" "SB3 ! 101 = 0xbc" "SB3 ! 102 = 0xd3" "SB3 ! 103 = 0x0a"
  "SB3 ! 104 = 0xf7" "SB3 ! 105 = 0xe4" "SB3 ! 106 = 0x58" "SB3 ! 107 = 0x05"
  "SB3 ! 108 = 0xb8" "SB3 ! 109 = 0xb3" "SB3 ! 110 = 0x45" "SB3 ! 111 = 0x06"
  "SB3 ! 112 = 0xd0" "SB3 ! 113 = 0x2c" "SB3 ! 114 = 0x1e" "SB3 ! 115 = 0x8f"
  "SB3 ! 116 = 0xca" "SB3 ! 117 = 0x3f" "SB3 ! 118 = 0x0f" "SB3 ! 119 = 0x02"
  "SB3 ! 120 = 0xc1" "SB3 ! 121 = 0xaf" "SB3 ! 122 = 0xbd" "SB3 ! 123 = 0x03"
  "SB3 ! 124 = 0x01" "SB3 ! 125 = 0x13" "SB3 ! 126 = 0x8a" "SB3 ! 127 = 0x6b"
  "SB3 ! 128 = 0x3a" "SB3 ! 129 = 0x91" "SB3 ! 130 = 0x11" "SB3 ! 131 = 0x41"
  "SB3 ! 132 = 0x4f" "SB3 ! 133 = 0x67" "SB3 ! 134 = 0xdc" "SB3 ! 135 = 0xea"
  "SB3 ! 136 = 0x97" "SB3 ! 137 = 0xf2" "SB3 ! 138 = 0xcf" "SB3 ! 139 = 0xce"
  "SB3 ! 140 = 0xf0" "SB3 ! 141 = 0xb4" "SB3 ! 142 = 0xe6" "SB3 ! 143 = 0x73"
  "SB3 ! 144 = 0x96" "SB3 ! 145 = 0xac" "SB3 ! 146 = 0x74" "SB3 ! 147 = 0x22"
  "SB3 ! 148 = 0xe7" "SB3 ! 149 = 0xad" "SB3 ! 150 = 0x35" "SB3 ! 151 = 0x85"
  "SB3 ! 152 = 0xe2" "SB3 ! 153 = 0xf9" "SB3 ! 154 = 0x37" "SB3 ! 155 = 0xe8"
  "SB3 ! 156 = 0x1c" "SB3 ! 157 = 0x75" "SB3 ! 158 = 0xdf" "SB3 ! 159 = 0x6e"
  "SB3 ! 160 = 0x47" "SB3 ! 161 = 0xf1" "SB3 ! 162 = 0x1a" "SB3 ! 163 = 0x71"
  "SB3 ! 164 = 0x1d" "SB3 ! 165 = 0x29" "SB3 ! 166 = 0xc5" "SB3 ! 167 = 0x89"
  "SB3 ! 168 = 0x6f" "SB3 ! 169 = 0xb7" "SB3 ! 170 = 0x62" "SB3 ! 171 = 0x0e"
  "SB3 ! 172 = 0xaa" "SB3 ! 173 = 0x18" "SB3 ! 174 = 0xbe" "SB3 ! 175 = 0x1b"
  "SB3 ! 176 = 0xfc" "SB3 ! 177 = 0x56" "SB3 ! 178 = 0x3e" "SB3 ! 179 = 0x4b"
  "SB3 ! 180 = 0xc6" "SB3 ! 181 = 0xd2" "SB3 ! 182 = 0x79" "SB3 ! 183 = 0x20"
  "SB3 ! 184 = 0x9a" "SB3 ! 185 = 0xdb" "SB3 ! 186 = 0xc0" "SB3 ! 187 = 0xfe"
  "SB3 ! 188 = 0x78" "SB3 ! 189 = 0xcd" "SB3 ! 190 = 0x5a" "SB3 ! 191 = 0xf4"
  "SB3 ! 192 = 0x1f" "SB3 ! 193 = 0xdd" "SB3 ! 194 = 0xa8" "SB3 ! 195 = 0x33"
  "SB3 ! 196 = 0x88" "SB3 ! 197 = 0x07" "SB3 ! 198 = 0xc7" "SB3 ! 199 = 0x31"
  "SB3 ! 200 = 0xb1" "SB3 ! 201 = 0x12" "SB3 ! 202 = 0x10" "SB3 ! 203 = 0x59"
  "SB3 ! 204 = 0x27" "SB3 ! 205 = 0x80" "SB3 ! 206 = 0xec" "SB3 ! 207 = 0x5f"
  "SB3 ! 208 = 0x60" "SB3 ! 209 = 0x51" "SB3 ! 210 = 0x7f" "SB3 ! 211 = 0xa9"
  "SB3 ! 212 = 0x19" "SB3 ! 213 = 0xb5" "SB3 ! 214 = 0x4a" "SB3 ! 215 = 0x0d"
  "SB3 ! 216 = 0x2d" "SB3 ! 217 = 0xe5" "SB3 ! 218 = 0x7a" "SB3 ! 219 = 0x9f"
  "SB3 ! 220 = 0x93" "SB3 ! 221 = 0xc9" "SB3 ! 222 = 0x9c" "SB3 ! 223 = 0xef"
  "SB3 ! 224 = 0xa0" "SB3 ! 225 = 0xe0" "SB3 ! 226 = 0x3b" "SB3 ! 227 = 0x4d"
  "SB3 ! 228 = 0xae" "SB3 ! 229 = 0x2a" "SB3 ! 230 = 0xf5" "SB3 ! 231 = 0xb0"
  "SB3 ! 232 = 0xc8" "SB3 ! 233 = 0xeb" "SB3 ! 234 = 0xbb" "SB3 ! 235 = 0x3c"
  "SB3 ! 236 = 0x83" "SB3 ! 237 = 0x53" "SB3 ! 238 = 0x99" "SB3 ! 239 = 0x61"
  "SB3 ! 240 = 0x17" "SB3 ! 241 = 0x2b" "SB3 ! 242 = 0x04" "SB3 ! 243 = 0x7e"
  "SB3 ! 244 = 0xba" "SB3 ! 245 = 0x77" "SB3 ! 246 = 0xd6" "SB3 ! 247 = 0x26"
  "SB3 ! 248 = 0xe1" "SB3 ! 249 = 0x69" "SB3 ! 250 = 0x14" "SB3 ! 251 = 0x63"
  "SB3 ! 252 = 0x55" "SB3 ! 253 = 0x21" "SB3 ! 254 = 0x0c" "SB3 ! 255 = 0x7d"
  by (simp_all add: SB3_def)

lemma SB4_nth:
  "SB4 ! 0 = 0x30" "SB4 ! Suc 0 = 0x68" "SB4 ! 2 = 0x99" "SB4 ! 3 = 0x1b"
  "SB4 ! 4 = 0x87" "SB4 ! 5 = 0xb9" "SB4 ! 6 = 0x21" "SB4 ! 7 = 0x78"
  "SB4 ! 8 = 0x50" "SB4 ! 9 = 0x39" "SB4 ! 10 = 0xdb" "SB4 ! 11 = 0xe1"
  "SB4 ! 12 = 0x72" "SB4 ! 13 = 0x09" "SB4 ! 14 = 0x62" "SB4 ! 15 = 0x3c"
  "SB4 ! 16 = 0x3e" "SB4 ! 17 = 0x7e" "SB4 ! 18 = 0x5e" "SB4 ! 19 = 0x8e"
  "SB4 ! 20 = 0xf1" "SB4 ! 21 = 0xa0" "SB4 ! 22 = 0xcc" "SB4 ! 23 = 0xa3"
  "SB4 ! 24 = 0x2a" "SB4 ! 25 = 0x1d" "SB4 ! 26 = 0xfb" "SB4 ! 27 = 0xb6"
  "SB4 ! 28 = 0xd6" "SB4 ! 29 = 0x20" "SB4 ! 30 = 0xc4" "SB4 ! 31 = 0x8d"
  "SB4 ! 32 = 0x81" "SB4 ! 33 = 0x65" "SB4 ! 34 = 0xf5" "SB4 ! 35 = 0x89"
  "SB4 ! 36 = 0xcb" "SB4 ! 37 = 0x9d" "SB4 ! 38 = 0x77" "SB4 ! 39 = 0xc6"
  "SB4 ! 40 = 0x57" "SB4 ! 41 = 0x43" "SB4 ! 42 = 0x56" "SB4 ! 43 = 0x17"
  "SB4 ! 44 = 0xd4" "SB4 ! 45 = 0x40" "SB4 ! 46 = 0x1a" "SB4 ! 47 = 0x4d"
  "SB4 ! 48 = 0xc0" "SB4 ! 49 = 0x63" "SB4 ! 50 = 0x6c" "SB4 ! 51 = 0xe3"
  "SB4 ! 52 = 0xb7" "SB4 ! 53 = 0xc8" "SB4 ! 54 = 0x64" "SB4 ! 55 = 0x6a"
  "SB4 ! 56 = 0x53" "SB4 ! 57 = 0xaa" "SB4 ! 58 = 0x38" "SB4 ! 59 = 0x98"
  "SB4 ! 60 = 0x0c" "SB4 ! 61 = 0xf4" "SB4 ! 62 = 0x9b" "SB4 ! 63 = 0xed"
  "SB4 ! 64 = 0x7f" "SB4 ! 65 = 0x22" "SB4 ! 66 = 0x76" "SB4 ! 67 = 0xaf"
  "SB4 ! 68 = 0xdd" "SB4 ! 69 = 0x3a" "SB4 ! 70 = 0x0b" "SB4 ! 71 = 0x58"
  "SB4 ! 72 = 0x67" "SB4 ! 73 = 0x88" "SB4 ! 74 = 0x06" "SB4 ! 75 = 0xc3"
  "SB4 ! 76 = 0x35" "SB4 ! 77 = 0x0d" "SB4 ! 78 = 0x01" "SB4 ! 79 = 0x8b"
  "SB4 ! 80 = 0x8c" "SB4 ! 81 = 0xc2" "SB4 ! 82 = 0xe6" "SB4 ! 83 = 0x5f"
  "SB4 ! 84 = 0x02" "SB4 ! 85 = 0x24" "SB4 ! 86 = 0x75" "SB4 ! 87 = 0x93"
  "SB4 ! 88 = 0x66" "SB4 ! 89 = 0x1e" "SB4 ! 90 = 0xe5" "SB4 ! 91 = 0xe2"
  "SB4 ! 92 = 0x54" "SB4 ! 93 = 0xd8" "SB4 ! 94 = 0x10" "SB4 ! 95 = 0xce"
  "SB4 ! 96 = 0x7a" "SB4 ! 97 = 0xe8" "SB4 ! 98 = 0x08" "SB4 ! 99 = 0x2c"
  "SB4 ! 100 = 0x12" "SB4 ! 101 = 0x97" "SB4 ! 102 = 0x32" "SB4 ! 103 = 0xab"
  "SB4 ! 104 = 0xb4" "SB4 ! 105 = 0x27" "SB4 ! 106 = 0x0a" "SB4 ! 107 = 0x23"
  "SB4 ! 108 = 0xdf" "SB4 ! 109 = 0xef" "SB4 ! 110 = 0xca" "SB4 ! 111 = 0xd9"
  "SB4 ! 112 = 0xb8" "SB4 ! 113 = 0xfa" "SB4 ! 114 = 0xdc" "SB4 ! 115 = 0x31"
  "SB4 ! 116 = 0x6b" "SB4 ! 117 = 0xd1" "SB4 ! 118 = 0xad" "SB4 ! 119 = 0x19"
  "SB4 ! 120 = 0x49" "SB4 ! 121 = 0xbd" "SB4 ! 122 = 0x51" "SB4 ! 123 = 0x96"
  "SB4 ! 124 = 0xee" "SB4 ! 125 = 0xe4" "SB4 ! 126 = 0xa8" "SB4 ! 127 = 0x41"
  "SB4 ! 128 = 0xda" "SB4 ! 129 = 0xff" "SB4 ! 130 = 0xcd" "SB4 ! 131 = 0x55"
  "SB4 ! 132 = 0x86" "SB4 ! 133 = 0x36" "SB4 ! 134 = 0xbe" "SB4 ! 135 = 0x61"
  "SB4 ! 136 = 0x52" "SB4 ! 137 = 0xf8" "SB4 ! 138 = 0xbb" "SB4 ! 139 = 0x0e"
  "SB4 ! 140 = 0x82" "SB4 ! 141 = 0x48" "SB4 ! 142 = 0x69" "SB4 ! 143 = 0x9a"
  "SB4 ! 144 = 0xe0" "SB4 ! 145 = 0x47" "SB4 ! 146 = 0x9e" "SB4 ! 147 = 0x5c"
  "SB4 ! 148 = 0x04" "SB4 ! 149 = 0x4b" "SB4 ! 150 = 0x34" "SB4 ! 151 = 0x15"
  "SB4 ! 152 = 0x79" "SB4 ! 153 = 0x26" "SB4 ! 154 = 0xa7" "SB4 ! 155 = 0xde"
  "SB4 ! 156 = 0x29" "SB4 ! 157 = 0xae" "SB4 ! 158 = 0x92" "SB4 ! 159 = 0xd7"
  "SB4 ! 160 = 0x84" "SB4 ! 161 = 0xe9" "SB4 ! 162 = 0xd2" "SB4 ! 163 = 0xba"
  "SB4 ! 164 = 0x5d" "SB4 ! 165 = 0xf3" "SB4 ! 166 = 0xc5" "SB4 ! 167 = 0xb0"
  "SB4 ! 168 = 0xbf" "SB4 ! 169 = 0xa4" "SB4 ! 170 = 0x3b" "SB4 ! 171 = 0x71"
  "SB4 ! 172 = 0x44" "SB4 ! 173 = 0x46" "SB4 ! 174 = 0x2b" "SB4 ! 175 = 0xfc"
  "SB4 ! 176 = 0xeb" "SB4 ! 177 = 0x6f" "SB4 ! 178 = 0xd5" "SB4 ! 179 = 0xf6"
  "SB4 ! 180 = 0x14" "SB4 ! 181 = 0xfe" "SB4 ! 182 = 0x7c" "SB4 ! 183 = 0x70"
  "SB4 ! 184 = 0x5a" "SB4 ! 185 = 0x7d" "SB4 ! 186 = 0xfd" "SB4 ! 187 = 0x2f"
  "SB4 ! 188 = 0x18" "SB4 ! 189 = 0x83" "SB4 ! 190 = 0x16" "SB4 ! 191 = 0xa5"
  "SB4 ! 192 = 0x91" "SB4 ! 193 = 0x1f" "SB4 ! 194 = 0x05" "SB4 ! 195 = 0x95"
  "SB4 ! 196 = 0x74" "SB4 ! 197 = 0xa9" "SB4 ! 198 = 0xc1" "SB4 ! 199 = 0x5b"
  "SB4 ! 200 = 0x4a" "SB4 ! 201 = 0x85" "SB4 ! 202 = 0x6d" "SB4 ! 203 = 0x13"
  "SB4 ! 204 = 0x07" "SB4 ! 205 = 0x4f" "SB4 ! 206 = 0x4e" "SB4 ! 207 = 0x45"
  "SB4 ! 208 = 0xb2" "SB4 ! 209 = 0x0f" "SB4 ! 210 = 0xc9" "SB4 ! 211 = 0x1c"
  "SB4 ! 212 = 0xa6" "SB4 ! 213 = 0xbc" "SB4 ! 214 = 0xec" "SB4 ! 215 = 0x73"
  "SB4 ! 216 = 0x90" "SB4 ! 217 = 0x7b" "SB4 ! 218 = 0xcf" "SB4 ! 219 = 0x59"
  "SB4 ! 220 = 0x8f" "SB4 ! 221 = 0xa1" "SB4 ! 222 = 0xf9" "SB4 ! 223 = 0x2d"
  "SB4 ! 224 = 0xf2" "SB4 ! 225 = 0xb1" "SB4 ! 226 = 0x00" "SB4 ! 227 = 0x94"
  "SB4 ! 228 = 0x37" "SB4 ! 229 = 0x9f" "SB4 ! 230 = 0xd0" "SB4 ! 231 = 0x2e"
  "SB4 ! 232 = 0x9c" "SB4 ! 233 = 0x6e" "SB4 ! 234 = 0x28" "SB4 ! 235 = 0x3f"
  "SB4 ! 236 = 0x80" "SB4 ! 237 = 0xf0" "SB4 ! 238 = 0x3d" "SB4 ! 239 = 0xd3"
  "SB4 ! 240 = 0x25" "SB4 ! 241 = 0x8a" "SB4 ! 242 = 0xb5" "SB4 ! 243 = 0xe7"
  "SB4 ! 244 = 0x42" "SB4 ! 245 = 0xb3" "SB4 ! 246 = 0xc7" "SB4 ! 247 = 0xea"
  "SB4 ! 248 = 0xf7" "SB4 ! 249 = 0x4c" "SB4 ! 250 = 0x11" "SB4 ! 251 = 0x33"
  "SB4 ! 252 = 0x03" "SB4 ! 253 = 0xa2" "SB4 ! 254 = 0xac" "SB4 ! 255 = 0x60"
  by (simp_all add: SB4_def)

lemma upt_step: "[i..<j] = (if i < j then i # [i + 1..<j] else [])"
  by (simp add: upt_rec)

lemma upt256: "[0..<256] = [
     0x00, 0x01, 0x02, 0x03, 0x04, 0x05, 0x06, 0x07, 0x08, 0x09, 0x0a, 0x0b, 0x0c, 0x0d, 0x0e, 0x0f,
     0x10, 0x11, 0x12, 0x13, 0x14, 0x15, 0x16, 0x17, 0x18, 0x19, 0x1a, 0x1b, 0x1c, 0x1d, 0x1e, 0x1f,
     0x20, 0x21, 0x22, 0x23, 0x24, 0x25, 0x26, 0x27, 0x28, 0x29, 0x2a, 0x2b, 0x2c, 0x2d, 0x2e, 0x2f,
     0x30, 0x31, 0x32, 0x33, 0x34, 0x35, 0x36, 0x37, 0x38, 0x39, 0x3a, 0x3b, 0x3c, 0x3d, 0x3e, 0x3f,
     0x40, 0x41, 0x42, 0x43, 0x44, 0x45, 0x46, 0x47, 0x48, 0x49, 0x4a, 0x4b, 0x4c, 0x4d, 0x4e, 0x4f,
     0x50, 0x51, 0x52, 0x53, 0x54, 0x55, 0x56, 0x57, 0x58, 0x59, 0x5a, 0x5b, 0x5c, 0x5d, 0x5e, 0x5f,
     0x60, 0x61, 0x62, 0x63, 0x64, 0x65, 0x66, 0x67, 0x68, 0x69, 0x6a, 0x6b, 0x6c, 0x6d, 0x6e, 0x6f,
     0x70, 0x71, 0x72, 0x73, 0x74, 0x75, 0x76, 0x77, 0x78, 0x79, 0x7a, 0x7b, 0x7c, 0x7d, 0x7e, 0x7f,
     0x80, 0x81, 0x82, 0x83, 0x84, 0x85, 0x86, 0x87, 0x88, 0x89, 0x8a, 0x8b, 0x8c, 0x8d, 0x8e, 0x8f,
     0x90, 0x91, 0x92, 0x93, 0x94, 0x95, 0x96, 0x97, 0x98, 0x99, 0x9a, 0x9b, 0x9c, 0x9d, 0x9e, 0x9f,
     0xa0, 0xa1, 0xa2, 0xa3, 0xa4, 0xa5, 0xa6, 0xa7, 0xa8, 0xa9, 0xaa, 0xab, 0xac, 0xad, 0xae, 0xaf,
     0xb0, 0xb1, 0xb2, 0xb3, 0xb4, 0xb5, 0xb6, 0xb7, 0xb8, 0xb9, 0xba, 0xbb, 0xbc, 0xbd, 0xbe, 0xbf,
     0xc0, 0xc1, 0xc2, 0xc3, 0xc4, 0xc5, 0xc6, 0xc7, 0xc8, 0xc9, 0xca, 0xcb, 0xcc, 0xcd, 0xce, 0xcf,
     0xd0, 0xd1, 0xd2, 0xd3, 0xd4, 0xd5, 0xd6, 0xd7, 0xd8, 0xd9, 0xda, 0xdb, 0xdc, 0xdd, 0xde, 0xdf,
     0xe0, 0xe1, 0xe2, 0xe3, 0xe4, 0xe5, 0xe6, 0xe7, 0xe8, 0xe9, 0xea, 0xeb, 0xec, 0xed, 0xee, 0xef,
     0xf0, 0xf1, 0xf2, 0xf3, 0xf4, 0xf5, 0xf6, 0xf7, 0xf8, 0xf9, 0xfa, 0xfb, 0xfc, 0xfd, 0xfe, 0xff]"
  by (simp add: upt_step)

text \<open>Each check runs over the 256 indices of a table.\<close>

lemma SB3_SB1_all: "list_all (\<lambda>n. SB3 ! unat (SB1 ! n) = of_nat n) [0..<256]"
  by (simp add: upt256 SB1_nth SB3_nth)

lemma SB1_SB3_all: "list_all (\<lambda>n. SB1 ! unat (SB3 ! n) = of_nat n) [0..<256]"
  by (simp add: upt256 SB1_nth SB3_nth)

lemma SB4_SB2_all: "list_all (\<lambda>n. SB4 ! unat (SB2 ! n) = of_nat n) [0..<256]"
  by (simp add: upt256 SB2_nth SB4_nth)

lemma SB2_SB4_all: "list_all (\<lambda>n. SB2 ! unat (SB4 ! n) = of_nat n) [0..<256]"
  by (simp add: upt256 SB2_nth SB4_nth)

lemma byte_index: "unat (b :: 8 word) \<in> set [0..<256]"
  using unsigned_less [of b, where ?'a = nat] by simp

lemma SB3_SB1: "SB3 ! unat (SB1 ! unat b) = b"
  using SB3_SB1_all byte_index [of b] unfolding list_all_iff by fastforce

lemma SB1_SB3: "SB1 ! unat (SB3 ! unat b) = b"
  using SB1_SB3_all byte_index [of b] unfolding list_all_iff by fastforce

lemma SB4_SB2: "SB4 ! unat (SB2 ! unat b) = b"
  using SB4_SB2_all byte_index [of b] unfolding list_all_iff by fastforce

lemma SB2_SB4: "SB2 ! unat (SB4 ! unat b) = b"
  using SB2_SB4_all byte_index [of b] unfolding list_all_iff by fastforce

lemma aria_SL2_SL1: "aria_SL2 (aria_SL1 x) = x"
proof -
  have "aria_SL2 (aria_SL1 x) = blk (byte_of 56 (left x)) (byte_of 48 (left x)) (byte_of 40 (left x)) (byte_of 32 (left x)) (byte_of 24 (left x)) (byte_of 16 (left x)) (byte_of 8 (left x)) (byte_of 0 (left x)) (byte_of 56 (right x)) (byte_of 48 (right x)) (byte_of 40 (right x)) (byte_of 32 (right x)) (byte_of 24 (right x)) (byte_of 16 (right x)) (byte_of 8 (right x)) (byte_of 0 (right x))"
    by (subst aria_SL1_bytes) (simp only: aria_SL2_blk SB3_SB1 SB4_SB2 SB1_SB3 SB2_SB4)
  then show ?thesis by (simp only: blk_bytes)
qed

lemma aria_SL1_SL2: "aria_SL1 (aria_SL2 x) = x"
proof -
  have "aria_SL1 (aria_SL2 x) = blk (byte_of 56 (left x)) (byte_of 48 (left x)) (byte_of 40 (left x)) (byte_of 32 (left x)) (byte_of 24 (left x)) (byte_of 16 (left x)) (byte_of 8 (left x)) (byte_of 0 (left x)) (byte_of 56 (right x)) (byte_of 48 (right x)) (byte_of 40 (right x)) (byte_of 32 (right x)) (byte_of 24 (right x)) (byte_of 16 (right x)) (byte_of 8 (right x)) (byte_of 0 (right x))"
    by (subst aria_SL2_bytes) (simp only: aria_SL1_blk SB3_SB1 SB4_SB2 SB1_SB3 SB2_SB4)
  then show ?thesis by (simp only: blk_bytes)
qed

section \<open>The rotations are rotations of the 128-bit value\<close>

lemma bit_u128: "bit (u128 x) k \<longleftrightarrow> (if k < 64 then bit (right x) k else k < 128 \<and> bit (left x) (k - 64))"
  by (auto simp add: u128_def bit_simps)

lemma mod128_small: "a < 128 \<Longrightarrow> a mod 128 = (a :: nat)"
  by (rule mod_less)

lemma mod128_wrap: "128 \<le> a \<Longrightarrow> a < 256 \<Longrightarrow> a mod 128 = (a :: nat) - 128"
proof -
  assume a: "128 \<le> a" "a < 256"
  then have "a mod 128 = (a - 128) mod 128" by (simp add: le_mod_geq)
  also have "\<dots> = a - 128" using a by (intro mod_less) linarith
  finally show ?thesis .
qed

lemma ror_rotr:
  assumes "0 < n" "n < 64"
  shows "u128 (ror x n) = word_rotr n (u128 x)"
proof (rule bit_word_eqI)
  fix k assume "k < LENGTH(128)"
  then have k: "k < 128" by simp
  consider "k < 64 - n" | "64 - n \<le> k \<and> k < 64" | "64 \<le> k \<and> k < 128 - n" | "128 - n \<le> k"
    by linarith
  then show "bit (u128 (ror x n)) k = bit (word_rotr n (u128 x)) k"
  proof cases
    case 1
    then have m: "(k + n) mod 128 = k + n" using assms by (intro mod128_small) linarith
    with 1 assms show ?thesis
      by (auto simp add: bit_u128 ror_def bit_simps m add.commute dest: bit64)
  next
    case 2
    then have m: "(k + n) mod 128 = k + n" using assms by (intro mod128_small) linarith
    with 2 assms show ?thesis
      by (auto simp add: bit_u128 ror_def bit_simps m add.commute dest: bit64)
  next
    case 3
    then have m: "(k + n) mod 128 = k + n" using assms by (intro mod128_small) linarith
    with 3 assms show ?thesis
      by (auto simp add: bit_u128 ror_def bit_simps m add.commute dest: bit64)
  next
    case 4
    then have m: "(k + n) mod 128 = k + n - 128" using assms k
      by (intro mod128_wrap) linarith+
    with 4 assms k show ?thesis
      by (auto simp add: bit_u128 ror_def bit_simps m add.commute dest: bit64)
  qed
qed

lemma rol_rotl:
  assumes "0 < n" "n < 64"
  shows "u128 (rol x n) = word_rotl n (u128 x)"
proof (rule bit_word_eqI)
  fix k assume "k < LENGTH(128)"
  then have k: "k < 128" by simp
  have l: "(LENGTH(128) - n mod LENGTH(128)) = 128 - n" using assms by simp
  consider "k < n" | "n \<le> k \<and> k < 64" | "64 \<le> k \<and> k < 64 + n" | "64 + n \<le> k"
    by linarith
  then show "bit (u128 (rol x n)) k = bit (word_rotl n (u128 x)) k"
  proof cases
    case 1
    then have m: "(k + (128 - n)) mod 128 = k + (128 - n)" using assms
      by (intro mod128_small) linarith
    with 1 assms show ?thesis
      by (auto simp add: bit_u128 rol_def bit_simps l m dest: bit64)
  next
    case 2
    then have "(k + (128 - n)) mod 128 = k + (128 - n) - 128" using assms
      by (intro mod128_wrap) linarith+
    then have m: "(k + (128 - n)) mod 128 = k - n" using 2 assms by simp
    with 2 assms show ?thesis
      by (auto simp add: bit_u128 rol_def bit_simps l m dest: bit64)
  next
    case 3
    then have "(k + (128 - n)) mod 128 = k + (128 - n) - 128" using assms
      by (intro mod128_wrap) linarith+
    then have m: "(k + (128 - n)) mod 128 = k - n" using 3 assms by simp
    with 3 assms show ?thesis
      by (auto simp add: bit_u128 rol_def bit_simps l m dest: bit64)
  next
    case 4
    then have "(k + (128 - n)) mod 128 = k + (128 - n) - 128" using assms k
      by (intro mod128_wrap) linarith+
    then have m: "(k + (128 - n)) mod 128 = k - n" using 4 assms by simp
    have c: "k - (64 + n) = k - (n + 64)" by simp
    from m 4 assms k show ?thesis
      by (auto simp add: bit_u128 rol_def bit_simps l c dest: bit64)
  qed
qed

section \<open>Positions, and the engine as a chain of rounds\<close>

lemma upt18: "[0..<18] = [0, 1, 2, 3, 4, 5, 6, 7, 8, 9, 10, 11, 12, 13, 14, 15, 16, 17]"
  by (simp add: upt_step)

lemma lt18_cases:
  assumes "(i :: nat) < 18"
  shows "i \<in> {0, 1, 2, 3, 4, 5, 6, 7, 8, 9, 10, 11, 12, 13, 14, 15, 16, 17}"
proof -
  have "i \<in> set [0..<18]" using assms by simp
  then show ?thesis unfolding upt18 by simp
qed

lemma byte_at_SL1:
  assumes "i < 16"
  shows "byte_at (aria_SL1 x) i = SL1_table i ! unat (byte_at x i)"
proof -
  from assms have "i \<in> {0, 1, 2, 3, 4, 5, 6, 7, 8, 9, 10, 11, 12, 13, 14, 15}"
    using lt18_cases [of i] by auto
  then show ?thesis
    by (elim insertE) (simp_all add: byte_at_def [of "aria_SL1 x"] aria_SL1_bytes byte_blk SL1_table_def byte_at_def)
qed

lemma byte_at_SL2:
  assumes "i < 16"
  shows "byte_at (aria_SL2 x) i = SL2_table i ! unat (byte_at x i)"
proof -
  from assms have "i \<in> {0, 1, 2, 3, 4, 5, 6, 7, 8, 9, 10, 11, 12, 13, 14, 15}"
    using lt18_cases [of i] by auto
  then show ?thesis
    by (elim insertE) (simp_all add: byte_at_def [of "aria_SL2 x"] aria_SL2_bytes byte_blk SL2_table_def byte_at_def)
qed

lemma crypt_loop_chain:
  "even rounds \<Longrightarrow> even i \<Longrightarrow> 2 \<le> i \<Longrightarrow> i \<le> rounds \<Longrightarrow>
   crypt_loop rounds ek i (round_chain ek (i - 1) D) = round_chain ek (rounds - 1) D"
proof (induction rounds ek i "round_chain ek (i - 1) D" rule: crypt_loop.induct)
  case (1 rounds ek i)
  show ?case
  proof (cases "i < rounds")
    case True
    from True "1.prems" have le: "i + 2 \<le> rounds"
      by presburger
    obtain k where k: "i = Suc k" and odd_k: "odd k"
      using "1.prems" by (cases i) auto
    have step: "aria_FO (aria_FE (round_chain ek (i - 1) D) (ek ! i)) (ek ! (i + 1))
        = round_chain ek (i + 2 - 1) D"
      using k odd_k "1.prems" by simp
    have "crypt_loop rounds ek (i + 2) (round_chain ek (i + 2 - 1) D) = round_chain ek (rounds - 1) D"
      using "1.hyps" [OF True step] "1.prems" le by simp
    then show ?thesis
      using True step by (subst crypt_loop.simps) simp
  next
    case False
    with "1.prems" have "i = rounds" by simp
    then show ?thesis by (subst crypt_loop.simps) simp
  qed
qed

lemma aria_crypt_spec:
  assumes "even rounds" "2 \<le> rounds"
  shows "aria_crypt rounds ek D = crypt_spec rounds ek D"
proof -
  have "crypt_loop rounds ek 2 (round_chain ek (2 - 1) D) = round_chain ek (rounds - 1) D"
    using assms by (intro crypt_loop_chain) simp_all
  moreover have "round_chain ek (2 - 1) D = aria_FO D (ek ! 1)"
    by (simp add: numeral_2_eq_2)
  ultimately show ?thesis
    by (simp add: aria_crypt_def crypt_spec_def Let_def)
qed

text \<open>The chain of the specification written out for twelve rounds, as RFC 5794, 2.3.1.1.\<close>

lemma round_chain_numeral:
  "round_chain ek (numeral n) D =
     (if even (pred_numeral n) then aria_FO (round_chain ek (pred_numeral n) D) (ek ! numeral n)
      else aria_FE (round_chain ek (pred_numeral n) D) (ek ! numeral n))"
  by (simp add: numeral_eq_Suc)

lemma crypt_spec_12:
  "crypt_spec 12 ek D =
     xor128 (aria_SL2 (xor128
       (aria_FO (aria_FE (aria_FO (aria_FE (aria_FO (aria_FE (aria_FO (aria_FE (aria_FO (aria_FE (aria_FO D (ek ! 1)) (ek ! 2)) (ek ! 3)) (ek ! 4)) (ek ! 5)) (ek ! 6)) (ek ! 7)) (ek ! 8)) (ek ! 9)) (ek ! 10)) (ek ! 11))
       (ek ! 12))) (ek ! 13)"
  by (simp add: crypt_spec_def round_chain_numeral)

section \<open>The key arrays as explicit lists\<close>

lemma list_update_Cons_numeral: "(x # xs)[numeral n := v] = x # xs[pred_numeral n := v]"
  by (simp add: numeral_eq_Suc)

lemma list18:
  assumes "length ek = 18"
  shows "ek = [ek ! 0, ek ! 1, ek ! 2, ek ! 3, ek ! 4, ek ! 5, ek ! 6, ek ! 7, ek ! 8, ek ! 9, ek ! 10, ek ! 11, ek ! 12, ek ! 13, ek ! 14, ek ! 15, ek ! 16, ek ! 17]"
proof (rule nth_equalityI)
  show "length ek = length [ek ! 0, ek ! 1, ek ! 2, ek ! 3, ek ! 4, ek ! 5, ek ! 6, ek ! 7, ek ! 8, ek ! 9, ek ! 10, ek ! 11, ek ! 12, ek ! 13, ek ! 14, ek ! 15, ek ! 16, ek ! 17]"
    using assms by simp
next
  fix i assume "i < length ek"
  then have "i \<in> {0, 1, 2, 3, 4, 5, 6, 7, 8, 9, 10, 11, 12, 13, 14, 15, 16, 17}"
    using assms lt18_cases [of i] by simp
  then show "ek ! i = [ek ! 0, ek ! 1, ek ! 2, ek ! 3, ek ! 4, ek ! 5, ek ! 6, ek ! 7, ek ! 8, ek ! 9, ek ! 10, ek ! 11, ek ! 12, ek ! 13, ek ! 14, ek ! 15, ek ! 16, ek ! 17] ! i"
    by (elim insertE) simp_all
qed

lemma ek_local_list: "ek_local = [zero128, zero128, zero128, zero128, zero128, zero128, zero128, zero128, zero128, zero128, zero128, zero128, zero128, zero128, zero128, zero128, zero128, zero128]"
  by (simp add: ek_local_def zero128_def eval_nat_numeral)

lemma compute_ek_list:
  "compute_ek W0 W1 W2 W3 [e0, e1, e2, e3, e4, e5, e6, e7, e8, e9, e10, e11, e12, e13, e14, e15, e16, e17] =
     [e0, xor128 W0 (ror W1 19),
      xor128 W1 (ror W2 19),
      xor128 W2 (ror W3 19),
      xor128 (ror W0 19) W3,
      xor128 W0 (ror W1 31),
      xor128 W1 (ror W2 31),
      xor128 W2 (ror W3 31),
      xor128 (ror W0 31) W3,
      xor128 W0 (rol W1 61),
      xor128 W1 (rol W2 61),
      xor128 W2 (rol W3 61),
      xor128 (rol W0 61) W3,
      xor128 W0 (rol W1 31),
      xor128 W1 (rol W2 31),
      xor128 W2 (rol W3 31),
      xor128 (rol W0 31) W3,
      xor128 W0 (rol W1 19)]"
  by (simp add: compute_ek_def list_update_Cons_numeral)

lemma length_compute_ek: "length (compute_ek W0 W1 W2 W3 ek) = length ek"
  by (simp add: compute_ek_def)

lemma length_ek_128: "length (ek_128 K) = 18"
  by (simp add: ek_128_def Let_def length_compute_ek ek_local_def)

lemma length_ek_192: "length (ek_192 KL KR) = 18"
  by (simp add: ek_192_def Let_def length_compute_ek ek_local_def)

lemma length_ek_256: "length (ek_256 KL KR) = 18"
  by (simp add: ek_256_def Let_def length_compute_ek ek_local_def)

text \<open>The three derivations of decryption keys, run on an array of eighteen entries.\<close>

lemma dk_128_list: "dk_128 [e0, e1, e2, e3, e4, e5, e6, e7, e8, e9, e10, e11, e12, e13, e14, e15, e16, e17] = [e8, e13, aria_A e12, aria_A e11, aria_A e10, aria_A e9, aria_A e8, aria_A e7, aria_A e6, aria_A e5, aria_A e4, aria_A e3, aria_A e2, e1, e14, e15, e16, e17]"
  by (simp add: dk_128_def Let_def dk_loop.simps list_update_Cons_numeral)

lemma dk_192_list: "dk_192 [e0, e1, e2, e3, e4, e5, e6, e7, e8, e9, e10, e11, e12, e13, e14, e15, e16, e17] = [e9, e15, aria_A e14, aria_A e13, aria_A e12, aria_A e11, aria_A e10, aria_A e9, aria_A e8, aria_A e7, aria_A e6, aria_A e5, aria_A e4, aria_A e3, aria_A e2, e1, e16, e17]"
  by (simp add: dk_192_def Let_def dk_loop.simps list_update_Cons_numeral)

lemma dk_256_list: "dk_256 [e0, e1, e2, e3, e4, e5, e6, e7, e8, e9, e10, e11, e12, e13, e14, e15, e16, e17] = [e10, e17, aria_A e16, aria_A e15, aria_A e14, aria_A e13, aria_A e12, aria_A e11, aria_A e10, aria_A e9, aria_A e8, aria_A e7, aria_A e6, aria_A e5, aria_A e4, aria_A e3, aria_A e2, e1]"
  by (simp add: dk_256_def Let_def dk_loop.simps list_update_Cons_numeral)

lemma dk_128_array:
  assumes "length ek = 18"
  shows "dk_128 ek = [ek ! 8, ek ! 13, aria_A (ek ! 12), aria_A (ek ! 11), aria_A (ek ! 10), aria_A (ek ! 9), aria_A (ek ! 8), aria_A (ek ! 7), aria_A (ek ! 6), aria_A (ek ! 5), aria_A (ek ! 4), aria_A (ek ! 3), aria_A (ek ! 2), ek ! 1, ek ! 14, ek ! 15, ek ! 16, ek ! 17]"
proof -
  have "dk_128 [ek ! 0, ek ! 1, ek ! 2, ek ! 3, ek ! 4, ek ! 5, ek ! 6, ek ! 7, ek ! 8, ek ! 9, ek ! 10, ek ! 11, ek ! 12, ek ! 13, ek ! 14, ek ! 15, ek ! 16, ek ! 17] = [ek ! 8, ek ! 13, aria_A (ek ! 12), aria_A (ek ! 11), aria_A (ek ! 10), aria_A (ek ! 9), aria_A (ek ! 8), aria_A (ek ! 7), aria_A (ek ! 6), aria_A (ek ! 5), aria_A (ek ! 4), aria_A (ek ! 3), aria_A (ek ! 2), ek ! 1, ek ! 14, ek ! 15, ek ! 16, ek ! 17]"
    by (rule dk_128_list)
  then show ?thesis by (simp only: list18 [OF assms, symmetric])
qed

lemma dk_192_array:
  assumes "length ek = 18"
  shows "dk_192 ek = [ek ! 9, ek ! 15, aria_A (ek ! 14), aria_A (ek ! 13), aria_A (ek ! 12), aria_A (ek ! 11), aria_A (ek ! 10), aria_A (ek ! 9), aria_A (ek ! 8), aria_A (ek ! 7), aria_A (ek ! 6), aria_A (ek ! 5), aria_A (ek ! 4), aria_A (ek ! 3), aria_A (ek ! 2), ek ! 1, ek ! 16, ek ! 17]"
proof -
  have "dk_192 [ek ! 0, ek ! 1, ek ! 2, ek ! 3, ek ! 4, ek ! 5, ek ! 6, ek ! 7, ek ! 8, ek ! 9, ek ! 10, ek ! 11, ek ! 12, ek ! 13, ek ! 14, ek ! 15, ek ! 16, ek ! 17] = [ek ! 9, ek ! 15, aria_A (ek ! 14), aria_A (ek ! 13), aria_A (ek ! 12), aria_A (ek ! 11), aria_A (ek ! 10), aria_A (ek ! 9), aria_A (ek ! 8), aria_A (ek ! 7), aria_A (ek ! 6), aria_A (ek ! 5), aria_A (ek ! 4), aria_A (ek ! 3), aria_A (ek ! 2), ek ! 1, ek ! 16, ek ! 17]"
    by (rule dk_192_list)
  then show ?thesis by (simp only: list18 [OF assms, symmetric])
qed

lemma dk_256_array:
  assumes "length ek = 18"
  shows "dk_256 ek = [ek ! 10, ek ! 17, aria_A (ek ! 16), aria_A (ek ! 15), aria_A (ek ! 14), aria_A (ek ! 13), aria_A (ek ! 12), aria_A (ek ! 11), aria_A (ek ! 10), aria_A (ek ! 9), aria_A (ek ! 8), aria_A (ek ! 7), aria_A (ek ! 6), aria_A (ek ! 5), aria_A (ek ! 4), aria_A (ek ! 3), aria_A (ek ! 2), ek ! 1]"
proof -
  have "dk_256 [ek ! 0, ek ! 1, ek ! 2, ek ! 3, ek ! 4, ek ! 5, ek ! 6, ek ! 7, ek ! 8, ek ! 9, ek ! 10, ek ! 11, ek ! 12, ek ! 13, ek ! 14, ek ! 15, ek ! 16, ek ! 17] = [ek ! 10, ek ! 17, aria_A (ek ! 16), aria_A (ek ! 15), aria_A (ek ! 14), aria_A (ek ! 13), aria_A (ek ! 12), aria_A (ek ! 11), aria_A (ek ! 10), aria_A (ek ! 9), aria_A (ek ! 8), aria_A (ek ! 7), aria_A (ek ! 6), aria_A (ek ! 5), aria_A (ek ! 4), aria_A (ek ! 3), aria_A (ek ! 2), ek ! 1]"
    by (rule dk_256_list)
  then show ?thesis by (simp only: list18 [OF assms, symmetric])
qed

lemma length_dk:
  assumes "length ek = 18"
  shows "length (dk_128 ek) = 18" "length (dk_192 ek) = 18" "length (dk_256 ek) = 18"
  by (simp_all add: dk_128_array [OF assms] dk_192_array [OF assms] dk_256_array [OF assms])

text \<open>The entry points as the engine run on these arrays.\<close>

lemma aria_encrypt_128_ek: "aria_encrypt_128 K P = aria_crypt 12 (ek_128 K) P"
  by (simp add: aria_encrypt_128_def ek_128_def Let_def)

lemma aria_encrypt_192_ek: "aria_encrypt_192 KL KR P = aria_crypt 14 (ek_192 KL KR) P"
  by (simp add: aria_encrypt_192_def ek_192_def Let_def)

lemma aria_encrypt_256_ek: "aria_encrypt_256 KL KR P = aria_crypt 16 (ek_256 KL KR) P"
  by (simp add: aria_encrypt_256_def ek_256_def Let_def)

lemma aria_decrypt_128_dk: "aria_decrypt_128 K C = aria_crypt 12 (dk_128 (ek_128 K)) C"
  by (simp add: aria_decrypt_128_def dk_128_def ek_128_def Let_def)

lemma aria_decrypt_192_dk: "aria_decrypt_192 KL KR C = aria_crypt 14 (dk_192 (ek_192 KL KR)) C"
  by (simp add: aria_decrypt_192_def dk_192_def ek_192_def Let_def)

lemma aria_decrypt_256_dk: "aria_decrypt_256 KL KR C = aria_crypt 16 (dk_256 (ek_256 KL KR)) C"
  by (simp add: aria_decrypt_256_def dk_256_def ek_256_def Let_def)

section \<open>Decryption undoes encryption, on any array of round keys\<close>

lemmas round_algebra = aria_FO_def aria_FE_def aria_A_xor128 aria_A_invol
  aria_SL1_SL2 aria_SL2_SL1 xor128_cancel

lemma roundtrip_12_list:
  "aria_crypt 12 (dk_128 [e0, e1, e2, e3, e4, e5, e6, e7, e8, e9, e10, e11, e12, e13, e14, e15, e16, e17]) (aria_crypt 12 [e0, e1, e2, e3, e4, e5, e6, e7, e8, e9, e10, e11, e12, e13, e14, e15, e16, e17] P) = P"
  unfolding dk_128_list
  by (simp add: aria_crypt_def Let_def crypt_loop.simps round_algebra)

lemma roundtrip_14_list:
  "aria_crypt 14 (dk_192 [e0, e1, e2, e3, e4, e5, e6, e7, e8, e9, e10, e11, e12, e13, e14, e15, e16, e17]) (aria_crypt 14 [e0, e1, e2, e3, e4, e5, e6, e7, e8, e9, e10, e11, e12, e13, e14, e15, e16, e17] P) = P"
  unfolding dk_192_list
  by (simp add: aria_crypt_def Let_def crypt_loop.simps round_algebra)

lemma roundtrip_16_list:
  "aria_crypt 16 (dk_256 [e0, e1, e2, e3, e4, e5, e6, e7, e8, e9, e10, e11, e12, e13, e14, e15, e16, e17]) (aria_crypt 16 [e0, e1, e2, e3, e4, e5, e6, e7, e8, e9, e10, e11, e12, e13, e14, e15, e16, e17] P) = P"
  unfolding dk_256_list
  by (simp add: aria_crypt_def Let_def crypt_loop.simps round_algebra)

lemma roundtrip_12:
  assumes "length ek = 18"
  shows "aria_crypt 12 (dk_128 ek) (aria_crypt 12 ek P) = P"
proof -
  have "aria_crypt 12 (dk_128 [ek ! 0, ek ! 1, ek ! 2, ek ! 3, ek ! 4, ek ! 5, ek ! 6, ek ! 7, ek ! 8, ek ! 9, ek ! 10, ek ! 11, ek ! 12, ek ! 13, ek ! 14, ek ! 15, ek ! 16, ek ! 17])
      (aria_crypt 12 [ek ! 0, ek ! 1, ek ! 2, ek ! 3, ek ! 4, ek ! 5, ek ! 6, ek ! 7, ek ! 8, ek ! 9, ek ! 10, ek ! 11, ek ! 12, ek ! 13, ek ! 14, ek ! 15, ek ! 16, ek ! 17] P) = P"
    by (rule roundtrip_12_list)
  then show ?thesis by (simp only: list18 [OF assms, symmetric])
qed

lemma roundtrip_14:
  assumes "length ek = 18"
  shows "aria_crypt 14 (dk_192 ek) (aria_crypt 14 ek P) = P"
proof -
  have "aria_crypt 14 (dk_192 [ek ! 0, ek ! 1, ek ! 2, ek ! 3, ek ! 4, ek ! 5, ek ! 6, ek ! 7, ek ! 8, ek ! 9, ek ! 10, ek ! 11, ek ! 12, ek ! 13, ek ! 14, ek ! 15, ek ! 16, ek ! 17])
      (aria_crypt 14 [ek ! 0, ek ! 1, ek ! 2, ek ! 3, ek ! 4, ek ! 5, ek ! 6, ek ! 7, ek ! 8, ek ! 9, ek ! 10, ek ! 11, ek ! 12, ek ! 13, ek ! 14, ek ! 15, ek ! 16, ek ! 17] P) = P"
    by (rule roundtrip_14_list)
  then show ?thesis by (simp only: list18 [OF assms, symmetric])
qed

lemma roundtrip_16:
  assumes "length ek = 18"
  shows "aria_crypt 16 (dk_256 ek) (aria_crypt 16 ek P) = P"
proof -
  have "aria_crypt 16 (dk_256 [ek ! 0, ek ! 1, ek ! 2, ek ! 3, ek ! 4, ek ! 5, ek ! 6, ek ! 7, ek ! 8, ek ! 9, ek ! 10, ek ! 11, ek ! 12, ek ! 13, ek ! 14, ek ! 15, ek ! 16, ek ! 17])
      (aria_crypt 16 [ek ! 0, ek ! 1, ek ! 2, ek ! 3, ek ! 4, ek ! 5, ek ! 6, ek ! 7, ek ! 8, ek ! 9, ek ! 10, ek ! 11, ek ! 12, ek ! 13, ek ! 14, ek ! 15, ek ! 16, ek ! 17] P) = P"
    by (rule roundtrip_16_list)
  then show ?thesis by (simp only: list18 [OF assms, symmetric])
qed

text \<open>The engine reads the entries 1 to \<open>rounds + 1\<close> of its array and no other.\<close>

lemma crypt_12_prefix:
  assumes "length ek = 18"
  shows "aria_crypt 12 ek P = aria_crypt 12 (e # take 13 (tl ek)) P"
proof -
  have "aria_crypt 12 [ek ! 0, ek ! 1, ek ! 2, ek ! 3, ek ! 4, ek ! 5, ek ! 6, ek ! 7, ek ! 8, ek ! 9, ek ! 10, ek ! 11, ek ! 12, ek ! 13, ek ! 14, ek ! 15, ek ! 16, ek ! 17] P
      = aria_crypt 12 (e # take 13 (tl [ek ! 0, ek ! 1, ek ! 2, ek ! 3, ek ! 4, ek ! 5, ek ! 6, ek ! 7, ek ! 8, ek ! 9, ek ! 10, ek ! 11, ek ! 12, ek ! 13, ek ! 14, ek ! 15, ek ! 16, ek ! 17])) P"
    by (simp add: aria_crypt_def Let_def crypt_loop.simps)
  then show ?thesis by (simp only: list18 [OF assms, symmetric])
qed

lemma crypt_14_prefix:
  assumes "length ek = 18"
  shows "aria_crypt 14 ek P = aria_crypt 14 (e # take 15 (tl ek)) P"
proof -
  have "aria_crypt 14 [ek ! 0, ek ! 1, ek ! 2, ek ! 3, ek ! 4, ek ! 5, ek ! 6, ek ! 7, ek ! 8, ek ! 9, ek ! 10, ek ! 11, ek ! 12, ek ! 13, ek ! 14, ek ! 15, ek ! 16, ek ! 17] P
      = aria_crypt 14 (e # take 15 (tl [ek ! 0, ek ! 1, ek ! 2, ek ! 3, ek ! 4, ek ! 5, ek ! 6, ek ! 7, ek ! 8, ek ! 9, ek ! 10, ek ! 11, ek ! 12, ek ! 13, ek ! 14, ek ! 15, ek ! 16, ek ! 17])) P"
    by (simp add: aria_crypt_def Let_def crypt_loop.simps)
  then show ?thesis by (simp only: list18 [OF assms, symmetric])
qed

lemma crypt_16_prefix:
  assumes "length ek = 18"
  shows "aria_crypt 16 ek P = aria_crypt 16 (e # take 17 (tl ek)) P"
proof -
  have "aria_crypt 16 [ek ! 0, ek ! 1, ek ! 2, ek ! 3, ek ! 4, ek ! 5, ek ! 6, ek ! 7, ek ! 8, ek ! 9, ek ! 10, ek ! 11, ek ! 12, ek ! 13, ek ! 14, ek ! 15, ek ! 16, ek ! 17] P
      = aria_crypt 16 (e # take 17 (tl [ek ! 0, ek ! 1, ek ! 2, ek ! 3, ek ! 4, ek ! 5, ek ! 6, ek ! 7, ek ! 8, ek ! 9, ek ! 10, ek ! 11, ek ! 12, ek ! 13, ek ! 14, ek ! 15, ek ! 16, ek ! 17])) P"
    by (simp add: aria_crypt_def Let_def crypt_loop.simps)
  then show ?thesis by (simp only: list18 [OF assms, symmetric])
qed

text \<open>The arrays against the specification's wording of the key schedule.\<close>

lemma ek_128_spec: "take 13 (tl (ek_128 K)) = enc_round_keys 128 K zero128"
  by (simp add: ek_128_def Let_def ek_local_list compute_ek_list enc_round_keys_def
      rounds_of_def CK_def feistel_W_def candidate_keys_def xor128_zero)

lemma ek_192_spec: "take 15 (tl (ek_192 KL KR)) = enc_round_keys 192 KL KR"
  by (simp add: ek_192_def Let_def ek_local_list compute_ek_list enc_round_keys_def
      rounds_of_def CK_def feistel_W_def candidate_keys_def)

lemma ek_256_spec: "take 17 (tl (ek_256 KL KR)) = enc_round_keys 256 KL KR"
  by (simp add: ek_256_def Let_def ek_local_list compute_ek_list enc_round_keys_def
      rounds_of_def CK_def feistel_W_def candidate_keys_def)

section \<open>Evaluating the cipher on the vectors of RFC 5794, Appendix A\<close>

text \<open>
  A block given by two numerals is turned into its sixteen bytes; a round then is table
  lookups and XORs of bytes. The rotations of the key schedule stay on the 64-bit halves.
\<close>

lemma to_blk: "\<lparr> left = l, right = r \<rparr> = blk (byte_of 56 l) (byte_of 48 l) (byte_of 40 l) (byte_of 32 l) (byte_of 24 l) (byte_of 16 l) (byte_of 8 l) (byte_of 0 l) (byte_of 56 r) (byte_of 48 r) (byte_of 40 r) (byte_of 32 r) (byte_of 24 r) (byte_of 16 r) (byte_of 8 r) (byte_of 0 r)"
  using blk_bytes [of "\<lparr> left = l, right = r \<rparr>"] by simp

lemmas to_blk_numeral =
  to_blk [of "numeral m" "numeral n"] to_blk [of "numeral m" 0]
  to_blk [of 0 "numeral n"] to_blk [of 0 0] for m n

lemma byte_of_eval: "byte_of k w = ucast (drop_bit k w AND 0xff)"
  by (simp add: and_ff ucast_ucast8)

lemmas round_eval = to_blk_numeral byte_of_eval xor128_blk
  aria_FO_def aria_FE_def aria_SL1_blk aria_SL2_blk aria_A_blk diffuse_def
  SB1_nth SB2_nth SB3_nth SB4_nth

text \<open>128-bit key: the values W1, W2, W3, the round keys, the twelve rounds.\<close>

lemma W1_128: "aria_FO (\<lparr> left = 0x0001020304050607, right = 0x08090a0b0c0d0e0f \<rparr>) C1 = \<lparr> left = 0x2afbea741e1746dd, right = 0x55c63ba1afcea0a5 \<rparr>"
  by (simp add: C1_def round_eval)

lemma W2_128: "xor128 (aria_FE (\<lparr> left = 0x2afbea741e1746dd, right = 0x55c63ba1afcea0a5 \<rparr>) C2) (\<lparr> left = 0x0001020304050607, right = 0x08090a0b0c0d0e0f \<rparr>) = \<lparr> left = 0x7c8578018bb127e0, right = 0x2dfe4e78c288e33c \<rparr>"
  by (simp add: C2_def round_eval)

lemma W3_128: "xor128 (aria_FO (\<lparr> left = 0x7c8578018bb127e0, right = 0x2dfe4e78c288e33c \<rparr>) C3) (\<lparr> left = 0x2afbea741e1746dd, right = 0x55c63ba1afcea0a5 \<rparr>) = \<lparr> left = 0x6785b52b74da46bf, right = 0x181054082763ff6d \<rparr>"
  by (simp add: C3_def round_eval)

lemma ek_128_vector:
  "ek_128 (\<lparr> left = 0x0001020304050607, right = 0x08090a0b0c0d0e0f \<rparr>) =
    [\<lparr> left = 0, right = 0 \<rparr>,
     \<lparr> left = 0xd415a75c794b85c5, right = 0xe0d2a0b3cb793bf6 \<rparr>,
     \<lparr> left = 0x369c65e4b11777ab, right = 0x713a3e1e6601b8f4 \<rparr>,
     \<lparr> left = 0x0368d4f13d14497b, right = 0x6529ad7ac809e7d0 \<rparr>,
     \<lparr> left = 0xc644552b549a263f, right = 0xb8d0b50906229eec \<rparr>,
     \<lparr> left = 0x5f9c434951f2d2ef, right = 0x342787b1a781794c \<rparr>,
     \<lparr> left = 0xafea2c0ce71db6de, right = 0x42a47461f4323c54 \<rparr>,
     \<lparr> left = 0x324286db44ba4db6, right = 0xc44ac306f2a84b2c \<rparr>,
     \<lparr> left = 0x7f9fa93574d842b9, right = 0x101a58063771eb7b \<rparr>,
     \<lparr> left = 0xaab9c57731fcd213, right = 0xad5677458fcfe6d4 \<rparr>,
     \<lparr> left = 0x2f4423bb06465aba, right = 0xda5694a19eb88459 \<rparr>,
     \<lparr> left = 0x9f8772808f5d580d, right = 0x810ef8ddac13abeb \<rparr>,
     \<lparr> left = 0x8684946a155be77e, right = 0xf810744847e35fad \<rparr>,
     \<lparr> left = 0x0f0aa16daee61bd7, right = 0xdfee5a599970fb35 \<rparr>,
     \<lparr> left = 0xef23798408e861e1, right = 0x34824a3f918c1ca5 \<rparr>,
     \<lparr> left = 0xc6e85b5e07b90de4, right = 0x3e4fb1ce714a39a9 \<rparr>,
     \<lparr> left = 0xe5873628f0dec3ba, right = 0x9e16d30fa7637e6c \<rparr>,
     \<lparr> left = 0x53a1f2b932efa836, right = 0xd504747e092459d0 \<rparr>]"
  apply (simp only: ek_128_def Let_def W1_128 W2_128 W3_128 ek_local_list compute_ek_list)
  apply (simp add: ror_def rol_def xor128_def zero128_def)
  done

lemma crypt_128_vector:
  "aria_crypt 12
    [\<lparr> left = 0, right = 0 \<rparr>,
     \<lparr> left = 0xd415a75c794b85c5, right = 0xe0d2a0b3cb793bf6 \<rparr>,
     \<lparr> left = 0x369c65e4b11777ab, right = 0x713a3e1e6601b8f4 \<rparr>,
     \<lparr> left = 0x0368d4f13d14497b, right = 0x6529ad7ac809e7d0 \<rparr>,
     \<lparr> left = 0xc644552b549a263f, right = 0xb8d0b50906229eec \<rparr>,
     \<lparr> left = 0x5f9c434951f2d2ef, right = 0x342787b1a781794c \<rparr>,
     \<lparr> left = 0xafea2c0ce71db6de, right = 0x42a47461f4323c54 \<rparr>,
     \<lparr> left = 0x324286db44ba4db6, right = 0xc44ac306f2a84b2c \<rparr>,
     \<lparr> left = 0x7f9fa93574d842b9, right = 0x101a58063771eb7b \<rparr>,
     \<lparr> left = 0xaab9c57731fcd213, right = 0xad5677458fcfe6d4 \<rparr>,
     \<lparr> left = 0x2f4423bb06465aba, right = 0xda5694a19eb88459 \<rparr>,
     \<lparr> left = 0x9f8772808f5d580d, right = 0x810ef8ddac13abeb \<rparr>,
     \<lparr> left = 0x8684946a155be77e, right = 0xf810744847e35fad \<rparr>,
     \<lparr> left = 0x0f0aa16daee61bd7, right = 0xdfee5a599970fb35 \<rparr>,
     \<lparr> left = 0xef23798408e861e1, right = 0x34824a3f918c1ca5 \<rparr>,
     \<lparr> left = 0xc6e85b5e07b90de4, right = 0x3e4fb1ce714a39a9 \<rparr>,
     \<lparr> left = 0xe5873628f0dec3ba, right = 0x9e16d30fa7637e6c \<rparr>,
     \<lparr> left = 0x53a1f2b932efa836, right = 0xd504747e092459d0 \<rparr>]
    (\<lparr> left = 0x0011223344556677, right = 0x8899aabbccddeeff \<rparr>) = \<lparr> left = 0xd718fbd6ab644c73, right = 0x9da95f3be6451778 \<rparr>"
  by (simp add: aria_crypt_def Let_def crypt_loop.simps round_eval)

text \<open>192-bit key.\<close>

lemma W1_192: "xor128 (aria_FO (\<lparr> left = 0x0001020304050607, right = 0x08090a0b0c0d0e0f \<rparr>) C2) (\<lparr> left = 0x1011121314151617, right = 0 \<rparr>) = \<lparr> left = 0xe48c52301e91d991, right = 0xb649ed7bb7cde8ad \<rparr>"
  by (simp add: C2_def round_eval)

lemma W2_192: "xor128 (aria_FE (\<lparr> left = 0xe48c52301e91d991, right = 0xb649ed7bb7cde8ad \<rparr>) C3) (\<lparr> left = 0x0001020304050607, right = 0x08090a0b0c0d0e0f \<rparr>) = \<lparr> left = 0xa356ea6cafe48697, right = 0x97a1b4eea56d38cc \<rparr>"
  by (simp add: C3_def round_eval)

lemma W3_192: "xor128 (aria_FO (\<lparr> left = 0xa356ea6cafe48697, right = 0x97a1b4eea56d38cc \<rparr>) C1) (\<lparr> left = 0xe48c52301e91d991, right = 0xb649ed7bb7cde8ad \<rparr>) = \<lparr> left = 0xe1898f2e0e626ccf, right = 0x1f58bd50713c93bb \<rparr>"
  by (simp add: C1_def round_eval)

lemma ek_192_vector:
  "ek_192 (\<lparr> left = 0x0001020304050607, right = 0x08090a0b0c0d0e0f \<rparr>) (\<lparr> left = 0x1011121314151617, right = 0 \<rparr>) =
    [\<lparr> left = 0, right = 0 \<rparr>,
     \<lparr> left = 0xbd14be928e4305d5, right = 0x333b3cc231a278f6 \<rparr>,
     \<lparr> left = 0x4395c65ac3dc4c6d, right = 0x269b1f8f81503c00 \<rparr>,
     \<lparr> left = 0x3121965d9e01475b, right = 0xda385705b2c736eb \<rparr>,
     \<lparr> left = 0x40486f2e2e220c4f, right = 0xbf985c51507df23a \<rparr>,
     \<lparr> left = 0x6f9ad358cd1da267, right = 0x352ab928609ed4f8 \<rparr>,
     \<lparr> left = 0xae5623a9583c0d48, right = 0xe980e054988e8170 \<rparr>,
     \<lparr> left = 0x412fcd1b6cf798cb, right = 0x8b656d709bdc426c \<rparr>,
     \<lparr> left = 0xf99393300e6068c9, right = 0x1752b15e612e87ad \<rparr>,
     \<lparr> left = 0x36c83fac72fcbb12, right = 0xb498804d0fdf353d \<rparr>,
     \<lparr> left = 0x167864adca3c7e88, right = 0x222330362231787f \<rparr>,
     \<lparr> left = 0x40bdfdc6a1c314e0, right = 0xeb90850b64a17555 \<rparr>,
     \<lparr> left = 0x0088ae6f6fe3cd0e, right = 0xff589d1011bc337b \<rparr>,
     \<lparr> left = 0x0f49eecbdf21f0ba, right = 0xd3effe5dfe4b2717 \<rparr>,
     \<lparr> left = 0xb37e117bd54103e6, right = 0xe4ff711de6669d9b \<rparr>,
     \<lparr> left = 0xa467dc0b2048d83f, right = 0xaf3ffd3355a9ff5b \<rparr>,
     \<lparr> left = 0x638b0c2d8a66e9ca, right = 0x995e3a57f13c12ba \<rparr>,
     \<lparr> left = 0x9181f68dc888b448, right = 0x63d4b46449622a6d \<rparr>]"
  apply (simp only: ek_192_def Let_def W1_192 W2_192 W3_192 ek_local_list compute_ek_list)
  apply (simp add: ror_def rol_def xor128_def zero128_def)
  done

lemma crypt_192_vector:
  "aria_crypt 14
    [\<lparr> left = 0, right = 0 \<rparr>,
     \<lparr> left = 0xbd14be928e4305d5, right = 0x333b3cc231a278f6 \<rparr>,
     \<lparr> left = 0x4395c65ac3dc4c6d, right = 0x269b1f8f81503c00 \<rparr>,
     \<lparr> left = 0x3121965d9e01475b, right = 0xda385705b2c736eb \<rparr>,
     \<lparr> left = 0x40486f2e2e220c4f, right = 0xbf985c51507df23a \<rparr>,
     \<lparr> left = 0x6f9ad358cd1da267, right = 0x352ab928609ed4f8 \<rparr>,
     \<lparr> left = 0xae5623a9583c0d48, right = 0xe980e054988e8170 \<rparr>,
     \<lparr> left = 0x412fcd1b6cf798cb, right = 0x8b656d709bdc426c \<rparr>,
     \<lparr> left = 0xf99393300e6068c9, right = 0x1752b15e612e87ad \<rparr>,
     \<lparr> left = 0x36c83fac72fcbb12, right = 0xb498804d0fdf353d \<rparr>,
     \<lparr> left = 0x167864adca3c7e88, right = 0x222330362231787f \<rparr>,
     \<lparr> left = 0x40bdfdc6a1c314e0, right = 0xeb90850b64a17555 \<rparr>,
     \<lparr> left = 0x0088ae6f6fe3cd0e, right = 0xff589d1011bc337b \<rparr>,
     \<lparr> left = 0x0f49eecbdf21f0ba, right = 0xd3effe5dfe4b2717 \<rparr>,
     \<lparr> left = 0xb37e117bd54103e6, right = 0xe4ff711de6669d9b \<rparr>,
     \<lparr> left = 0xa467dc0b2048d83f, right = 0xaf3ffd3355a9ff5b \<rparr>,
     \<lparr> left = 0x638b0c2d8a66e9ca, right = 0x995e3a57f13c12ba \<rparr>,
     \<lparr> left = 0x9181f68dc888b448, right = 0x63d4b46449622a6d \<rparr>]
    (\<lparr> left = 0x0011223344556677, right = 0x8899aabbccddeeff \<rparr>) = \<lparr> left = 0x26449c1805dbe7aa, right = 0x25a468ce263a9e79 \<rparr>"
  by (simp add: aria_crypt_def Let_def crypt_loop.simps round_eval)

text \<open>256-bit key.\<close>

lemma W1_256: "xor128 (aria_FO (\<lparr> left = 0x0001020304050607, right = 0x08090a0b0c0d0e0f \<rparr>) C3) (\<lparr> left = 0x1011121314151617, right = 0x18191a1b1c1d1e1f \<rparr>) = \<lparr> left = 0x15169e6ec54aaf0c, right = 0x975414fead1c71f3 \<rparr>"
  by (simp add: C3_def round_eval)

lemma W2_256: "xor128 (aria_FE (\<lparr> left = 0x15169e6ec54aaf0c, right = 0x975414fead1c71f3 \<rparr>) C1) (\<lparr> left = 0x0001020304050607, right = 0x08090a0b0c0d0e0f \<rparr>) = \<lparr> left = 0x90ec92c2a800405a, right = 0xf99389e9c88b4e62 \<rparr>"
  by (simp add: C1_def round_eval)

lemma W3_256: "xor128 (aria_FO (\<lparr> left = 0x90ec92c2a800405a, right = 0xf99389e9c88b4e62 \<rparr>) C2) (\<lparr> left = 0x15169e6ec54aaf0c, right = 0x975414fead1c71f3 \<rparr>) = \<lparr> left = 0xb68cd7a1ba16abee, right = 0x905f7009a8e968a9 \<rparr>"
  by (simp add: C2_def round_eval)

lemma ek_256_vector:
  "ek_256 (\<lparr> left = 0x0001020304050607, right = 0x08090a0b0c0d0e0f \<rparr>) (\<lparr> left = 0x1011121314151617, right = 0x18191a1b1c1d1e1f \<rparr>) =
    [\<lparr> left = 0, right = 0 \<rparr>,
     \<lparr> left = 0x8e3f60a1d7c8deae, right = 0x5de898e18e92dbac \<rparr>,
     \<lparr> left = 0x7cdacc735712fa0c, right = 0x9f5f4bccdc2148e2 \<rparr>,
     \<lparr> left = 0xbdf9a41332f47718, right = 0x2cee5be2268a7b7f \<rparr>,
     \<lparr> left = 0x174d37a19a56cb6e, right = 0x309f910889a80928 \<rparr>,
     \<lparr> left = 0x5a39e1e52e283ada, right = 0x829c541222a527f2 \<rparr>,
     \<lparr> left = 0x840002abe4938a89, right = 0xc754944b5e3b6220 \<rparr>,
     \<lparr> left = 0xc13e4391c519ef19, right = 0x8dbede34e835ae71 \<rparr>,
     \<lparr> left = 0xae96cbbfba14afe8, right = 0x98557c07b8fb7cbf \<rparr>,
     \<lparr> left = 0x92eb809cd1a68839, right = 0x6aabd9c6d4a45bee \<rparr>,
     \<lparr> left = 0x4a24ef53fc5bc6c0, right = 0xc54986a6f81c79f8 \<rparr>,
     \<lparr> left = 0x42e77cc39d1d6d4f, right = 0xcf42131dffc99b1f \<rparr>,
     \<lparr> left = 0x578df6e0db970a2f, right = 0x705f5049c869c869 \<rparr>,
     \<lparr> left = 0x62a455854faf0c78, right = 0x5e8732f286864138 \<rparr>,
     \<lparr> left = 0x4116be43b9836bf8, right = 0x7311b3cfe56a3892 \<rparr>,
     \<lparr> left = 0x4de7c735e02ff85e, right = 0x2de73dbd13cd25b2 \<rparr>,
     \<lparr> left = 0x348e54a23e122eeb, right = 0x1659f70e28e9e9a8 \<rparr>,
     \<lparr> left = 0xf37728567c61bca7, right = 0xaffc62e88395a6bb \<rparr>]"
  apply (simp only: ek_256_def Let_def W1_256 W2_256 W3_256 ek_local_list compute_ek_list)
  apply (simp add: ror_def rol_def xor128_def zero128_def)
  done

lemma crypt_256_vector:
  "aria_crypt 16
    [\<lparr> left = 0, right = 0 \<rparr>,
     \<lparr> left = 0x8e3f60a1d7c8deae, right = 0x5de898e18e92dbac \<rparr>,
     \<lparr> left = 0x7cdacc735712fa0c, right = 0x9f5f4bccdc2148e2 \<rparr>,
     \<lparr> left = 0xbdf9a41332f47718, right = 0x2cee5be2268a7b7f \<rparr>,
     \<lparr> left = 0x174d37a19a56cb6e, right = 0x309f910889a80928 \<rparr>,
     \<lparr> left = 0x5a39e1e52e283ada, right = 0x829c541222a527f2 \<rparr>,
     \<lparr> left = 0x840002abe4938a89, right = 0xc754944b5e3b6220 \<rparr>,
     \<lparr> left = 0xc13e4391c519ef19, right = 0x8dbede34e835ae71 \<rparr>,
     \<lparr> left = 0xae96cbbfba14afe8, right = 0x98557c07b8fb7cbf \<rparr>,
     \<lparr> left = 0x92eb809cd1a68839, right = 0x6aabd9c6d4a45bee \<rparr>,
     \<lparr> left = 0x4a24ef53fc5bc6c0, right = 0xc54986a6f81c79f8 \<rparr>,
     \<lparr> left = 0x42e77cc39d1d6d4f, right = 0xcf42131dffc99b1f \<rparr>,
     \<lparr> left = 0x578df6e0db970a2f, right = 0x705f5049c869c869 \<rparr>,
     \<lparr> left = 0x62a455854faf0c78, right = 0x5e8732f286864138 \<rparr>,
     \<lparr> left = 0x4116be43b9836bf8, right = 0x7311b3cfe56a3892 \<rparr>,
     \<lparr> left = 0x4de7c735e02ff85e, right = 0x2de73dbd13cd25b2 \<rparr>,
     \<lparr> left = 0x348e54a23e122eeb, right = 0x1659f70e28e9e9a8 \<rparr>,
     \<lparr> left = 0xf37728567c61bca7, right = 0xaffc62e88395a6bb \<rparr>]
    (\<lparr> left = 0x0011223344556677, right = 0x8899aabbccddeeff \<rparr>) = \<lparr> left = 0xf92bd7c79fb72e2f, right = 0x2b8f80c1972d24fc \<rparr>"
  by (simp add: aria_crypt_def Let_def crypt_loop.simps round_eval)

lemma vector_bytes:
  "blk 0x00 0x01 0x02 0x03 0x04 0x05 0x06 0x07 0x08 0x09 0x0a 0x0b 0x0c 0x0d 0x0e 0x0f = \<lparr> left = 0x0001020304050607, right = 0x08090a0b0c0d0e0f \<rparr>"
  "blk 0x10 0x11 0x12 0x13 0x14 0x15 0x16 0x17 0x00 0x00 0x00 0x00 0x00 0x00 0x00 0x00 = \<lparr> left = 0x1011121314151617, right = 0 \<rparr>"
  "blk 0x10 0x11 0x12 0x13 0x14 0x15 0x16 0x17 0x18 0x19 0x1a 0x1b 0x1c 0x1d 0x1e 0x1f = \<lparr> left = 0x1011121314151617, right = 0x18191a1b1c1d1e1f \<rparr>"
  "blk 0x00 0x11 0x22 0x33 0x44 0x55 0x66 0x77 0x88 0x99 0xaa 0xbb 0xcc 0xdd 0xee 0xff = \<lparr> left = 0x0011223344556677, right = 0x8899aabbccddeeff \<rparr>"
  "blk 0xd7 0x18 0xfb 0xd6 0xab 0x64 0x4c 0x73 0x9d 0xa9 0x5f 0x3b 0xe6 0x45 0x17 0x78 = \<lparr> left = 0xd718fbd6ab644c73, right = 0x9da95f3be6451778 \<rparr>"
  "blk 0x26 0x44 0x9c 0x18 0x05 0xdb 0xe7 0xaa 0x25 0xa4 0x68 0xce 0x26 0x3a 0x9e 0x79 = \<lparr> left = 0x26449c1805dbe7aa, right = 0x25a468ce263a9e79 \<rparr>"
  "blk 0xf9 0x2b 0xd7 0xc7 0x9f 0xb7 0x2e 0x2f 0x2b 0x8f 0x80 0xc1 0x97 0x2d 0x24 0xfc = \<lparr> left = 0xf92bd7c79fb72e2f, right = 0x2b8f80c1972d24fc \<rparr>"
  by (simp_all add: blk_def pack8_def)

section \<open>The contents of the uninitialised array never reach a result\<close>

text \<open>
  Whatever the eighteen entries of the local array hold when a function starts, the engine
  returns the same block: \<open>compute_ek\<close> overwrites the entries 1 to 17, entry 0 is not read
  by the engine, and the key derivation of the decrypting functions writes entry 0 before it
  reads it.
\<close>

lemma compute_ek_array:
  assumes "length ek = 18"
  shows "compute_ek W0 W1 W2 W3 ek =
     [ek ! 0, xor128 W0 (ror W1 19),
      xor128 W1 (ror W2 19),
      xor128 W2 (ror W3 19),
      xor128 (ror W0 19) W3,
      xor128 W0 (ror W1 31),
      xor128 W1 (ror W2 31),
      xor128 W2 (ror W3 31),
      xor128 (ror W0 31) W3,
      xor128 W0 (rol W1 61),
      xor128 W1 (rol W2 61),
      xor128 W2 (rol W3 61),
      xor128 (rol W0 61) W3,
      xor128 W0 (rol W1 31),
      xor128 W1 (rol W2 31),
      xor128 W2 (rol W3 31),
      xor128 (rol W0 31) W3,
      xor128 W0 (rol W1 19)]"
proof -
  have "compute_ek W0 W1 W2 W3 [ek ! 0, ek ! 1, ek ! 2, ek ! 3, ek ! 4, ek ! 5, ek ! 6, ek ! 7, ek ! 8, ek ! 9, ek ! 10, ek ! 11, ek ! 12, ek ! 13, ek ! 14, ek ! 15, ek ! 16, ek ! 17] =
     [ek ! 0, xor128 W0 (ror W1 19),
      xor128 W1 (ror W2 19),
      xor128 W2 (ror W3 19),
      xor128 (ror W0 19) W3,
      xor128 W0 (ror W1 31),
      xor128 W1 (ror W2 31),
      xor128 W2 (ror W3 31),
      xor128 (ror W0 31) W3,
      xor128 W0 (rol W1 61),
      xor128 W1 (rol W2 61),
      xor128 W2 (rol W3 61),
      xor128 (rol W0 61) W3,
      xor128 W0 (rol W1 31),
      xor128 W1 (rol W2 31),
      xor128 W2 (rol W3 31),
      xor128 (rol W0 31) W3,
      xor128 W0 (rol W1 19)]"
    by (rule compute_ek_list)
  then show ?thesis by (simp only: list18 [OF assms, symmetric])
qed

lemma uninitialised_irrelevant:
  assumes "length ek = 18"
  shows "aria_crypt 12 (compute_ek W0 W1 W2 W3 ek) P
           = aria_crypt 12 (compute_ek W0 W1 W2 W3 ek_local) P"
    and "aria_crypt 14 (compute_ek W0 W1 W2 W3 ek) P
           = aria_crypt 14 (compute_ek W0 W1 W2 W3 ek_local) P"
    and "aria_crypt 16 (compute_ek W0 W1 W2 W3 ek) P
           = aria_crypt 16 (compute_ek W0 W1 W2 W3 ek_local) P"
    and "aria_crypt 12 (dk_128 (compute_ek W0 W1 W2 W3 ek)) P
           = aria_crypt 12 (dk_128 (compute_ek W0 W1 W2 W3 ek_local)) P"
    and "aria_crypt 14 (dk_192 (compute_ek W0 W1 W2 W3 ek)) P
           = aria_crypt 14 (dk_192 (compute_ek W0 W1 W2 W3 ek_local)) P"
    and "aria_crypt 16 (dk_256 (compute_ek W0 W1 W2 W3 ek)) P
           = aria_crypt 16 (dk_256 (compute_ek W0 W1 W2 W3 ek_local)) P"
  unfolding compute_ek_array [OF assms] ek_local_list compute_ek_list
    dk_128_list dk_192_list dk_256_list
  by (simp_all add: aria_crypt_def Let_def crypt_loop.simps)

section \<open>The diffusion layer\<close>

text \<open>
  Claim C6. The diffusion layer A is an involution: for every 128-bit block \<open>x\<close>,
  \<open>A (A x) = x\<close>. The function is the compiled branch of \<open>aria_A\<close>.
\<close>

theorem C6_diffusion_involution: "aria_A (aria_A x) = x"
  by (rule aria_A_invol)

text \<open>
  Claim C10. The optimised diffusion layer, which first computes the four shared XORs
  \<open>t0 = x0 ^ x7 ^ x10 ^ x13\<close>, \<open>t1 = x1 ^ x6 ^ x11 ^ x12\<close>, \<open>t2 = x2 ^ x5 ^ x8 ^ x15\<close> and
  \<open>t3 = x3 ^ x4 ^ x9 ^ x14\<close>, computes for every block the same result as the direct
  definition, in which each output byte is the XOR of its seven input bytes.
\<close>

theorem C10_optimised_equals_direct: "aria_A x = aria_A_direct x"
  by (simp only: aria_A_bytes aria_A_direct_bytes)

section \<open>The substitution tables and layers\<close>

text \<open>
  Claim C7. The substitution tables are inverse in pairs: for every byte \<open>b\<close>
  (0 to 255), \<open>SB3[SB1[b]] = b\<close> and \<open>SB4[SB2[b]] = b\<close>.
\<close>

theorem C7_tables_inverse:
  "SB3 ! unat (SB1 ! unat (b :: 8 word)) = b \<and> SB4 ! unat (SB2 ! unat b) = b"
  by (simp only: SB3_SB1 SB4_SB2)

text \<open>
  Claim C8. For every 16-byte block, substitution layer type 1 maps the byte at each position
  \<open>i\<close> through the table given by the pattern (SB1, SB2, SB3, SB4) repeated over the
  positions 0 to 15, and type 2 through the pattern (SB3, SB4, SB1, SB2); the output byte at
  position \<open>i\<close> depends on the input byte at position \<open>i\<close> only: two blocks with the
  same byte there give the same output byte there.
\<close>

theorem C8_substitution_layers:
  "i < 16 \<Longrightarrow>
     byte_at (aria_SL1 x) i = SL1_table i ! unat (byte_at x i) \<and>
     byte_at (aria_SL2 x) i = SL2_table i ! unat (byte_at x i) \<and>
     (byte_at x i = byte_at y i \<longrightarrow>
        byte_at (aria_SL1 x) i = byte_at (aria_SL1 y) i \<and>
        byte_at (aria_SL2 x) i = byte_at (aria_SL2 y) i)"
  by (simp add: byte_at_SL1 byte_at_SL2)

theorem C8_substitution_layers_witness:
  "(5 :: nat) < 16 \<and>
   byte_at \<lparr> left = 0x0011223344556677, right = 0x8899aabbccddeeff \<rparr> 5
     = byte_at \<lparr> left = 0x0000000000550000, right = 0 \<rparr> 5 \<and>
   byte_at (aria_SL1 \<lparr> left = 0x0011223344556677, right = 0x8899aabbccddeeff \<rparr>) 5 = 0x83 \<and>
   byte_at (aria_SL2 \<lparr> left = 0x0011223344556677, right = 0x8899aabbccddeeff \<rparr>) 5 = 0x24 \<and>
   byte_at (aria_SL1 \<lparr> left = 0x0011223344556677, right = 0x8899aabbccddeeff \<rparr>) 5
     = byte_at (aria_SL1 \<lparr> left = 0x0000000000550000, right = 0 \<rparr>) 5 \<and>
   byte_at (aria_SL2 \<lparr> left = 0x0011223344556677, right = 0x8899aabbccddeeff \<rparr>) 5
     = byte_at (aria_SL2 \<lparr> left = 0x0000000000550000, right = 0 \<rparr>) 5"
proof -
  have i: "(5 :: nat) < 16" by simp
  have b: "byte_at \<lparr> left = 0x0011223344556677, right = 0x8899aabbccddeeff \<rparr> 5 = 0x55"
    "byte_at \<lparr> left = 0x0000000000550000, right = 0 \<rparr> 5 = 0x55"
    by (simp_all add: byte_at_def byte_of_def)
  have t: "SL1_table 5 ! 85 = (0x83 :: 8 word)" "SL2_table 5 ! 85 = (0x24 :: 8 word)"
    by (simp_all add: SL1_table_def SL2_table_def SB2_nth SB4_nth)
  from C8_substitution_layers [OF i, of "\<lparr> left = 0x0011223344556677, right = 0x8899aabbccddeeff \<rparr>"
      "\<lparr> left = 0x0000000000550000, right = 0 \<rparr>"]
  show ?thesis by (auto simp add: b t)
qed

section \<open>The crypt engine\<close>

text \<open>
  Claim C3. For every round count \<open>rounds\<close> among 12, 14 and 16, every round-key array
  with the entries 1 to \<open>rounds + 1\<close> and every input block, \<open>aria_crypt\<close> returns the
  composition the specification gives: the odd round function FO on the input and \<open>ek[1]\<close>,
  then the even and odd round functions in turn on \<open>ek[2]\<close> to \<open>ek[rounds - 1]\<close>, then
  \<open>SL2 (previous XOR ek[rounds]) XOR ek[rounds + 1]\<close>, a last round without diffusion;
  here \<open>FO (D, RK) = A (SL1 (D XOR RK))\<close> and \<open>FE (D, RK) = A (SL2 (D XOR RK))\<close>.
\<close>

theorem C3_crypt_engine:
  "rounds \<in> {12, 14, 16} \<Longrightarrow> rounds + 2 \<le> length ek \<Longrightarrow>
     aria_crypt rounds ek D = crypt_spec rounds ek D \<and>
     aria_FO D RK = aria_A (aria_SL1 (xor128 D RK)) \<and>
     aria_FE D RK = aria_A (aria_SL2 (xor128 D RK))"
  by (auto simp add: aria_crypt_spec aria_FO_def aria_FE_def)

text \<open>
  The theorem used on the round keys and the plaintext of RFC 5794, A.1: engine and
  specification both give the ciphertext of the vector.
\<close>

theorem C3_crypt_engine_witness:
  "(12 :: nat) \<in> {12, 14, 16} \<and>
   12 + 2 \<le> length
    [\<lparr> left = 0, right = 0 \<rparr>,
     \<lparr> left = 0xd415a75c794b85c5, right = 0xe0d2a0b3cb793bf6 \<rparr>,
     \<lparr> left = 0x369c65e4b11777ab, right = 0x713a3e1e6601b8f4 \<rparr>,
     \<lparr> left = 0x0368d4f13d14497b, right = 0x6529ad7ac809e7d0 \<rparr>,
     \<lparr> left = 0xc644552b549a263f, right = 0xb8d0b50906229eec \<rparr>,
     \<lparr> left = 0x5f9c434951f2d2ef, right = 0x342787b1a781794c \<rparr>,
     \<lparr> left = 0xafea2c0ce71db6de, right = 0x42a47461f4323c54 \<rparr>,
     \<lparr> left = 0x324286db44ba4db6, right = 0xc44ac306f2a84b2c \<rparr>,
     \<lparr> left = 0x7f9fa93574d842b9, right = 0x101a58063771eb7b \<rparr>,
     \<lparr> left = 0xaab9c57731fcd213, right = 0xad5677458fcfe6d4 \<rparr>,
     \<lparr> left = 0x2f4423bb06465aba, right = 0xda5694a19eb88459 \<rparr>,
     \<lparr> left = 0x9f8772808f5d580d, right = 0x810ef8ddac13abeb \<rparr>,
     \<lparr> left = 0x8684946a155be77e, right = 0xf810744847e35fad \<rparr>,
     \<lparr> left = 0x0f0aa16daee61bd7, right = 0xdfee5a599970fb35 \<rparr>,
     \<lparr> left = 0xef23798408e861e1, right = 0x34824a3f918c1ca5 \<rparr>,
     \<lparr> left = 0xc6e85b5e07b90de4, right = 0x3e4fb1ce714a39a9 \<rparr>,
     \<lparr> left = 0xe5873628f0dec3ba, right = 0x9e16d30fa7637e6c \<rparr>,
     \<lparr> left = 0x53a1f2b932efa836, right = 0xd504747e092459d0 \<rparr>] \<and>
   aria_crypt 12
    [\<lparr> left = 0, right = 0 \<rparr>,
     \<lparr> left = 0xd415a75c794b85c5, right = 0xe0d2a0b3cb793bf6 \<rparr>,
     \<lparr> left = 0x369c65e4b11777ab, right = 0x713a3e1e6601b8f4 \<rparr>,
     \<lparr> left = 0x0368d4f13d14497b, right = 0x6529ad7ac809e7d0 \<rparr>,
     \<lparr> left = 0xc644552b549a263f, right = 0xb8d0b50906229eec \<rparr>,
     \<lparr> left = 0x5f9c434951f2d2ef, right = 0x342787b1a781794c \<rparr>,
     \<lparr> left = 0xafea2c0ce71db6de, right = 0x42a47461f4323c54 \<rparr>,
     \<lparr> left = 0x324286db44ba4db6, right = 0xc44ac306f2a84b2c \<rparr>,
     \<lparr> left = 0x7f9fa93574d842b9, right = 0x101a58063771eb7b \<rparr>,
     \<lparr> left = 0xaab9c57731fcd213, right = 0xad5677458fcfe6d4 \<rparr>,
     \<lparr> left = 0x2f4423bb06465aba, right = 0xda5694a19eb88459 \<rparr>,
     \<lparr> left = 0x9f8772808f5d580d, right = 0x810ef8ddac13abeb \<rparr>,
     \<lparr> left = 0x8684946a155be77e, right = 0xf810744847e35fad \<rparr>,
     \<lparr> left = 0x0f0aa16daee61bd7, right = 0xdfee5a599970fb35 \<rparr>,
     \<lparr> left = 0xef23798408e861e1, right = 0x34824a3f918c1ca5 \<rparr>,
     \<lparr> left = 0xc6e85b5e07b90de4, right = 0x3e4fb1ce714a39a9 \<rparr>,
     \<lparr> left = 0xe5873628f0dec3ba, right = 0x9e16d30fa7637e6c \<rparr>,
     \<lparr> left = 0x53a1f2b932efa836, right = 0xd504747e092459d0 \<rparr>]
    (\<lparr> left = 0x0011223344556677, right = 0x8899aabbccddeeff \<rparr>) = \<lparr> left = 0xd718fbd6ab644c73, right = 0x9da95f3be6451778 \<rparr> \<and>
   crypt_spec 12
    [\<lparr> left = 0, right = 0 \<rparr>,
     \<lparr> left = 0xd415a75c794b85c5, right = 0xe0d2a0b3cb793bf6 \<rparr>,
     \<lparr> left = 0x369c65e4b11777ab, right = 0x713a3e1e6601b8f4 \<rparr>,
     \<lparr> left = 0x0368d4f13d14497b, right = 0x6529ad7ac809e7d0 \<rparr>,
     \<lparr> left = 0xc644552b549a263f, right = 0xb8d0b50906229eec \<rparr>,
     \<lparr> left = 0x5f9c434951f2d2ef, right = 0x342787b1a781794c \<rparr>,
     \<lparr> left = 0xafea2c0ce71db6de, right = 0x42a47461f4323c54 \<rparr>,
     \<lparr> left = 0x324286db44ba4db6, right = 0xc44ac306f2a84b2c \<rparr>,
     \<lparr> left = 0x7f9fa93574d842b9, right = 0x101a58063771eb7b \<rparr>,
     \<lparr> left = 0xaab9c57731fcd213, right = 0xad5677458fcfe6d4 \<rparr>,
     \<lparr> left = 0x2f4423bb06465aba, right = 0xda5694a19eb88459 \<rparr>,
     \<lparr> left = 0x9f8772808f5d580d, right = 0x810ef8ddac13abeb \<rparr>,
     \<lparr> left = 0x8684946a155be77e, right = 0xf810744847e35fad \<rparr>,
     \<lparr> left = 0x0f0aa16daee61bd7, right = 0xdfee5a599970fb35 \<rparr>,
     \<lparr> left = 0xef23798408e861e1, right = 0x34824a3f918c1ca5 \<rparr>,
     \<lparr> left = 0xc6e85b5e07b90de4, right = 0x3e4fb1ce714a39a9 \<rparr>,
     \<lparr> left = 0xe5873628f0dec3ba, right = 0x9e16d30fa7637e6c \<rparr>,
     \<lparr> left = 0x53a1f2b932efa836, right = 0xd504747e092459d0 \<rparr>]
    (\<lparr> left = 0x0011223344556677, right = 0x8899aabbccddeeff \<rparr>) = \<lparr> left = 0xd718fbd6ab644c73, right = 0x9da95f3be6451778 \<rparr>"
proof -
  have r: "(12 :: nat) \<in> {12, 14, 16}" by simp
  have l: "12 + 2 \<le> length
    [\<lparr> left = 0, right = 0 \<rparr>,
     \<lparr> left = 0xd415a75c794b85c5, right = 0xe0d2a0b3cb793bf6 \<rparr>,
     \<lparr> left = 0x369c65e4b11777ab, right = 0x713a3e1e6601b8f4 \<rparr>,
     \<lparr> left = 0x0368d4f13d14497b, right = 0x6529ad7ac809e7d0 \<rparr>,
     \<lparr> left = 0xc644552b549a263f, right = 0xb8d0b50906229eec \<rparr>,
     \<lparr> left = 0x5f9c434951f2d2ef, right = 0x342787b1a781794c \<rparr>,
     \<lparr> left = 0xafea2c0ce71db6de, right = 0x42a47461f4323c54 \<rparr>,
     \<lparr> left = 0x324286db44ba4db6, right = 0xc44ac306f2a84b2c \<rparr>,
     \<lparr> left = 0x7f9fa93574d842b9, right = 0x101a58063771eb7b \<rparr>,
     \<lparr> left = 0xaab9c57731fcd213, right = 0xad5677458fcfe6d4 \<rparr>,
     \<lparr> left = 0x2f4423bb06465aba, right = 0xda5694a19eb88459 \<rparr>,
     \<lparr> left = 0x9f8772808f5d580d, right = 0x810ef8ddac13abeb \<rparr>,
     \<lparr> left = 0x8684946a155be77e, right = 0xf810744847e35fad \<rparr>,
     \<lparr> left = 0x0f0aa16daee61bd7, right = 0xdfee5a599970fb35 \<rparr>,
     \<lparr> left = 0xef23798408e861e1, right = 0x34824a3f918c1ca5 \<rparr>,
     \<lparr> left = 0xc6e85b5e07b90de4, right = 0x3e4fb1ce714a39a9 \<rparr>,
     \<lparr> left = 0xe5873628f0dec3ba, right = 0x9e16d30fa7637e6c \<rparr>,
     \<lparr> left = 0x53a1f2b932efa836, right = 0xd504747e092459d0 \<rparr>]" by simp
  from C3_crypt_engine [OF r l, of "\<lparr> left = 0x0011223344556677, right = 0x8899aabbccddeeff \<rparr>"] r l crypt_128_vector
  show ?thesis by simp
qed

section \<open>Known-answer vectors\<close>

text \<open>
  Claim C2. Encryption reproduces the three published vectors: with the 128-bit key
  000102030405060708090a0b0c0d0e0f, with that key extended by 1011121314151617 to 192 bits,
  and extended by 101112131415161718191a1b1c1d1e1f to 256 bits, the plaintext
  00112233445566778899aabbccddeeff encrypts to d718fbd6ab644c739da95f3be6451778,
  26449c1805dbe7aa25a468ce263a9e79 and f92bd7c79fb72e2f2b8f80c1972d24fc. The first three
  equations take the values as the test in \<open>main\<close> writes them, two 64-bit halves a block
  (the 192-bit key with its low 64 bits zero); the last three take them as strings of
  sixteen bytes, byte 0 the most significant.
\<close>

theorem C2_known_answer_vectors:
  "aria_encrypt_128 (\<lparr> left = 0x0001020304050607, right = 0x08090a0b0c0d0e0f \<rparr>) (\<lparr> left = 0x0011223344556677, right = 0x8899aabbccddeeff \<rparr>)
     = \<lparr> left = 0xd718fbd6ab644c73, right = 0x9da95f3be6451778 \<rparr> \<and>
   aria_encrypt_192 (\<lparr> left = 0x0001020304050607, right = 0x08090a0b0c0d0e0f \<rparr>) (\<lparr> left = 0x1011121314151617, right = 0 \<rparr>) (\<lparr> left = 0x0011223344556677, right = 0x8899aabbccddeeff \<rparr>)
     = \<lparr> left = 0x26449c1805dbe7aa, right = 0x25a468ce263a9e79 \<rparr> \<and>
   aria_encrypt_256 (\<lparr> left = 0x0001020304050607, right = 0x08090a0b0c0d0e0f \<rparr>) (\<lparr> left = 0x1011121314151617, right = 0x18191a1b1c1d1e1f \<rparr>) (\<lparr> left = 0x0011223344556677, right = 0x8899aabbccddeeff \<rparr>)
     = \<lparr> left = 0xf92bd7c79fb72e2f, right = 0x2b8f80c1972d24fc \<rparr> \<and>
   aria_encrypt_128 (blk 0x00 0x01 0x02 0x03 0x04 0x05 0x06 0x07 0x08 0x09 0x0a 0x0b 0x0c 0x0d 0x0e 0x0f)
       (blk 0x00 0x11 0x22 0x33 0x44 0x55 0x66 0x77 0x88 0x99 0xaa 0xbb 0xcc 0xdd 0xee 0xff)
     = blk 0xd7 0x18 0xfb 0xd6 0xab 0x64 0x4c 0x73 0x9d 0xa9 0x5f 0x3b 0xe6 0x45 0x17 0x78 \<and>
   aria_encrypt_192 (blk 0x00 0x01 0x02 0x03 0x04 0x05 0x06 0x07 0x08 0x09 0x0a 0x0b 0x0c 0x0d 0x0e 0x0f)
       (blk 0x10 0x11 0x12 0x13 0x14 0x15 0x16 0x17 0x00 0x00 0x00 0x00 0x00 0x00 0x00 0x00)
       (blk 0x00 0x11 0x22 0x33 0x44 0x55 0x66 0x77 0x88 0x99 0xaa 0xbb 0xcc 0xdd 0xee 0xff)
     = blk 0x26 0x44 0x9c 0x18 0x05 0xdb 0xe7 0xaa 0x25 0xa4 0x68 0xce 0x26 0x3a 0x9e 0x79 \<and>
   aria_encrypt_256 (blk 0x00 0x01 0x02 0x03 0x04 0x05 0x06 0x07 0x08 0x09 0x0a 0x0b 0x0c 0x0d 0x0e 0x0f)
       (blk 0x10 0x11 0x12 0x13 0x14 0x15 0x16 0x17 0x18 0x19 0x1a 0x1b 0x1c 0x1d 0x1e 0x1f)
       (blk 0x00 0x11 0x22 0x33 0x44 0x55 0x66 0x77 0x88 0x99 0xaa 0xbb 0xcc 0xdd 0xee 0xff)
     = blk 0xf9 0x2b 0xd7 0xc7 0x9f 0xb7 0x2e 0x2f 0x2b 0x8f 0x80 0xc1 0x97 0x2d 0x24 0xfc"
  unfolding vector_bytes
  by (simp only: aria_encrypt_128_ek aria_encrypt_192_ek aria_encrypt_256_ek
      ek_128_vector ek_192_vector ek_256_vector
      crypt_128_vector crypt_192_vector crypt_256_vector simp_thms)

section \<open>The key schedule\<close>

text \<open>
  Claim C4. For every master key, the encryption round-key array is the first
  \<open>rounds + 1\<close> of the seventeen candidate keys, numbered from 1, where the candidates come
  from \<open>W0 = KL\<close>, \<open>W1 = FO (W0, CK1) XOR KR\<close>, \<open>W2 = FE (W1, CK2) XOR W0\<close>,
  \<open>W3 = FO (W2, CK3) XOR W1\<close> by the seventeen rotate-and-XOR formulas, with
  \<open>(CK1, CK2, CK3)\<close> = \<open>(C1, C2, C3)\<close>, \<open>(C2, C3, C1)\<close>, \<open>(C3, C1, C2)\<close> and \<open>rounds\<close> = 12,
  14, 16 for the key sizes 128, 192, 256. For each key size the theorem gives: the entries
  1 to \<open>rounds + 1\<close> of the array that the entry point fills are that prefix; the entry point
  is the engine run on that array; and the engine gives the same result on the prefix alone
  (behind any entry 0), the entries after \<open>rounds + 1\<close> never being read. The last five
  equations say that \<open>ror\<close> and \<open>rol\<close>, at the counts the formulas use, rotate the 128-bit
  value of the block to the right and to the left.
\<close>

theorem C4_encryption_round_keys:
  "take 13 (tl (ek_128 K)) = enc_round_keys 128 K zero128 \<and>
   aria_encrypt_128 K P = aria_crypt 12 (ek_128 K) P \<and>
   aria_encrypt_128 K P = aria_crypt 12 (e # enc_round_keys 128 K zero128) P \<and>
   take 15 (tl (ek_192 KL KR)) = enc_round_keys 192 KL KR \<and>
   aria_encrypt_192 KL KR P = aria_crypt 14 (ek_192 KL KR) P \<and>
   aria_encrypt_192 KL KR P = aria_crypt 14 (e # enc_round_keys 192 KL KR) P \<and>
   take 17 (tl (ek_256 KL KR)) = enc_round_keys 256 KL KR \<and>
   aria_encrypt_256 KL KR P = aria_crypt 16 (ek_256 KL KR) P \<and>
   aria_encrypt_256 KL KR P = aria_crypt 16 (e # enc_round_keys 256 KL KR) P \<and>
   u128 (ror x 19) = word_rotr 19 (u128 x) \<and>
   u128 (ror x 31) = word_rotr 31 (u128 x) \<and>
   u128 (rol x 61) = word_rotl 61 (u128 x) \<and>
   u128 (rol x 31) = word_rotl 31 (u128 x) \<and>
   u128 (rol x 19) = word_rotl 19 (u128 x)"
proof -
  have "aria_crypt 12 (ek_128 K) P = aria_crypt 12 (e # enc_round_keys 128 K zero128) P"
    using crypt_12_prefix [OF length_ek_128, of K P e] by (simp only: ek_128_spec)
  moreover
  have "aria_crypt 14 (ek_192 KL KR) P = aria_crypt 14 (e # enc_round_keys 192 KL KR) P"
    using crypt_14_prefix [OF length_ek_192, of KL KR P e] by (simp only: ek_192_spec)
  moreover
  have "aria_crypt 16 (ek_256 KL KR) P = aria_crypt 16 (e # enc_round_keys 256 KL KR) P"
    using crypt_16_prefix [OF length_ek_256, of KL KR P e] by (simp only: ek_256_spec)
  moreover
  have "u128 (ror x 19) = word_rotr 19 (u128 x)" "u128 (ror x 31) = word_rotr 31 (u128 x)"
    "u128 (rol x 61) = word_rotl 61 (u128 x)" "u128 (rol x 31) = word_rotl 31 (u128 x)"
    "u128 (rol x 19) = word_rotl 19 (u128 x)"
    by (simp_all add: ror_rotr rol_rotl)
  ultimately show ?thesis
    by (simp only: ek_128_spec ek_192_spec ek_256_spec
        aria_encrypt_128_ek aria_encrypt_192_ek aria_encrypt_256_ek simp_thms)
qed

section \<open>Decryption round keys\<close>

text \<open>
  Claim C5, as the source has it. The decryption round keys are derived in place: the
  statements work on the one array \<open>ek\<close> of the function, which holds the encryption round
  keys before and the decryption round keys after, entry 0 being the scratch slot of the
  swaps. For an array of eighteen entries and \<open>rounds\<close> = 12, 14, 16: entry 1 afterwards is
  the old entry \<open>rounds + 1\<close>, entry \<open>rounds + 1\<close> is the old entry 1, and entry \<open>i\<close> is
  \<open>A\<close> of the old entry \<open>rounds + 2 - i\<close> for every \<open>i\<close> from 2 to \<open>rounds\<close> (the middle
  entry is \<open>A\<close> of itself); the array keeps its eighteen entries. Each decrypting entry point
  is the engine run on the array so rewritten.
\<close>

theorem C5_decryption_round_keys:
  "length ek = 18 \<Longrightarrow>
     (dk_128 ek ! 1 = ek ! 13 \<and> dk_128 ek ! 13 = ek ! 1 \<and>
      (\<forall>i. 2 \<le> i \<and> i \<le> 12 \<longrightarrow> dk_128 ek ! i = aria_A (ek ! (14 - i))) \<and>
      length (dk_128 ek) = 18) \<and>
     (dk_192 ek ! 1 = ek ! 15 \<and> dk_192 ek ! 15 = ek ! 1 \<and>
      (\<forall>i. 2 \<le> i \<and> i \<le> 14 \<longrightarrow> dk_192 ek ! i = aria_A (ek ! (16 - i))) \<and>
      length (dk_192 ek) = 18) \<and>
     (dk_256 ek ! 1 = ek ! 17 \<and> dk_256 ek ! 17 = ek ! 1 \<and>
      (\<forall>i. 2 \<le> i \<and> i \<le> 16 \<longrightarrow> dk_256 ek ! i = aria_A (ek ! (18 - i))) \<and>
      length (dk_256 ek) = 18) \<and>
     aria_decrypt_128 K C = aria_crypt 12 (dk_128 (ek_128 K)) C \<and>
     aria_decrypt_192 KL KR C = aria_crypt 14 (dk_192 (ek_192 KL KR)) C \<and>
     aria_decrypt_256 KL KR C = aria_crypt 16 (dk_256 (ek_256 KL KR)) C"
proof -
  assume len: "length ek = 18"
  have pos: "i \<in> {2, 3, 4, 5, 6, 7, 8, 9, 10, 11, 12, 13, 14, 15, 16}"
    if "2 \<le> i \<and> i \<le> 16" for i :: nat
    using that lt18_cases [of i] by auto
  have a: "\<forall>i. 2 \<le> i \<and> i \<le> 12 \<longrightarrow> dk_128 ek ! i = aria_A (ek ! (14 - i))"
  proof (intro allI impI)
    fix i :: nat assume i: "2 \<le> i \<and> i \<le> 12"
    then have "i \<in> {2, 3, 4, 5, 6, 7, 8, 9, 10, 11, 12, 13, 14, 15, 16}"
      by (intro pos) simp
    with i show "dk_128 ek ! i = aria_A (ek ! (14 - i))"
      unfolding dk_128_array [OF len] by auto
  qed
  have b: "\<forall>i. 2 \<le> i \<and> i \<le> 14 \<longrightarrow> dk_192 ek ! i = aria_A (ek ! (16 - i))"
  proof (intro allI impI)
    fix i :: nat assume i: "2 \<le> i \<and> i \<le> 14"
    then have "i \<in> {2, 3, 4, 5, 6, 7, 8, 9, 10, 11, 12, 13, 14, 15, 16}"
      by (intro pos) simp
    with i show "dk_192 ek ! i = aria_A (ek ! (16 - i))"
      unfolding dk_192_array [OF len] by auto
  qed
  have c: "\<forall>i. 2 \<le> i \<and> i \<le> 16 \<longrightarrow> dk_256 ek ! i = aria_A (ek ! (18 - i))"
  proof (intro allI impI)
    fix i :: nat assume i: "2 \<le> i \<and> i \<le> 16"
    then have "i \<in> {2, 3, 4, 5, 6, 7, 8, 9, 10, 11, 12, 13, 14, 15, 16}"
      by (intro pos)
    with i show "dk_256 ek ! i = aria_A (ek ! (18 - i))"
      unfolding dk_256_array [OF len] by auto
  qed
  have ends: "dk_128 ek ! 1 = ek ! 13" "dk_128 ek ! 13 = ek ! 1"
    "dk_192 ek ! 1 = ek ! 15" "dk_192 ek ! 15 = ek ! 1"
    "dk_256 ek ! 1 = ek ! 17" "dk_256 ek ! 17 = ek ! 1"
    unfolding dk_128_array [OF len] dk_192_array [OF len] dk_256_array [OF len] by simp_all
  from a b c ends length_dk [OF len] show ?thesis
    by (simp only: aria_decrypt_128_dk aria_decrypt_192_dk aria_decrypt_256_dk simp_thms)
qed

text \<open>
  The theorem used on the array of the 128-bit key 000102030405060708090a0b0c0d0e0f, whose
  entry 13 is the round key e13 of RFC 5794, A.1; the position taken is \<open>i = 5\<close>.
\<close>

theorem C5_decryption_round_keys_witness:
  "length (ek_128 (\<lparr> left = 0x0001020304050607, right = 0x08090a0b0c0d0e0f \<rparr>)) = 18 \<and>
   dk_128 (ek_128 (\<lparr> left = 0x0001020304050607, right = 0x08090a0b0c0d0e0f \<rparr>)) ! 1 = \<lparr> left = 0x0f0aa16daee61bd7, right = 0xdfee5a599970fb35 \<rparr> \<and>
   dk_128 (ek_128 (\<lparr> left = 0x0001020304050607, right = 0x08090a0b0c0d0e0f \<rparr>)) ! 13 = \<lparr> left = 0xd415a75c794b85c5, right = 0xe0d2a0b3cb793bf6 \<rparr> \<and>
   dk_128 (ek_128 (\<lparr> left = 0x0001020304050607, right = 0x08090a0b0c0d0e0f \<rparr>)) ! 5 = aria_A (\<lparr> left = 0xaab9c57731fcd213, right = 0xad5677458fcfe6d4 \<rparr>) \<and>
   length (dk_128 (ek_128 (\<lparr> left = 0x0001020304050607, right = 0x08090a0b0c0d0e0f \<rparr>))) = 18"
proof -
  have len: "length (ek_128 (\<lparr> left = 0x0001020304050607, right = 0x08090a0b0c0d0e0f \<rparr>)) = 18"
    by (rule length_ek_128)
  have e: "ek_128 (\<lparr> left = 0x0001020304050607, right = 0x08090a0b0c0d0e0f \<rparr>) ! 13 = \<lparr> left = 0x0f0aa16daee61bd7, right = 0xdfee5a599970fb35 \<rparr>"
    "ek_128 (\<lparr> left = 0x0001020304050607, right = 0x08090a0b0c0d0e0f \<rparr>) ! 1 = \<lparr> left = 0xd415a75c794b85c5, right = 0xe0d2a0b3cb793bf6 \<rparr>"
    "ek_128 (\<lparr> left = 0x0001020304050607, right = 0x08090a0b0c0d0e0f \<rparr>) ! (14 - 5) = \<lparr> left = 0xaab9c57731fcd213, right = 0xad5677458fcfe6d4 \<rparr>"
    unfolding ek_128_vector by simp_all
  have i: "(2 :: nat) \<le> 5 \<and> (5 :: nat) \<le> 12" by simp
  from C5_decryption_round_keys [OF len] i e len show ?thesis
    by metis
qed

text \<open>
  Claim C5, as stated, ends: the result is a new array of the same shape, independent of the
  encryption array. In the source there is no second array: the derivation writes over the
  encryption round keys, and \<open>ek\<close> does not keep them. Here for the key of RFC 5794, A.1,
  where entry 1 afterwards holds e13 and no longer e1.
\<close>

theorem C5_encryption_array_overwritten:
  "\<not> encryption_keys_kept 12 (ek_128 (\<lparr> left = 0x0001020304050607, right = 0x08090a0b0c0d0e0f \<rparr>))
       (dk_128 (ek_128 (\<lparr> left = 0x0001020304050607, right = 0x08090a0b0c0d0e0f \<rparr>)))"
  unfolding encryption_keys_kept_def ek_128_vector dk_128_list by simp

section \<open>Round trip\<close>

text \<open>
  Claim C1. For every master key of 128, 192 or 256 bits and every 128-bit block \<open>P\<close>,
  decrypting the encryption of \<open>P\<close> under the same key gives \<open>P\<close>:
  \<open>aria_decrypt_NNN (key, aria_encrypt_NNN (key, P)) = P\<close> for NNN = 128, 192, 256. The two
  halves of a longer key are arbitrary blocks, so a 192-bit key (low 64 bits of the right
  half zero) is covered.
\<close>

theorem C1_round_trip:
  "aria_decrypt_128 K (aria_encrypt_128 K P) = P \<and>
   aria_decrypt_192 KL KR (aria_encrypt_192 KL KR P) = P \<and>
   aria_decrypt_256 KL KR (aria_encrypt_256 KL KR P) = P"
  by (simp only: aria_encrypt_128_ek aria_encrypt_192_ek aria_encrypt_256_ek
      aria_decrypt_128_dk aria_decrypt_192_dk aria_decrypt_256_dk
      roundtrip_12 [OF length_ek_128] roundtrip_14 [OF length_ek_192]
      roundtrip_16 [OF length_ek_256] simp_thms)

section \<open>Errors of the declared interface\<close>

text \<open>
  Claim C9. Building a schedule with a key size other than 128, 192 or 256 bits (0, 64 and
  512 among them) fails with the key-size error, which is the result value of the call and
  not a value of the schedule; once a schedule has been built, the block transform on it
  does not fail. Both functions are declared in aria.h only and are modelled from the
  specification.
\<close>

theorem C9_key_size_error:
  "(key_size_in_bits \<notin> {128, 192, 256} \<longrightarrow>
      aria_init_key_schedule KeyLeft KeyRight mode key_size_in_bits = Inl KEY_SIZE_BAD) \<and>
   aria_init_key_schedule KeyLeft KeyRight mode 0 = Inl KEY_SIZE_BAD \<and>
   aria_init_key_schedule KeyLeft KeyRight mode 64 = Inl KEY_SIZE_BAD \<and>
   aria_init_key_schedule KeyLeft KeyRight mode 512 = Inl KEY_SIZE_BAD \<and>
   (aria_init_key_schedule KeyLeft KeyRight mode key_size_in_bits = Inr ks \<longrightarrow>
      key_size_in_bits \<in> {128, 192, 256} \<and>
      aria_crypt_ks ks txt = Inr (aria_crypt (unat (ks_rounds ks)) (ks_ek ks) txt))"
proof (cases mode)
  case ENCRYPT
  then show ?thesis
    by (auto simp add: aria_init_key_schedule_def aria_crypt_ks_def
        length_ek_128 length_ek_192 length_ek_256 split: if_splits)
next
  case DECRYPT
  then show ?thesis
    by (auto simp add: aria_init_key_schedule_def aria_crypt_ks_def
        length_dk [OF length_ek_128] length_dk [OF length_ek_192] length_dk [OF length_ek_256]
        split: if_splits)
qed

text \<open>
  The theorem used at the key size 64, which is refused, and at the key size 128 with the
  key of RFC 5794, A.1, where the schedule is built and the transform returns the
  ciphertext of the known-answer vector.
\<close>

theorem C9_key_size_error_witness:
  "(64 :: 32 word) \<notin> {128, 192, 256} \<and>
   aria_init_key_schedule (\<lparr> left = 0x0001020304050607, right = 0x08090a0b0c0d0e0f \<rparr>) zero128 ENCRYPT 64 = Inl KEY_SIZE_BAD \<and>
   aria_init_key_schedule (\<lparr> left = 0x0001020304050607, right = 0x08090a0b0c0d0e0f \<rparr>) zero128 ENCRYPT 128
     = Inr \<lparr> ks_ek = ek_128 (\<lparr> left = 0x0001020304050607, right = 0x08090a0b0c0d0e0f \<rparr>), ks_mode = ENCRYPT, ks_rounds = 12 \<rparr> \<and>
   aria_crypt_ks \<lparr> ks_ek = ek_128 (\<lparr> left = 0x0001020304050607, right = 0x08090a0b0c0d0e0f \<rparr>), ks_mode = ENCRYPT, ks_rounds = 12 \<rparr>
       (\<lparr> left = 0x0011223344556677, right = 0x8899aabbccddeeff \<rparr>)
     = Inr (\<lparr> left = 0xd718fbd6ab644c73, right = 0x9da95f3be6451778 \<rparr>)"
proof -
  have n: "(64 :: 32 word) \<notin> {128, 192, 256}" by simp
  have b: "aria_init_key_schedule (\<lparr> left = 0x0001020304050607, right = 0x08090a0b0c0d0e0f \<rparr>) zero128 ENCRYPT 128
     = Inr \<lparr> ks_ek = ek_128 (\<lparr> left = 0x0001020304050607, right = 0x08090a0b0c0d0e0f \<rparr>), ks_mode = ENCRYPT, ks_rounds = 12 \<rparr>"
    by (simp add: aria_init_key_schedule_def)
  have v: "aria_crypt 12 (ek_128 (\<lparr> left = 0x0001020304050607, right = 0x08090a0b0c0d0e0f \<rparr>)) (\<lparr> left = 0x0011223344556677, right = 0x8899aabbccddeeff \<rparr>) = \<lparr> left = 0xd718fbd6ab644c73, right = 0x9da95f3be6451778 \<rparr>"
    by (simp only: ek_128_vector crypt_128_vector)
  from C9_key_size_error [of 64 "\<lparr> left = 0x0001020304050607, right = 0x08090a0b0c0d0e0f \<rparr>" zero128 ENCRYPT]
    C9_key_size_error [of 128 "\<lparr> left = 0x0001020304050607, right = 0x08090a0b0c0d0e0f \<rparr>" zero128 ENCRYPT
      "\<lparr> ks_ek = ek_128 (\<lparr> left = 0x0001020304050607, right = 0x08090a0b0c0d0e0f \<rparr>), ks_mode = ENCRYPT, ks_rounds = 12 \<rparr>" "\<lparr> left = 0x0011223344556677, right = 0x8899aabbccddeeff \<rparr>"]
    n b v
  show ?thesis by simp
qed

end
